theory Spec2Isabelle
  imports Complex_Main
begin

section \<open>Python values: errors, subscripts, keyword dictionaries\<close>

text \<open>
  The module \<^verbatim>\<open>src_2d/core/model_2d_ddf_mvmm_label_base.py\<close> builds a TensorFlow graph
  in the constructor of \<^verbatim>\<open>UnifiedMultiAtlasSegNet\<close> and extends it in
  \<^verbatim>\<open>Trainer._initialize\<close>.  Every \<^verbatim>\<open>raise\<close> of the source and every Python error of
  a subscript or a dictionary lookup is a value of \<open>py_error\<close>; a function that can
  fail returns \<open>py_error + 'a\<close> with \<open>Inl\<close> for the error.

  \<open>GraphError\<close> is an error TensorFlow raises while a node is built, \<open>TfError\<close> one that
  a session raises while it runs, and \<open>Unmodelled\<close> marks a float result the real-valued
  model has no value for (a NaN, an infinity, broadcasting between unequal shapes).
\<close>

datatype py_error =
    TypeError
  | KeyError string
  | IndexError
  | ValueError string
  | NotImplementedError
  | ZeroDivisionError
  | AttributeError string
  | OverflowError
  | GraphError
  | TfError
  | Unmodelled

definition bind_r :: "py_error + 'a \<Rightarrow> ('a \<Rightarrow> py_error + 'b) \<Rightarrow> py_error + 'b" where
  "bind_r m f = (case m of Inl e \<Rightarrow> Inl e | Inr x \<Rightarrow> f x)"

fun sequence :: "(py_error + 'a) list \<Rightarrow> py_error + 'a list" where
  "sequence [] = Inr []"
| "sequence (m # ms) = bind_r m (\<lambda>x. bind_r (sequence ms) (\<lambda>xs. Inr (x # xs)))"

text \<open>\<^verbatim>\<open>obj[i]\<close> for a tuple that may be \<^verbatim>\<open>None\<close>, with a non-negative index.\<close>

fun subscript :: "'a list option \<Rightarrow> nat \<Rightarrow> py_error + 'a" where
  "subscript None i = Inl TypeError"
| "subscript (Some xs) i = (if i < length xs then Inr (xs ! i) else Inl IndexError)"

text \<open>\<^verbatim>\<open>sub in s\<close> for two strings.\<close>

fun starts_with :: "string \<Rightarrow> string \<Rightarrow> bool" where
  "starts_with [] s = True"
| "starts_with (c # cs) [] = False"
| "starts_with (c # cs) (d # ds) = (c = d \<and> starts_with cs ds)"

fun py_in :: "string \<Rightarrow> string \<Rightarrow> bool" where
  "py_in sub [] = (sub = [])"
| "py_in sub (c # cs) = (starts_with sub (c # cs) \<or> py_in sub cs)"

text \<open>
  The keyword dictionaries, with the keys this module reads.  A field is \<open>None\<close> when
  the key is absent.  Tuples of names are lists of strings (a \<^verbatim>\<open>None\<close> entry behaves
  like any name the code does not compare with); Python floats and float32 tensors
  entries are real numbers.
\<close>

record cost_dict =
  kw_cost_name :: "string option"
  kw_prob_sigma :: "real list option"
  kw_prob_eps :: "real option"
  kw_regularizer :: "string list option"
  kw_regularization_coefficient :: "real list option"
  kw_prior_prob :: "real list option"
  kw_bending_energy_increment_rate :: "real option"

record net_dict =
  kw_method :: "string option"
  kw_diffeomorphism :: "bool option"
  kw_int_steps :: "int option"

definition empty_cost_dict :: cost_dict where
  "empty_cost_dict =
     \<lparr>kw_cost_name = None, kw_prob_sigma = None, kw_prob_eps = None, kw_regularizer = None,
      kw_regularization_coefficient = None, kw_prior_prob = None,
      kw_bending_energy_increment_rate = None\<rparr>"

section \<open>Tensors and the graph\<close>

datatype tensor = Sc real | Tn "tensor list"

datatype static = SReal real | SInt int | SNat nat | SBool bool | SStr string
  | SStrs "string list" | SCost cost_dict | SNetKw net_dict

datatype unop = TfAbs | TfSquare | TfReduceMean | TfReduceMeanAxes12 | TfSqueezeLast
  | GetItem nat | TfCountNonzero | IntegrateVec int

datatype binop = TfDiv | TfMul | TfAdd | TfSub | TfPow | TfLessEqual

text \<open>
  A graph node.  \<open>Unary\<close>, \<open>Binary\<close> and \<open>TfStack\<close> are the TensorFlow operations the module
  applies itself; \<open>GetItem n\<close> is the slice \<^verbatim>\<open>t[..., n, :]\<close>.  \<open>Helper name statics args\<close>
  is a call into a module that is not among the sources (\<^verbatim>\<open>utils_2d\<close>, \<^verbatim>\<open>losses_2d\<close>,
  \<^verbatim>\<open>metrics_2d\<close>, \<^verbatim>\<open>networks_2d\<close>) or a library operation whose arithmetic no property
  below needs: its name, its non-tensor arguments and its tensor arguments.
\<close>

datatype node =
    Placeholder string
  | Variable string
  | Constant tensor
  | Unary unop node
  | Binary binop node node
  | TfStack int "node list"
  | Helper string "static list" "node list"

section \<open>Tensor values\<close>

text \<open>
  A tensor value is a nested list of reals; \<open>has_shape\<close> says that it is rectangular
  with the given dimensions.  Ragged values are junk that no TensorFlow tensor
  corresponds to.
\<close>

fun entries :: "tensor \<Rightarrow> real list" where
  "entries (Sc x) = [x]"
| "entries (Tn ts) = concat (map entries ts)"

fun children :: "tensor \<Rightarrow> tensor list" where
  "children (Sc x) = []"
| "children (Tn ts) = ts"

fun shape_of :: "tensor \<Rightarrow> nat list" where
  "shape_of (Sc x) = []"
| "shape_of (Tn []) = [0]"
| "shape_of (Tn (t # ts)) = Suc (length ts) # shape_of t"

fun has_shape :: "nat list \<Rightarrow> tensor \<Rightarrow> bool" where
  "has_shape [] (Sc x) = True"
| "has_shape (n # ns) (Tn ts) = (length ts = n \<and> list_all (has_shape ns) ts)"
| "has_shape [] (Tn ts) = False"
| "has_shape (n # ns) (Sc x) = False"

fun tmap :: "(real \<Rightarrow> real) \<Rightarrow> tensor \<Rightarrow> tensor" where
  "tmap f (Sc x) = Sc (f x)"
| "tmap f (Tn ts) = Tn (map (tmap f) ts)"

fun tzip :: "(real \<Rightarrow> real \<Rightarrow> real) \<Rightarrow> tensor \<Rightarrow> tensor \<Rightarrow> tensor"
  and tzips :: "(real \<Rightarrow> real \<Rightarrow> real) \<Rightarrow> tensor list \<Rightarrow> tensor list \<Rightarrow> tensor list" where
  "tzip f (Sc x) (Sc y) = Sc (f x y)"
| "tzip f (Tn xs) (Tn ys) = Tn (tzips f xs ys)"
| "tzip f (Sc x) (Tn ys) = Sc x"
| "tzip f (Tn xs) (Sc y) = Tn xs"
| "tzips f (x # xs) (y # ys) = tzip f x y # tzips f xs ys"
| "tzips f [] ys = []"
| "tzips f (x # xs) [] = []"

text \<open>
  An elementwise operation of two tensors: a scalar is broadcast, two tensors of one
  shape are combined entry by entry.  Broadcasting of size-one dimensions between
  tensors of unequal shapes is not modelled.
\<close>

definition broadcast :: "(real \<Rightarrow> real \<Rightarrow> real) \<Rightarrow> tensor \<Rightarrow> tensor \<Rightarrow> py_error + tensor" where
  "broadcast f a b =
     (case a of
        Sc x \<Rightarrow> Inr (tmap (f x) b)
      | Tn xs \<Rightarrow>
          (case b of
             Sc y \<Rightarrow> Inr (tmap (\<lambda>u. f u y) a)
           | Tn ys \<Rightarrow> if shape_of a = shape_of b then Inr (tzip f a b) else Inl Unmodelled))"

text \<open>
  \<^verbatim>\<open>tf.pow\<close> on reals: a natural exponent is a repeated product (so a negative base
  is fine, as in \<^verbatim>\<open>ddf ** 2\<close>); otherwise the base must be positive, or zero with a
  positive exponent.  Everything else is a NaN or an infinity in float32.
\<close>

definition is_nat_exponent :: "real \<Rightarrow> bool" where
  "is_nat_exponent p = (0 \<le> p \<and> p = real (nat \<lfloor>p\<rfloor>))"

definition pow_defined :: "real \<Rightarrow> real \<Rightarrow> bool" where
  "pow_defined p x = (is_nat_exponent p \<or> 0 < x \<or> (x = 0 \<and> 0 < p))"

definition pow_real :: "real \<Rightarrow> real \<Rightarrow> real" where
  "pow_real x p = (if is_nat_exponent p then x ^ nat \<lfloor>p\<rfloor> else x powr p)"

definition apply_bin :: "binop \<Rightarrow> tensor \<Rightarrow> tensor \<Rightarrow> py_error + tensor" where
  "apply_bin b x y =
     (case b of
        TfDiv \<Rightarrow>
          if list_all (\<lambda>d. d \<noteq> 0) (entries y) then broadcast (\<lambda>u v. u / v) x y
          else Inl Unmodelled
      | TfMul \<Rightarrow> broadcast (\<lambda>u v. u * v) x y
      | TfAdd \<Rightarrow> broadcast (\<lambda>u v. u + v) x y
      | TfSub \<Rightarrow> broadcast (\<lambda>u v. u - v) x y
      | TfPow \<Rightarrow>
          (case y of
             Sc p \<Rightarrow>
               if list_all (pow_defined p) (entries x) then Inr (tmap (\<lambda>u. pow_real u p) x)
               else Inl Unmodelled
           | Tn ps \<Rightarrow> Inl Unmodelled)
      | TfLessEqual \<Rightarrow> broadcast (\<lambda>u v. if u \<le> v then 1 else 0) x y)"

text \<open>\<^verbatim>\<open>tf.reduce_mean\<close> over all axes; the mean of no entries is a NaN.\<close>

definition reduce_mean :: "tensor \<Rightarrow> py_error + tensor" where
  "reduce_mean t =
     (if entries t = [] then Inl Unmodelled
      else Inr (Sc (sum_list (entries t) / real (length (entries t)))))"

text \<open>
  \<^verbatim>\<open>tf.reduce_mean(t, axis=(1, 2))\<close>: for each batch item the elementwise mean of the
  sub-tensors at the positions of axes 1 and 2.
\<close>

definition mean_of :: "tensor list \<Rightarrow> py_error + tensor" where
  "mean_of ts =
     (case ts of
        [] \<Rightarrow> Inl Unmodelled
      | t # rest \<Rightarrow>
          if list_all (\<lambda>u. shape_of u = shape_of t) rest
          then Inr (tmap (\<lambda>x. x / real (length ts)) (foldl (tzip (\<lambda>u v. u + v)) t rest))
          else Inl TfError)"

definition reduce_mean_axes12 :: "tensor \<Rightarrow> py_error + tensor" where
  "reduce_mean_axes12 t =
     (if length (shape_of t) < 3 then Inl TfError
      else bind_r (sequence (map (\<lambda>tb. mean_of (concat (map children (children tb))))
                               (children t)))
             (\<lambda>ms. Inr (Tn ms)))"

text \<open>\<^verbatim>\<open>tf.squeeze(t, axis=-1)\<close>: the last dimension must be one.\<close>

fun squeeze_last :: "tensor \<Rightarrow> py_error + tensor" where
  "squeeze_last (Sc x) = Inl TfError"
| "squeeze_last (Tn []) = Inl TfError"
| "squeeze_last (Tn [Sc x]) = Inr (Sc x)"
| "squeeze_last (Tn ts) = bind_r (sequence (map squeeze_last ts)) (\<lambda>us. Inr (Tn us))"

text \<open>
  \<^verbatim>\<open>t[..., n, :]\<close>: the \<open>n\<close>-th row along the axis before the last one.  A tensor whose
  children are all vectors is at that axis.
\<close>

fun is_vector :: "tensor \<Rightarrow> bool" where
  "is_vector (Sc x) = False"
| "is_vector (Tn ts) = list_all (\<lambda>t. children t = [] \<and> shape_of t = []) ts"

fun get_item :: "nat \<Rightarrow> tensor \<Rightarrow> py_error + tensor" where
  "get_item n (Sc x) = Inl TfError"
| "get_item n (Tn ts) =
     (if list_all is_vector ts
      then (if n < length ts then Inr (ts ! n) else Inl TfError)
      else bind_r (sequence (map (get_item n) ts)) (\<lambda>us. Inr (Tn us)))"

text \<open>
  \<^verbatim>\<open>tf.stack(ts, axis)\<close> for tensors of one shape: the new axis is put at depth \<open>d\<close>.
\<close>

primrec stack_at :: "nat \<Rightarrow> tensor list \<Rightarrow> tensor" where
  "stack_at 0 ts = Tn ts"
| "stack_at (Suc d) ts = Tn (map (stack_at d) (transpose (map children ts)))"

definition tf_stack_run :: "int \<Rightarrow> tensor list \<Rightarrow> py_error + tensor" where
  "tf_stack_run axis ts =
     (case ts of
        [] \<Rightarrow> Inl TfError
      | t # rest \<Rightarrow>
          (let r = int (length (shape_of t));
               pos = (if axis < 0 then r + 1 + axis else axis)
           in if list_all (\<lambda>u. shape_of u = shape_of t) rest \<and> 0 \<le> pos \<and> pos \<le> r
              then Inr (stack_at (nat pos) ts) else Inl TfError))"

definition count_nonzero :: "tensor \<Rightarrow> tensor" where
  "count_nonzero t = Sc (real (length (filter (\<lambda>x. x \<noteq> 0) (entries t))))"

section \<open>Running the graph\<close>

text \<open>
  A session interprets the helper calls (\<open>ext\<close>) and holds the current values of the
  variables.  The helpers are parameters of every theorem below.
\<close>

record session =
  ext :: "string \<Rightarrow> static list \<Rightarrow> tensor list \<Rightarrow> py_error + tensor"
  variables :: "string \<Rightarrow> tensor"

text \<open>
  Modelled from the spec: \<^verbatim>\<open>utils_2d.integrate_vec\<close> is not among the sources.  The spec
  (4.2) gives its loop: repeat \<open>steps\<close> times
  \<^verbatim>\<open>displacement <- displacement + resample(displacement, displacement)\<close>; the division by
  \<^verbatim>\<open>2 ** steps\<close> before it is line 137 of the source.  \<^verbatim>\<open>resample\<close> is the external
  spatial resampler, the helper \<open>''resample''\<close> of the session.
\<close>

fun integrate_loop :: "session \<Rightarrow> nat \<Rightarrow> tensor \<Rightarrow> py_error + tensor" where
  "integrate_loop s 0 d = Inr d"
| "integrate_loop s (Suc k) d =
     bind_r (ext s ''resample'' [] [d, d])
       (\<lambda>r. bind_r (broadcast (\<lambda>u v. u + v) d r) (integrate_loop s k))"

definition integrate_vec_run :: "session \<Rightarrow> int \<Rightarrow> tensor \<Rightarrow> py_error + tensor" where
  "integrate_vec_run s steps v = integrate_loop s (nat steps) v"

definition apply_un :: "session \<Rightarrow> unop \<Rightarrow> tensor \<Rightarrow> py_error + tensor" where
  "apply_un s u t =
     (case u of
        TfAbs \<Rightarrow> Inr (tmap abs t)
      | TfSquare \<Rightarrow> Inr (tmap (\<lambda>x. x * x) t)
      | TfReduceMean \<Rightarrow> reduce_mean t
      | TfReduceMeanAxes12 \<Rightarrow> reduce_mean_axes12 t
      | TfSqueezeLast \<Rightarrow> squeeze_last t
      | GetItem n \<Rightarrow> get_item n t
      | TfCountNonzero \<Rightarrow> Inr (count_nonzero t)
      | IntegrateVec k \<Rightarrow> integrate_vec_run s k t)"

text \<open>
  \<^verbatim>\<open>sess.run(node, feed_dict)\<close>: a placeholder that is not fed is an error of the
  session.
\<close>

fun eval :: "session \<Rightarrow> (string \<rightharpoonup> tensor) \<Rightarrow> node \<Rightarrow> py_error + tensor" where
  "eval s fd (Placeholder k) = (case fd k of None \<Rightarrow> Inl TfError | Some v \<Rightarrow> Inr v)"
| "eval s fd (Variable k) = Inr (variables s k)"
| "eval s fd (Constant t) = Inr t"
| "eval s fd (Unary u a) = bind_r (eval s fd a) (apply_un s u)"
| "eval s fd (Binary b x y) =
     bind_r (eval s fd x) (\<lambda>vx. bind_r (eval s fd y) (\<lambda>vy. apply_bin b vx vy))"
| "eval s fd (TfStack axis xs) = bind_r (sequence (map (eval s fd) xs)) (tf_stack_run axis)"
| "eval s fd (Helper name statics xs) =
     bind_r (sequence (map (eval s fd) xs)) (ext s name statics)"

section \<open>The network object\<close>

text \<open>
  The attributes of \<^verbatim>\<open>self\<close> in the order the constructor sets them: \<open>hparams\<close> after
  line 72, \<open>graph_net\<close> after line 156, \<open>seg_net\<close> at the end.  A method of the class
  takes the record of the attributes that exist when it is called.  The logger, the
  summaries flag, the augmentation keywords, the variable lists and the gradients are
  left out.
\<close>

record hparams =
  input_size :: "nat \<times> nat"
  channels :: nat
  n_class :: nat
  n_atlas :: nat
  n_subtypes :: "nat list"
  cost_kwargs :: cost_dict
  cost_name :: "string option"
  net_kwargs :: net_dict
  prob_sigma :: "real list"
  prob_eps :: real
  regularizer_type :: "string list option"
  net_regularizer :: string
  regularization_coefficient :: "real list option"

record graph_net = hparams +
  pi_prior :: node
  ddf :: node
  regularization_loss :: node
  scores :: "node option"
  int_steps :: "int option"
  vec :: "node option"
  target_prob :: node
  warped_atlases_prob :: "node list"
  warped_atlases_weight :: node
  atlases_joint_prob :: "node list"

record seg_net = graph_net +
  cost :: node
  scores_loss :: node
  scores_gt :: node
  pretrain_cost :: node
  segmenter :: node
  average_dice :: node
  myocardial_dice :: node
  jaccard :: node
  ddfs_norm :: node
  bending_energy :: "node option"
  num_neg_jacob :: "node option"

subsection \<open>Graph builders\<close>

text \<open>
  \<^verbatim>\<open>tf.stack(values, axis)\<close> while the graph is built: an empty list is an empty
  constant for axis 0 and an error for any other axis.  A Python list handed to an
  operation is packed the same way along axis 0.
\<close>

definition tf_stack :: "node list \<Rightarrow> int \<Rightarrow> py_error + node" where
  "tf_stack values axis =
     (if values = [] then (if axis = 0 then Inr (Constant (Tn [])) else Inl GraphError)
      else Inr (TfStack axis values))"

definition get_prob_from_label :: "node \<Rightarrow> real \<Rightarrow> real \<Rightarrow> node" where
  "get_prob_from_label label sigma eps =
     Helper ''utils_2d.get_prob_from_label'' [SReal sigma, SReal eps] [label]"

definition get_joint_prob :: "node \<Rightarrow> node" where
  "get_joint_prob prob = Helper ''utils_2d.get_joint_prob'' [] [prob]"

definition get_segmentation :: "node \<Rightarrow> node" where
  "get_segmentation prob = Helper ''utils_2d.get_segmentation'' [] [prob]"

definition integrate_vec :: "node \<Rightarrow> int \<Rightarrow> node" where
  "integrate_vec v steps = Unary (IntegrateVec steps) v"

text \<open>
  \<^verbatim>\<open>SpatialTransformer(interp_method, ...)([source, ddf])\<close>; the method is \<open>None\<close> when
  the caller does not pass one.
\<close>

definition spatial_transform :: "string option \<Rightarrow> node \<Rightarrow> node \<Rightarrow> node" where
  "spatial_transform interp_method source d =
     Helper ''SpatialTransformer''
       (case interp_method of None \<Rightarrow> [] | Some m \<Rightarrow> [SStr m]) [source, d]"

text \<open>\<^verbatim>\<open>2 ** k\<close> for a Python integer \<open>k\<close>: a float when \<open>k\<close> is negative.\<close>

definition py_pow2 :: "int \<Rightarrow> real" where
  "py_pow2 k = (if 0 \<le> k then 2 ^ nat k else 1 / 2 ^ nat (- k))"

definition data :: "string \<Rightarrow> node" where
  "data k = Placeholder k"

definition train_phase :: node where
  "train_phase = Placeholder ''train_phase''"

definition dropout_rate :: node where
  "dropout_rate = Placeholder ''dropout_rate''"

text \<open>
  \<^verbatim>\<open>_get_augmented_data\<close> (lines 211-232): \<^verbatim>\<open>tf.cond(train_phase, true_fn, lambda: data)\<close>,
  entry \<open>k\<close> of the result.  The random affine augmentation of the true branch is a
  helper.
\<close>

definition augmented_data :: "string \<Rightarrow> node" where
  "augmented_data k = Helper ''tf.cond(random_affine_augment)'' [SStr k] [train_phase, data k]"

subsection \<open>The constructor, lines 49-72\<close>

definition init_hparams ::
  "nat \<times> nat \<Rightarrow> nat \<Rightarrow> nat \<Rightarrow> nat \<Rightarrow> nat list \<Rightarrow> cost_dict option \<Rightarrow> net_dict
     \<Rightarrow> py_error + hparams" where
  "init_hparams input_size' channels' n_class' n_atlas' n_subtypes' cost_kwargs' net_kwargs' =
     (let ck = (case cost_kwargs' of None \<Rightarrow> empty_cost_dict | Some d \<Rightarrow> d);
          cn = kw_cost_name ck
      in bind_r (case cn of None \<Rightarrow> Inl TypeError | Some c \<Rightarrow> Inr (py_in ''multi_scale'' c))
        (\<lambda>multi_scale.
           let sigma = (case kw_prob_sigma ck of
                          None \<Rightarrow> (if multi_scale then [1, 2, 4, 8] else [1])
                        | Some p \<Rightarrow> p);
               eps = (case kw_prob_eps ck of None \<Rightarrow> exp (- (3 ^ 2) / 2) | Some e \<Rightarrow> e);
               rt = kw_regularizer ck
           in bind_r (subscript rt 0)
             (\<lambda>r0. Inr \<lparr>input_size = input_size', channels = channels', n_class = n_class',
                        n_atlas = n_atlas', n_subtypes = n_subtypes', cost_kwargs = ck,
                        cost_name = cn, net_kwargs = net_kwargs', prob_sigma = sigma,
                        prob_eps = eps, regularizer_type = rt, net_regularizer = r0,
                        regularization_coefficient = kw_regularization_coefficient ck\<rparr>)))"

subsection \<open>Warping the atlases, lines 350-382\<close>

text \<open>
  \<^verbatim>\<open>_get_warped_atlases_prob\<close>: the keyword \<^verbatim>\<open>eps\<close> is \<open>None\<close> when the caller does not pass
  it, and then the attribute \<^verbatim>\<open>prob_eps\<close> is taken (line 365).
\<close>

definition get_warped_atlases_prob ::
  "'a hparams_scheme \<Rightarrow> node \<Rightarrow> node \<Rightarrow> string \<Rightarrow> real option \<Rightarrow> py_error + node list" where
  "get_warped_atlases_prob self atlases_label d interp_method kw_eps =
     (let eps = (case kw_eps of None \<Rightarrow> prob_eps self | Some e \<Rightarrow> e)
      in sequence (map (\<lambda>idx.
           tf_stack (map (\<lambda>n. spatial_transform (Some interp_method)
                                 (get_prob_from_label (Unary (GetItem n) atlases_label)
                                    (prob_sigma self ! idx) eps)
                                 (Unary (GetItem n) d))
                       [0..<n_atlas self]) (- 2))
           [0..<length (prob_sigma self)]))"

definition get_warped_atlases ::
  "'a hparams_scheme \<Rightarrow> node \<Rightarrow> node \<Rightarrow> string option \<Rightarrow> py_error + node" where
  "get_warped_atlases self atlases d interp_method =
     tf_stack (map (\<lambda>i. spatial_transform interp_method (Unary (GetItem i) atlases)
                          (Unary (GetItem i) d))
                 [0..<n_atlas self]) (- 2)"

subsection \<open>The constructor, lines 75-156\<close>

text \<open>
  The two network bodies of \<^verbatim>\<open>networks_2d\<close> are helpers; each output of a body is a
  node of its own.
\<close>

definition network_output :: "'a hparams_scheme \<Rightarrow> string \<Rightarrow> node" where
  "network_output self name =
     Helper name [SNat (n_atlas self), SStr (net_regularizer self), SNetKw (net_kwargs self)]
       [augmented_data ''target_image'', augmented_data ''atlases_image'', dropout_rate,
        train_phase]"

definition create_network :: "'a hparams_scheme \<Rightarrow> py_error + node \<times> node \<times> node option" where
  "create_network self =
     (case kw_method (net_kwargs self) of
        None \<Rightarrow> Inl (KeyError ''method'')
      | Some m \<Rightarrow>
          if m = ''ddf_label''
          then Inr (network_output self ''create_ddf_label_net.ddf'',
                    network_output self ''create_ddf_label_net.regularization_loss'', None)
          else if m = ''ddf_score''
          then Inr (network_output self ''create_ddf_score_net.ddf'',
                    network_output self ''create_ddf_score_net.regularization_loss'',
                    Some (network_output self ''create_ddf_score_net.scores''))
          else Inl (ValueError (''Unknown method: '' @ m)))"

text \<open>Lines 81-84: the class prior, a tensor of shape \<^verbatim>\<open>[1, 1, 1, n_class]\<close>.\<close>

definition prior_node :: "real list option \<Rightarrow> nat \<Rightarrow> py_error + node" where
  "prior_node prior_prob k =
     bind_r (case prior_prob of
               None \<Rightarrow> if k = 0 then Inl ZeroDivisionError else Inr (replicate k (1 / real k))
             | Some p \<Rightarrow> if length p = k then Inr p else Inl GraphError)
       (\<lambda>p. Inr (Constant (Tn [Tn [Tn [Tn (map Sc p)]]])))"

text \<open>
  Lines 134-138: with \<^verbatim>\<open>diffeomorphism\<close> the attribute \<^verbatim>\<open>ddf\<close> is reassigned to the
  integrated field.  The result is the keyword dictionary after the \<^verbatim>\<open>pop\<close>, the
  attributes \<^verbatim>\<open>int_steps\<close> and \<^verbatim>\<open>vec\<close>, and the new \<^verbatim>\<open>ddf\<close>.

  The divisor \<^verbatim>\<open>2 ** int_steps\<close> is a Python number that the division hands to
  TensorFlow as a float32 constant.  From 1024 steps on the conversion of the integer
  raises \<^verbatim>\<open>OverflowError\<close> and the constructor stops at line 137.  Below that the node is
  built; its constant is the power of two as a real number, which is the float32 value
  only for exponents from -149 to 127 (beyond them the float32 divisor is an infinity or
  a zero), so statements about the values of the quotient are made for that range.
\<close>

definition integrate_ddf ::
  "net_dict \<Rightarrow> node \<Rightarrow> py_error + net_dict \<times> int option \<times> node option \<times> node" where
  "integrate_ddf kw d =
     (case kw_diffeomorphism kw of
        None \<Rightarrow> Inl (KeyError ''diffeomorphism'')
      | Some diffeomorphism \<Rightarrow>
          if diffeomorphism
          then (let k = (case kw_int_steps kw of None \<Rightarrow> 8 | Some i \<Rightarrow> i)
                in if 1024 \<le> k then Inl OverflowError
                   else (let v = Binary TfDiv d (Constant (Sc (py_pow2 k)))
                         in Inr (kw\<lparr>kw_int_steps := None\<rparr>, Some k, Some v,
                                 integrate_vec v k)))
          else Inr (kw, None, None, d))"

definition init_graph :: "hparams \<Rightarrow> py_error + graph_net" where
  "init_graph self =
     bind_r (prior_node (kw_prior_prob (cost_kwargs self)) (n_class self)) (\<lambda>pi'.
     bind_r (create_network self) (\<lambda>(ddf0, regularization_loss', scores').
     bind_r (integrate_ddf (net_kwargs self) ddf0) (\<lambda>(net_kwargs', int_steps', vec', ddf').
     bind_r (subscript (Some (prob_sigma self)) 0) (\<lambda>sigma0.
     bind_r (get_warped_atlases_prob self (augmented_data ''atlases_label'') ddf' ''linear'' None)
       (\<lambda>warped_prob.
     bind_r (get_warped_atlases self (augmented_data ''atlases_weight'') ddf' (Some ''linear''))
       (\<lambda>warped_weight.
     Inr (hparams.extend
            (self\<lparr>cost_kwargs := (cost_kwargs self)\<lparr>kw_prior_prob := None\<rparr>,
                  net_kwargs := net_kwargs'\<rparr>)
            (graph_net.fields pi' ddf' regularization_loss' scores' int_steps' vec'
               (get_prob_from_label (augmented_data ''target_label'') sigma0 (prob_eps self))
               warped_prob warped_weight (map get_joint_prob warped_prob)))))))))"

subsection \<open>The cost, lines 234-348\<close>

definition get_pretrain_cost :: "'a graph_net_scheme \<Rightarrow> node" where
  "get_pretrain_cost self = Unary TfReduceMean (Binary TfPow (ddf self) (Constant (Sc 2)))"

text \<open>\<^verbatim>\<open>self.atlases_joint_prob[0]\<close> and \<^verbatim>\<open>self.warped_atlases_prob[0][..., i, :]\<close>.\<close>

definition joint_prob0 :: "'a graph_net_scheme \<Rightarrow> py_error + node" where
  "joint_prob0 self = subscript (Some (atlases_joint_prob self)) 0"

definition warped_prob0 :: "'a graph_net_scheme \<Rightarrow> py_error + node" where
  "warped_prob0 self = subscript (Some (warped_atlases_prob self)) 0"

definition warped_atlas :: "'a graph_net_scheme \<Rightarrow> nat \<Rightarrow> py_error + node" where
  "warped_atlas self i = bind_r (warped_prob0 self) (\<lambda>w. Inr (Unary (GetItem i) w))"

definition mvmm_loss_weight :: "'a graph_net_scheme \<Rightarrow> py_error + node" where
  "mvmm_loss_weight self =
     bind_r (warped_prob0 self) (\<lambda>w.
       Inr (Helper ''MvMMNetLoss.loss_weight'' [SCost (cost_kwargs self)]
              [target_prob self, w, augmented_data ''target_weight'',
               warped_atlases_weight self, pi_prior self]))"

text \<open>The chain of \<^verbatim>\<open>if\<close>/\<^verbatim>\<open>elif\<close> over \<^verbatim>\<open>self.cost_name\<close>, lines 252-324.\<close>

definition loss_variant :: "'a graph_net_scheme \<Rightarrow> py_error + node" where
  "loss_variant self =
     (let name = cost_name self in
      if name = Some ''mvmm'' then Inl NotImplementedError
      else if name = Some ''mvmm_mas'' then Inl NotImplementedError
      else if name = Some ''label_consistency'' then
        bind_r (joint_prob0 self) (\<lambda>j.
          Inr (Helper ''LabelConsistencyLoss.loss'' [SCost (cost_kwargs self)]
                 [target_prob self, j, pi_prior self]))
      else if name = Some ''multi_scale_label_consistency'' then
        Inr (Helper ''LabelConsistencyLoss.multi_scale_loss'' [SCost (cost_kwargs self)]
               (target_prob self # atlases_joint_prob self @ [pi_prior self]))
      else if name = Some ''dice'' then
        bind_r (sequence (map (\<lambda>i. bind_r (warped_atlas self i) (\<lambda>w.
                            Inr (Helper ''DiceLoss.loss'' [] [target_prob self, w])))
                          [0..<n_atlas self])) (\<lambda>ls.
        bind_r (tf_stack ls 0) (\<lambda>st. Inr (Unary TfReduceMean st)))
      else if name = Some ''multi_scale_dice'' then
        Inr (Helper ''DiceLoss.multi_scale_loss'' []
               (target_prob self # atlases_joint_prob self))
      else if name = Some ''cross_entropy'' then
        bind_r (joint_prob0 self) (\<lambda>j.
          Inr (Unary TfReduceMean
                 (Helper ''tf.nn.softmax_cross_entropy_with_logits_v2'' []
                    [augmented_data ''target_label'', j])))
      else if name = Some ''SSD'' then
        bind_r (joint_prob0 self) (\<lambda>j.
          Inr (Unary TfReduceMean (Unary TfSquare (Binary TfSub (target_prob self) j))))
      else if name = Some ''LNCC'' then
        bind_r (get_warped_atlases self (augmented_data ''atlases_image'') (ddf self) None)
          (\<lambda>warped_atlases_image.
        bind_r (tf_stack (map (\<lambda>i. Helper ''CrossCorrelation.loss'' []
                                 [augmented_data ''target_image'',
                                  Unary (GetItem i) warped_atlases_image])
                            [0..<n_atlas self]) 0) (\<lambda>st. Inr (Unary TfReduceMean st)))
      else if name = Some ''KL_divergence'' then Inl NotImplementedError
      else if name = Some ''L2_norm'' then Inr (Unary TfReduceMean (Unary TfSquare (ddf self)))
      else if name = Some ''mvmm_net_gmm'' then mvmm_loss_weight self
      else if name = Some ''mvmm_net_ncc'' then mvmm_loss_weight self
      else if name = Some ''mvmm_net_lecc'' then mvmm_loss_weight self
      else if name = Some ''mvmm_net_mask'' then
        bind_r (warped_prob0 self) (\<lambda>w.
          Inr (Helper ''MvMMNetLoss.loss_mask'' [SCost (cost_kwargs self)]
                 [target_prob self, w, pi_prior self]))
      else Inl NotImplementedError)"

text \<open>
  Lines 326-342.  The ground-truth scores of the atlases and the loss of the score
  head; \<open>scores_terms self loss\<close> is the loss after line 342 with the new attributes
  \<^verbatim>\<open>scores_loss\<close> and \<^verbatim>\<open>scores_gt\<close>.
\<close>

definition atlas_jaccard :: "'a graph_net_scheme \<Rightarrow> node \<Rightarrow> node" where
  "atlas_jaccard self w =
     Helper ''OverlapMetrics.averaged_foreground_jaccard''
       [SNat (n_class self), SBool False, SBool False] [augmented_data ''target_label'', w]"

definition atlas_cross_entropy :: "node \<Rightarrow> node" where
  "atlas_cross_entropy w =
     Unary TfReduceMeanAxes12
       (Binary TfPow
          (Helper ''CrossEntropy.loss'' [SReal (1 / 100), SBool False]
             [augmented_data ''target_label'', Binary TfSub (Constant (Sc 1)) w])
          (Constant (Sc (3 / 10))))"

definition get_scores_gt :: "'a graph_net_scheme \<Rightarrow> py_error + node" where
  "get_scores_gt self =
     bind_r (sequence (map (\<lambda>i. bind_r (warped_atlas self i) (\<lambda>w. Inr (atlas_jaccard self w)))
                         [0..<n_atlas self])) (\<lambda>js.
     bind_r (tf_stack js (- 1)) (\<lambda>warped_atlases_jaccard.
     bind_r (sequence (map (\<lambda>i. bind_r (warped_atlas self i) (\<lambda>w. Inr (atlas_cross_entropy w)))
                         [0..<n_atlas self])) (\<lambda>cs.
     bind_r (tf_stack cs (- 1)) (\<lambda>warped_atlases_CE.
     Inr (Binary TfAdd warped_atlases_jaccard warped_atlases_CE)))))"

definition get_scores_loss :: "node \<Rightarrow> node \<Rightarrow> node" where
  "get_scores_loss predicted gt =
     Unary TfReduceMean (Unary TfAbs (Binary TfSub (Unary TfSqueezeLast predicted) gt))"

definition scores_terms :: "'a graph_net_scheme \<Rightarrow> node \<Rightarrow> py_error + node \<times> node \<times> node" where
  "scores_terms self loss =
     (case kw_method (net_kwargs self) of
        None \<Rightarrow> Inl (KeyError ''method'')
      | Some m \<Rightarrow>
          if m = ''ddf_score'' then
            bind_r (get_scores_gt self) (\<lambda>gt.
            bind_r (case scores self of None \<Rightarrow> Inl (AttributeError ''scores'')
                    | Some p \<Rightarrow> Inr p) (\<lambda>predicted.
            let sl = get_scores_loss predicted gt in Inr (Binary TfAdd loss sl, sl, gt)))
          else Inr (loss, Constant (Sc 0), Constant (Sc 0)))"

text \<open>Lines 344-348: the regularization term.\<close>

definition add_regularization ::
  "'a graph_net_scheme \<Rightarrow> string list option \<Rightarrow> node \<Rightarrow> py_error + node" where
  "add_regularization self regularizer_type' loss =
     bind_r (subscript regularizer_type' 0) (\<lambda>r0.
       if r0 = ''l2'' \<or> r0 = ''l1'' then
         bind_r (subscript (regularization_coefficient self) 0) (\<lambda>c.
           if c \<noteq> 0
           then Inr (Binary TfAdd loss (Binary TfMul (regularization_loss self) (Constant (Sc c))))
           else Inr loss)
       else Inr loss)"

text \<open>\<^verbatim>\<open>_get_cost\<close>: the loss it returns, and the two attributes it sets.\<close>

definition get_cost ::
  "'a graph_net_scheme \<Rightarrow> string list option \<Rightarrow> py_error + node \<times> node \<times> node" where
  "get_cost self regularizer_type' =
     bind_r (loss_variant self) (\<lambda>loss.
     bind_r (scores_terms self loss) (\<lambda>(loss', scores_loss', scores_gt').
     bind_r (add_regularization self regularizer_type' loss') (\<lambda>loss''.
     Inr (loss'', scores_loss', scores_gt'))))"

subsection \<open>The constructor, lines 158-209\<close>

definition overlap_metric :: "'a graph_net_scheme \<Rightarrow> string \<Rightarrow> static list \<Rightarrow> node \<Rightarrow> node" where
  "overlap_metric self name statics seg =
     Helper name (SNat (n_class self) # statics) [augmented_data ''target_label'', seg]"

definition get_segmenter :: "'a graph_net_scheme \<Rightarrow> py_error + node" where
  "get_segmenter self =
     bind_r (warped_prob0 self) (\<lambda>w.
       Inr (get_segmentation (get_joint_prob (Binary TfMul w (warped_atlases_weight self)))))"

definition init_outputs :: "graph_net \<Rightarrow> py_error + seg_net" where
  "init_outputs self =
     bind_r (get_cost self (regularizer_type self)) (\<lambda>(cost', scores_loss', scores_gt').
     bind_r (get_segmenter self) (\<lambda>segmenter'.
     Inr (graph_net.extend self
            (seg_net.fields cost' scores_loss' scores_gt' (get_pretrain_cost self) segmenter'
               (overlap_metric self ''OverlapMetrics.averaged_foreground_dice'' [] segmenter')
               (overlap_metric self ''OverlapMetrics.class_specific_dice'' [SNat 1] segmenter')
               (overlap_metric self ''OverlapMetrics.averaged_foreground_jaccard'' [] segmenter')
               (Unary TfReduceMean (Helper ''tf.norm'' [SInt 1, SInt 2] [ddf self]))
               None None))))"

text \<open>\<^verbatim>\<open>UnifiedMultiAtlasSegNet.__init__\<close>.\<close>

definition UnifiedMultiAtlasSegNet ::
  "nat \<times> nat \<Rightarrow> nat \<Rightarrow> nat \<Rightarrow> nat \<Rightarrow> nat list \<Rightarrow> cost_dict option \<Rightarrow> net_dict
     \<Rightarrow> py_error + seg_net" where
  "UnifiedMultiAtlasSegNet input_size' channels' n_class' n_atlas' n_subtypes' cost_kwargs'
       net_kwargs' =
     bind_r (init_hparams input_size' channels' n_class' n_atlas' n_subtypes' cost_kwargs'
               net_kwargs')
       (\<lambda>h. bind_r (init_graph h) init_outputs)"

section \<open>The trainer\<close>

text \<open>
  The attributes of \<^verbatim>\<open>Trainer\<close> that the graph depends on.  An optimizer is the name of
  its TensorFlow class; \<open>opt_result\<close> is what \<^verbatim>\<open>_get_optimizer\<close> returns, with the
  training operation given by the cost it minimizes and the clipping flag.
\<close>

record trainer =
  net :: seg_net
  optimizer_name :: string
  learning_rate :: real

datatype optimizer = MomentumOptimizer | GradientDescentOptimizer | RMSPropOptimizer
  | AdamOptimizer | AdamOptimizerCyclic

record opt_result =
  opt :: optimizer
  minimized :: node
  clipped :: bool
  init_lr :: real

text \<open>
  \<^verbatim>\<open>_get_optimizer\<close>, lines 525-608.  \<open>optimizer'\<close> and \<open>lr\<close> are the keywords
  \<^verbatim>\<open>optimizer\<close> and \<^verbatim>\<open>lr\<close> of the call, \<open>None\<close> when not passed.
\<close>

definition get_optimizer ::
  "trainer \<Rightarrow> node \<Rightarrow> bool \<Rightarrow> string option \<Rightarrow> real option \<Rightarrow> py_error + opt_result" where
  "get_optimizer self cost' clip_gradient optimizer' lr =
     (let name = (case optimizer' of None \<Rightarrow> optimizer_name self | Some n \<Rightarrow> n);
          result = (\<lambda>k default. Inr \<lparr>opt = k, minimized = cost', clipped = clip_gradient,
                      init_lr = (case lr of None \<Rightarrow> default | Some r \<Rightarrow> r)\<rparr>)
      in if name = ''momentum'' then result MomentumOptimizer (2 / 10)
         else if name = ''sgd'' then result GradientDescentOptimizer (1 / 10)
         else if name = ''rmsprop'' then result RMSPropOptimizer (1 / 1000)
         else if name = ''adam'' then result AdamOptimizer (1 / 1000)
         else if name = ''adam-clr'' then result AdamOptimizerCyclic (1 / 1000)
         else if name = ''radam'' then Inl NotImplementedError
         else if name = ''adabound'' then Inl NotImplementedError
         else Inl (ValueError (''Unknown optimizer: '' @ name)))"

text \<open>
  Lines 635-655 of \<^verbatim>\<open>_initialize\<close>: with the regularizer \<^verbatim>\<open>bending_energy\<close> the bending
  energy is added to the cost of the network, and the number of negative Jacobians is
  defined.  A list of tensors handed to \<^verbatim>\<open>tf.reduce_mean\<close> is packed along axis 0.
\<close>

definition displacement_energy :: "node \<Rightarrow> node \<Rightarrow> node" where
  "displacement_energy d weight =
     Helper ''LocalDisplacementEnergy.compute_displacement_energy'' [SStr ''bending'']
       [d, weight]"

definition jacobian_determinant :: "node \<Rightarrow> node" where
  "jacobian_determinant d =
     Helper ''LocalDisplacementEnergy.compute_jacobian_determinant'' [SStr ''bending''] [d]"

definition get_num_neg_jacob :: "seg_net \<Rightarrow> py_error + node" where
  "get_num_neg_jacob self =
     bind_r (tf_stack (map (\<lambda>i. jacobian_determinant (Unary (GetItem i) (ddf self)))
                         [0..<n_atlas self]) 0) (\<lambda>dets.
       let jacobian_det = Unary TfReduceMean dets
       in Inr (Unary TfCountNonzero (Binary TfLessEqual jacobian_det (Constant (Sc 0)))))"

definition get_bending_energy :: "seg_net \<Rightarrow> node \<Rightarrow> py_error + node" where
  "get_bending_energy self weight =
     bind_r (tf_stack (map (\<lambda>i. displacement_energy (Unary (GetItem i) (ddf self)) weight)
                         [0..<n_atlas self]) 0) (\<lambda>es. Inr (Unary TfReduceMean es))"

definition add_bending_energy :: "seg_net \<Rightarrow> nat \<Rightarrow> nat \<Rightarrow> py_error + seg_net" where
  "add_bending_energy self training_iters self_iters =
     bind_r (subscript (regularizer_type self) 1) (\<lambda>r1.
       if r1 = ''bending_energy'' then
         bind_r (case kw_bending_energy_increment_rate (cost_kwargs self) of
                   None \<Rightarrow> Inl (KeyError ''bending_energy_increment_rate'')
                 | Some r \<Rightarrow> Inr r) (\<lambda>bending_energy_increment_rate.
         bind_r (subscript (regularization_coefficient self) 1) (\<lambda>c1.
         let bending_energy_weight =
               Helper ''tf.train.exponential_decay''
                 [SReal c1, SNat (training_iters * self_iters),
                  SReal bending_energy_increment_rate, SBool True]
                 [Variable ''global_step'']
         in bind_r (get_bending_energy self bending_energy_weight) (\<lambda>bending_energy'.
            bind_r (get_num_neg_jacob self) (\<lambda>num_neg_jacob'.
            Inr (self\<lparr>cost_kwargs :=
                        (cost_kwargs self)\<lparr>kw_bending_energy_increment_rate := None\<rparr>,
                      bending_energy := Some bending_energy',
                      cost := Binary TfAdd (cost self) bending_energy',
                      num_neg_jacob := Some num_neg_jacob'\<rparr>)))))
       else Inr self)"

text \<open>
  \<^verbatim>\<open>_initialize\<close>, lines 610-703, without the summaries and the directories: the
  trainer with its network updated, the optimizer of the cost, and the optimizer of the
  pretraining cost when \<^verbatim>\<open>pretrain_epochs\<close> is not zero.
\<close>

definition initialize ::
  "trainer \<Rightarrow> nat \<Rightarrow> nat \<Rightarrow> bool \<Rightarrow> nat
     \<Rightarrow> py_error + trainer \<times> opt_result \<times> opt_result option" where
  "initialize self training_iters self_iters clip_gradient pretrain_epochs =
     bind_r (add_bending_energy (net self) training_iters self_iters) (\<lambda>net'.
     let self' = self\<lparr>net := net'\<rparr>
     in bind_r (get_optimizer self' (cost net') clip_gradient None (Some (learning_rate self')))
          (\<lambda>main.
        if pretrain_epochs \<noteq> 0 then
          bind_r (get_optimizer self' (pretrain_cost net') False (Some ''adam'')
                    (Some (1 / 10000))) (\<lambda>pre. Inr (self', main, Some pre))
        else Inr (self', main, None)))"

text \<open>
  \<^verbatim>\<open>train\<close>, lines 705-887: \<^verbatim>\<open>_initialize\<close> is called before the session is opened.
  Everything after that call (the session, the pretraining steps, the training steps)
  is the continuation \<open>session_part\<close>.
\<close>

definition train ::
  "trainer \<Rightarrow> nat \<Rightarrow> nat \<Rightarrow> bool \<Rightarrow> nat
     \<Rightarrow> (trainer \<times> opt_result \<times> opt_result option \<Rightarrow> py_error + 'r) \<Rightarrow> py_error + 'r" where
  "train self training_iters self_iters clip_gradient pretrain_epochs session_part =
     bind_r (initialize self training_iters self_iters clip_gradient pretrain_epochs)
       session_part"

text \<open>
  The call of \<^verbatim>\<open>sess.run\<close> in \<^verbatim>\<open>store_prediction\<close>, lines 918-933, for one sample
  \<open>sample\<close> of the data provider.  Python evaluates the tuple of fetches first (two of
  them are attributes that only \<^verbatim>\<open>_initialize\<close> sets), then the feed dictionary, key
  by key, then the session runs.  The result lists the values in the order of the
  fetches; the prediction \<^verbatim>\<open>test_pred\<close> is the value of the segmenter.
\<close>

definition lookup :: "(string \<rightharpoonup> tensor) \<Rightarrow> string \<Rightarrow> py_error + string \<times> tensor" where
  "lookup d k = (case d k of None \<Rightarrow> Inl (KeyError k) | Some v \<Rightarrow> Inr (k, v))"

definition attribute :: "string \<Rightarrow> 'a option \<Rightarrow> py_error + 'a" where
  "attribute name v = (case v of None \<Rightarrow> Inl (AttributeError name) | Some x \<Rightarrow> Inr x)"

definition store_prediction_fetches :: "seg_net \<Rightarrow> py_error + node list" where
  "store_prediction_fetches self =
     bind_r (attribute ''bending_energy'' (bending_energy self)) (\<lambda>be.
     bind_r (attribute ''num_neg_jacob'' (num_neg_jacob self)) (\<lambda>nj.
     Inr [cost self, average_dice self, jaccard self, myocardial_dice self, ddfs_norm self,
          be, nj, scores_loss self, segmenter self, ddf self]))"

definition store_prediction_feed ::
  "(string \<rightharpoonup> tensor) \<Rightarrow> tensor \<Rightarrow> py_error + (string \<rightharpoonup> tensor)" where
  "store_prediction_feed sample dropout =
     bind_r (sequence (map (lookup sample)
               [''target_image'', ''target_label'', ''target_weight'', ''atlases_label'',
                ''atlases_image'', ''atlases_weight''])) (\<lambda>kvs.
     Inr (map_of (kvs @ [(''train_phase'', Sc 0), (''dropout_rate'', dropout)])))"

definition store_prediction_run ::
  "session \<Rightarrow> seg_net \<Rightarrow> (string \<rightharpoonup> tensor) \<Rightarrow> tensor \<Rightarrow> py_error + tensor list" where
  "store_prediction_run s self sample dropout =
     bind_r (store_prediction_fetches self) (\<lambda>fetches.
     bind_r (store_prediction_feed sample dropout) (\<lambda>fd.
     sequence (map (eval s fd) fetches)))"

definition test_pred :: "tensor list \<Rightarrow> tensor" where
  "test_pred values = values ! 8"

section \<open>Names and example inputs used in the statements\<close>

text \<open>
  The loss names that have a branch of \<^verbatim>\<open>_get_cost\<close> which builds a loss, and the
  optimizer names that have a branch of \<^verbatim>\<open>_get_optimizer\<close> which builds an optimizer.
\<close>

definition implemented_costs :: "string list" where
  "implemented_costs =
     [''label_consistency'', ''multi_scale_label_consistency'', ''dice'', ''multi_scale_dice'',
      ''cross_entropy'', ''SSD'', ''LNCC'', ''L2_norm'', ''mvmm_net_gmm'', ''mvmm_net_ncc'',
      ''mvmm_net_lecc'', ''mvmm_net_mask'']"

definition known_optimizers :: "string list" where
  "known_optimizers = [''momentum'', ''sgd'', ''rmsprop'', ''adam'', ''adam-clr'']"

text \<open>
  Entry \<open>idx\<close> of the list \<^verbatim>\<open>_get_warped_atlases_prob\<close> returns: the stack, along the
  atlas axis, of the resampled probability maps of the atlases at scale \<open>idx\<close>.
\<close>

definition warped_prob_node :: "'a hparams_scheme \<Rightarrow> node \<Rightarrow> node \<Rightarrow> string \<Rightarrow> nat \<Rightarrow> node" where
  "warped_prob_node self label d m idx = TfStack (- 2) (map (\<lambda>n. spatial_transform (Some m)
                                 (get_prob_from_label (Unary (GetItem n) label)
                                    (prob_sigma self ! idx) (prob_eps self))
                                 (Unary (GetItem n) d))
                       [0..<n_atlas self])"

text \<open>
  The loss after lines 326-342: in the mode \<^verbatim>\<open>ddf_score\<close> the loss of the score head has
  been added to the selected variant.
\<close>

definition loss_with_scores :: "'a graph_net_scheme \<Rightarrow> node \<Rightarrow> node \<Rightarrow> node" where
  "loss_with_scores self variant sl =
     (if kw_method (net_kwargs self) = Some ''ddf_score'' then Binary TfAdd variant sl else variant)"

text \<open>The tensors a network body is applied to, lines 113-129.\<close>

definition net_inputs :: "node list" where
  "net_inputs = [augmented_data ''target_image'', augmented_data ''atlases_image'', dropout_rate,
                 train_phase]"

text \<open>A configuration for the examples: two atlases, two classes, the L2 loss.\<close>

definition example_cost_kwargs :: cost_dict where
  "example_cost_kwargs =
     \<lparr>kw_cost_name = Some ''L2_norm'', kw_prob_sigma = None, kw_prob_eps = None,
      kw_regularizer = Some [''l2'', ''bending_energy''],
      kw_regularization_coefficient = Some [1 / 2, 1 / 10], kw_prior_prob = None,
      kw_bending_energy_increment_rate = Some 1\<rparr>"

definition example_net_kwargs :: net_dict where
  "example_net_kwargs =
     \<lparr>kw_method = Some ''ddf_label'', kw_diffeomorphism = Some True, kw_int_steps = None\<rparr>"

text \<open>
  The network the constructor returns for the example configuration, and a trainer for
  it with an optimizer name that has no branch.
\<close>

definition example_net :: seg_net where
  "example_net =
     projr (UnifiedMultiAtlasSegNet (1, 1) 1 2 2 [2, 1] (Some example_cost_kwargs)
              example_net_kwargs)"

definition example_trainer :: trainer where
  "example_trainer = \<lparr>net = example_net, optimizer_name = ''lbfgs'', learning_rate = 1 / 1000\<rparr>"

text \<open>
  A configuration with the score head: the method \<^verbatim>\<open>ddf_score\<close>, no integration, the L2
  loss and regularization coefficients that are zero.
\<close>

definition example_score_cost_kwargs :: cost_dict where
  "example_score_cost_kwargs = example_cost_kwargs\<lparr>kw_regularization_coefficient := Some [0, 0]\<rparr>"

definition example_score_net_kwargs :: net_dict where
  "example_score_net_kwargs =
     \<lparr>kw_method = Some ''ddf_score'', kw_diffeomorphism = Some False, kw_int_steps = None\<rparr>"

definition example_score_net :: seg_net where
  "example_score_net =
     projr (UnifiedMultiAtlasSegNet (1, 1) 1 2 2 [2, 1] (Some example_score_cost_kwargs)
              example_score_net_kwargs)"

text \<open>
  The same with the regularization coefficients of the first example, so that the
  regularization term is added to the loss with the score head.
\<close>

definition example_coupled_net :: seg_net where
  "example_coupled_net =
     projr (UnifiedMultiAtlasSegNet (1, 1) 1 2 2 [2, 1] (Some example_cost_kwargs)
              example_score_net_kwargs)"

text \<open>
  The stages of the example network: its attributes after line 72, the displacement
  field its network body returns, and the network after \<^verbatim>\<open>_initialize\<close> has added the
  bending energy.
\<close>

definition example_hparams :: hparams where
  "example_hparams =
     projr (init_hparams (1, 1) 1 2 2 [2, 1] (Some example_cost_kwargs) example_net_kwargs)"

definition example_raw_ddf :: node where
  "example_raw_ddf = network_output example_hparams ''create_ddf_label_net.ddf''"

definition example_regularized_net :: seg_net where
  "example_regularized_net = projr (add_bending_energy example_net 10 1)"

definition example_weight :: node where
  "example_weight =
     Helper ''tf.train.exponential_decay'' [SReal (1 / 10), SNat 10, SReal 1, SBool True]
       [Variable ''global_step'']"

text \<open>The number of integration steps: the keyword \<^verbatim>\<open>int_steps\<close>, 8 when it is absent.\<close>

definition configured_steps :: "net_dict \<Rightarrow> int" where
  "configured_steps kw = (case kw_int_steps kw of None \<Rightarrow> 8 | Some k \<Rightarrow> k)"

text \<open>
  A sample of one image of one pixel with two atlases and two classes, and the same
  sample without the atlas weights.
\<close>

definition example_sample_no_weight :: "string \<rightharpoonup> tensor" where
  "example_sample_no_weight =
     map_of
       [(''target_image'', Tn [Tn [Tn [Tn [Sc 1]]]]),
        (''target_label'', Tn [Tn [Tn [Tn [Sc 1, Sc 0]]]]),
        (''target_weight'', Tn [Tn [Tn [Tn [Sc 1, Sc 1]]]]),
        (''atlases_image'', Tn [Tn [Tn [Tn [Tn [Sc 1], Tn [Sc 1]]]]]),
        (''atlases_label'', Tn [Tn [Tn [Tn [Tn [Sc 1, Sc 0], Tn [Sc 0, Sc 1]]]]])]"

definition example_sample :: "string \<rightharpoonup> tensor" where
  "example_sample =
     example_sample_no_weight
       (''atlases_weight'' \<mapsto> Tn [Tn [Tn [Tn [Tn [Sc 1, Sc 1], Tn [Sc 1, Sc 1]]]]])"

definition example_feed :: "string \<rightharpoonup> tensor" where
  "example_feed = example_sample(''train_phase'' \<mapsto> Sc 0, ''dropout_rate'' \<mapsto> Sc 0)"

text \<open>
  A session for the examples.  Its network bodies return a zero displacement field, a
  zero regularization loss and the score 1 for each atlas; the Jaccard helper and the
  cross-entropy helper return zeros; the conditional of the augmentation returns the
  data; every other helper returns its first argument.
\<close>

definition example_zero_ddf :: tensor where
  "example_zero_ddf = Tn [Tn [Tn [Tn [Tn [Sc 0, Sc 0], Tn [Sc 0, Sc 0]]]]]"

definition example_ext :: "string \<Rightarrow> static list \<Rightarrow> tensor list \<Rightarrow> py_error + tensor" where
  "example_ext name statics args =
     (if name = ''create_ddf_label_net.ddf'' \<or> name = ''create_ddf_score_net.ddf''
      then Inr example_zero_ddf
      else if name = ''create_ddf_label_net.regularization_loss''
            \<or> name = ''create_ddf_score_net.regularization_loss''
      then Inr (Sc 0)
      else if name = ''create_ddf_score_net.scores'' then Inr (Tn [Tn [Tn [Sc 1], Tn [Sc 1]]])
      else if name = ''OverlapMetrics.averaged_foreground_jaccard'' then Inr (Tn [Sc 0])
      else if name = ''CrossEntropy.loss'' then Inr (Tn [Tn [Tn [Sc 0]]])
      else if name = ''tf.cond(random_affine_augment)''
      then (case args of [p, x] \<Rightarrow> Inr x | _ \<Rightarrow> Inl TfError)
      else (case args of [] \<Rightarrow> Inl TfError | x # xs \<Rightarrow> Inr x))"

definition example_session :: session where
  "example_session = \<lparr>ext = example_ext, variables = (\<lambda>k. Sc 0)\<rparr>"

text \<open>
  A configuration without integration and with regularization coefficients that are
  zero, in the mode \<^verbatim>\<open>ddf_label\<close>.
\<close>

definition example_plain_net_kwargs :: net_dict where
  "example_plain_net_kwargs =
     \<lparr>kw_method = Some ''ddf_label'', kw_diffeomorphism = Some False, kw_int_steps = None\<rparr>"

definition example_plain_net :: seg_net where
  "example_plain_net =
     projr (UnifiedMultiAtlasSegNet (1, 1) 1 2 2 [2, 1] (Some example_score_cost_kwargs)
              example_plain_net_kwargs)"

text \<open>
  A tensor of shape \<^verbatim>\<open>[batch, height, width]\<close>, given by the rows of each image, and
  examples with an image of two pixels.
\<close>

definition image_batch :: "real list list list \<Rightarrow> tensor" where
  "image_batch ims = Tn (map (\<lambda>im. Tn (map (\<lambda>row. Tn (map Sc row)) im)) ims)"

definition example_wide_feed :: "string \<rightharpoonup> tensor" where
  "example_wide_feed =
     map_of
       [(''target_image'', Tn [Tn [Tn [Tn [Sc 1], Tn [Sc 1]]]]),
        (''target_label'', Tn [Tn [Tn [Tn [Sc 1, Sc 0], Tn [Sc 0, Sc 1]]]]),
        (''target_weight'', Tn [Tn [Tn [Tn [Sc 1, Sc 1], Tn [Sc 1, Sc 1]]]]),
        (''atlases_image'', Tn [Tn [Tn [Tn [Tn [Sc 1], Tn [Sc 1]], Tn [Tn [Sc 1], Tn [Sc 1]]]]]),
        (''atlases_label'',
           Tn [Tn [Tn [Tn [Tn [Sc 1, Sc 0], Tn [Sc 0, Sc 1]],
                       Tn [Tn [Sc 0, Sc 1], Tn [Sc 1, Sc 0]]]]]),
        (''atlases_weight'',
           Tn [Tn [Tn [Tn [Tn [Sc 1, Sc 1], Tn [Sc 1, Sc 1]],
                       Tn [Tn [Sc 1, Sc 1], Tn [Sc 1, Sc 1]]]]]),
        (''train_phase'', Sc 0), (''dropout_rate'', Sc 0)]"

text \<open>
  A session for them.  Its network bodies return a zero displacement field and the score
  1 for each atlas, the Jaccard helper returns 0, the cross-entropy helper returns the
  map with 0 at the first pixel and 1 at the second, and the Jacobian determinant is -1
  at the first pixel and 3 at the second.
\<close>

definition example_wide_zero_ddf :: tensor where
  "example_wide_zero_ddf =
     Tn [Tn [Tn [Tn [Tn [Sc 0, Sc 0], Tn [Sc 0, Sc 0]], Tn [Tn [Sc 0, Sc 0], Tn [Sc 0, Sc 0]]]]]"

definition example_wide_ext :: "string \<Rightarrow> static list \<Rightarrow> tensor list \<Rightarrow> py_error + tensor" where
  "example_wide_ext name statics args =
     (if name = ''create_ddf_label_net.ddf'' \<or> name = ''create_ddf_score_net.ddf''
      then Inr example_wide_zero_ddf
      else if name = ''create_ddf_label_net.regularization_loss''
            \<or> name = ''create_ddf_score_net.regularization_loss''
      then Inr (Sc 0)
      else if name = ''create_ddf_score_net.scores'' then Inr (Tn [Tn [Tn [Sc 1], Tn [Sc 1]]])
      else if name = ''OverlapMetrics.averaged_foreground_jaccard'' then Inr (Tn [Sc 0])
      else if name = ''CrossEntropy.loss'' then Inr (image_batch [[[0, 1]]])
      else if name = ''LocalDisplacementEnergy.compute_jacobian_determinant''
      then Inr (image_batch [[[- 1, 3]]])
      else if name = ''tf.cond(random_affine_augment)''
      then (case args of [p, x] \<Rightarrow> Inr x | _ \<Rightarrow> Inl TfError)
      else (case args of [] \<Rightarrow> Inl TfError | x # xs \<Rightarrow> Inr x))"

definition example_wide_session :: session where
  "example_wide_session = \<lparr>ext = example_wide_ext, variables = (\<lambda>k. Sc 0)\<rparr>"

definition example_wide_net :: seg_net where
  "example_wide_net =
     projr (UnifiedMultiAtlasSegNet (1, 2) 1 2 2 [2, 1] (Some example_score_cost_kwargs)
              example_score_net_kwargs)"

text \<open>
  For atlas \<open>j\<close> of the wide example: the warped probability map at the finest scale,
  and the cross-entropy map that line 332 takes of it.
\<close>

definition example_wide_prob :: "nat \<Rightarrow> node" where
  "example_wide_prob j =
     Unary (GetItem j)
       (warped_prob_node example_wide_net (augmented_data ''atlases_label'')
          (ddf example_wide_net) ''linear'' 0)"

definition example_wide_ce :: "nat \<Rightarrow> node" where
  "example_wide_ce j =
     Helper ''CrossEntropy.loss'' [SReal (1 / 100), SBool False]
       [augmented_data ''target_label'', Binary TfSub (Constant (Sc 1)) (example_wide_prob j)]"

text \<open>
  The first example with no integration step, and a session whose network body returns
  a displacement field that is not zero; its resampler returns the field it resamples.
\<close>

definition example_identity_net :: seg_net where
  "example_identity_net =
     projr (UnifiedMultiAtlasSegNet (1, 1) 1 2 2 [2, 1] (Some example_cost_kwargs)
              (example_net_kwargs\<lparr>kw_int_steps := Some 0\<rparr>))"

definition example_shift_ddf :: tensor where
  "example_shift_ddf = Tn [Tn [Tn [Tn [Tn [Sc 256, Sc 512], Tn [Sc 0, Sc (- 256)]]]]]"

definition example_shift_ext :: "string \<Rightarrow> static list \<Rightarrow> tensor list \<Rightarrow> py_error + tensor" where
  "example_shift_ext name statics args =
     (if name = ''create_ddf_label_net.ddf'' then Inr example_shift_ddf
      else example_ext name statics args)"

definition example_shift_session :: session where
  "example_shift_session = \<lparr>ext = example_shift_ext, variables = (\<lambda>k. Sc 0)\<rparr>"

text \<open>The wide example after \<^verbatim>\<open>_initialize\<close> has added the bending energy.\<close>

definition example_wide_regularized_net :: seg_net where
  "example_wide_regularized_net = projr (add_bending_energy example_wide_net 10 1)"

section \<open>Basic facts\<close>

lemma bind_r_Inl [simp]: "bind_r (Inl e) f = Inl e"
  by (simp add: bind_r_def)

lemma bind_r_Inr [simp]: "bind_r (Inr x) f = f x"
  by (simp add: bind_r_def)

lemma bind_r_eq_Inr: "bind_r m f = Inr y \<longleftrightarrow> (\<exists>x. m = Inr x \<and> f x = Inr y)"
  by (cases m) simp_all

subsection \<open>Selectors of the extended records\<close>

lemma graph_sel [simp]:
  "ddf (hparams.extend h (graph_net.fields p d r sc st v tp wp ww jp)) = d"
  "pi_prior (hparams.extend h (graph_net.fields p d r sc st v tp wp ww jp)) = p"
  "regularization_loss (hparams.extend h (graph_net.fields p d r sc st v tp wp ww jp)) = r"
  "scores (hparams.extend h (graph_net.fields p d r sc st v tp wp ww jp)) = sc"
  "int_steps (hparams.extend h (graph_net.fields p d r sc st v tp wp ww jp)) = st"
  "vec (hparams.extend h (graph_net.fields p d r sc st v tp wp ww jp)) = v"
  "target_prob (hparams.extend h (graph_net.fields p d r sc st v tp wp ww jp)) = tp"
  "warped_atlases_prob (hparams.extend h (graph_net.fields p d r sc st v tp wp ww jp)) = wp"
  "warped_atlases_weight (hparams.extend h (graph_net.fields p d r sc st v tp wp ww jp)) = ww"
  "atlases_joint_prob (hparams.extend h (graph_net.fields p d r sc st v tp wp ww jp)) = jp"
  by (simp_all add: hparams.defs graph_net.defs)

lemma graph_base [simp]:
  "cost_name (hparams.extend h x) = cost_name h"
  "cost_kwargs (hparams.extend h x) = cost_kwargs h"
  "net_kwargs (hparams.extend h x) = net_kwargs h"
  "n_atlas (hparams.extend h x) = n_atlas h"
  "n_class (hparams.extend h x) = n_class h"
  "prob_sigma (hparams.extend h x) = prob_sigma h"
  "prob_eps (hparams.extend h x) = prob_eps h"
  "regularizer_type (hparams.extend h x) = regularizer_type h"
  "net_regularizer (hparams.extend h x) = net_regularizer h"
  "regularization_coefficient (hparams.extend h x) = regularization_coefficient h"
  "input_size (hparams.extend h x) = input_size h"
  by (simp_all add: hparams.defs)

lemma seg_sel [simp]:
  "cost (graph_net.extend g (seg_net.fields c sl sg pc se ad md ja dn be nj)) = c"
  "scores_loss (graph_net.extend g (seg_net.fields c sl sg pc se ad md ja dn be nj)) = sl"
  "scores_gt (graph_net.extend g (seg_net.fields c sl sg pc se ad md ja dn be nj)) = sg"
  "pretrain_cost (graph_net.extend g (seg_net.fields c sl sg pc se ad md ja dn be nj)) = pc"
  "segmenter (graph_net.extend g (seg_net.fields c sl sg pc se ad md ja dn be nj)) = se"
  "average_dice (graph_net.extend g (seg_net.fields c sl sg pc se ad md ja dn be nj)) = ad"
  "myocardial_dice (graph_net.extend g (seg_net.fields c sl sg pc se ad md ja dn be nj)) = md"
  "jaccard (graph_net.extend g (seg_net.fields c sl sg pc se ad md ja dn be nj)) = ja"
  "ddfs_norm (graph_net.extend g (seg_net.fields c sl sg pc se ad md ja dn be nj)) = dn"
  "bending_energy (graph_net.extend g (seg_net.fields c sl sg pc se ad md ja dn be nj)) = be"
  "num_neg_jacob (graph_net.extend g (seg_net.fields c sl sg pc se ad md ja dn be nj)) = nj"
  by (simp_all add: graph_net.defs seg_net.defs)

lemma seg_base [simp]:
  "cost_name (graph_net.extend g x) = cost_name g"
  "cost_kwargs (graph_net.extend g x) = cost_kwargs g"
  "net_kwargs (graph_net.extend g x) = net_kwargs g"
  "n_atlas (graph_net.extend g x) = n_atlas g"
  "n_class (graph_net.extend g x) = n_class g"
  "prob_sigma (graph_net.extend g x) = prob_sigma g"
  "prob_eps (graph_net.extend g x) = prob_eps g"
  "regularizer_type (graph_net.extend g x) = regularizer_type g"
  "net_regularizer (graph_net.extend g x) = net_regularizer g"
  "regularization_coefficient (graph_net.extend g x) = regularization_coefficient g"
  "input_size (graph_net.extend g x) = input_size g"
  "ddf (graph_net.extend g x) = ddf g"
  "pi_prior (graph_net.extend g x) = pi_prior g"
  "regularization_loss (graph_net.extend g x) = regularization_loss g"
  "scores (graph_net.extend g x) = scores g"
  "int_steps (graph_net.extend g x) = int_steps g"
  "vec (graph_net.extend g x) = vec g"
  "target_prob (graph_net.extend g x) = target_prob g"
  "warped_atlases_prob (graph_net.extend g x) = warped_atlases_prob g"
  "warped_atlases_weight (graph_net.extend g x) = warped_atlases_weight g"
  "atlases_joint_prob (graph_net.extend g x) = atlases_joint_prob g"
  by (simp_all add: graph_net.defs hparams.defs)

subsection \<open>A method reads only the attributes that exist when it is called\<close>

lemma extend_methods [simp]:
  "get_warped_atlases_prob (hparams.extend h x) = get_warped_atlases_prob h"
  "get_warped_atlases (hparams.extend h x) = get_warped_atlases h"
  "get_warped_atlases_prob (graph_net.extend g y) = get_warped_atlases_prob g"
  "get_warped_atlases (graph_net.extend g y) = get_warped_atlases g"
  by (simp_all add: get_warped_atlases_prob_def get_warped_atlases_def fun_eq_iff
      cong: option.case_cong)

lemma update_methods [simp]:
  "get_warped_atlases_prob (h\<lparr>cost_kwargs := ck, net_kwargs := nk\<rparr>) = get_warped_atlases_prob h"
  "get_warped_atlases (h\<lparr>cost_kwargs := ck, net_kwargs := nk\<rparr>) = get_warped_atlases h"
  by (simp_all add: get_warped_atlases_prob_def get_warped_atlases_def fun_eq_iff
      cong: option.case_cong)

lemma extend_cost_methods [simp]:
  "joint_prob0 (graph_net.extend g y) = joint_prob0 g"
  "warped_prob0 (graph_net.extend g y) = warped_prob0 g"
  "warped_atlas (graph_net.extend g y) = warped_atlas g"
  "mvmm_loss_weight (graph_net.extend g y) = mvmm_loss_weight g"
  "get_pretrain_cost (graph_net.extend g y) = get_pretrain_cost g"
  "get_segmenter (graph_net.extend g y) = get_segmenter g"
  "atlas_jaccard (graph_net.extend g y) = atlas_jaccard g"
  by (simp_all add: joint_prob0_def warped_prob0_def warped_atlas_def mvmm_loss_weight_def
      get_pretrain_cost_def get_segmenter_def atlas_jaccard_def fun_eq_iff)

lemma extend_loss_variant [simp]: "loss_variant (graph_net.extend g y) = loss_variant g"
  by (simp add: loss_variant_def cong: if_cong)

lemma extend_scores [simp]:
  "get_scores_gt (graph_net.extend g y) = get_scores_gt g"
  "scores_terms (graph_net.extend g y) = scores_terms g"
  "add_regularization (graph_net.extend g y) = add_regularization g"
  by (simp_all add: get_scores_gt_def scores_terms_def add_regularization_def fun_eq_iff
      cong: if_cong option.case_cong)

lemma extend_get_cost [simp]: "get_cost (graph_net.extend g y) = get_cost g"
  by (simp add: get_cost_def fun_eq_iff)

subsection \<open>What each stage of the constructor establishes\<close>

lemma init_hparams_fields:
  assumes "init_hparams i c k a n ck nk = Inr h"
  shows "\<exists>d. ck = Some d \<and> cost_name h = kw_cost_name d \<and> cost_kwargs h = d \<and>
           net_kwargs h = nk \<and> n_atlas h = a \<and> n_class h = k \<and>
           regularizer_type h = kw_regularizer d \<and>
           regularization_coefficient h = kw_regularization_coefficient d \<and>
           subscript (kw_regularizer d) 0 = Inr (net_regularizer h)"
  using assms
  by (cases ck)
    (auto simp: init_hparams_def empty_cost_dict_def Let_def bind_r_eq_Inr split: option.splits)

lemma integrate_ddf_kw:
  "integrate_ddf kw d = Inr (kw', st, v, d') \<Longrightarrow>
     kw_method kw' = kw_method kw \<and> kw_diffeomorphism kw' = kw_diffeomorphism kw"
  by (auto simp: integrate_ddf_def Let_def split: option.splits if_splits)

lemma init_graph_inv:
  assumes "init_graph h = Inr g"
  shows "cost_name g = cost_name h" and "n_atlas g = n_atlas h" and "n_class g = n_class h"
    and "prob_sigma g = prob_sigma h" and "prob_eps g = prob_eps h"
    and "regularizer_type g = regularizer_type h"
    and "regularization_coefficient g = regularization_coefficient h"
    and "net_regularizer g = net_regularizer h"
    and "kw_method (net_kwargs g) = kw_method (net_kwargs h)"
    and "kw_diffeomorphism (net_kwargs g) = kw_diffeomorphism (net_kwargs h)"
    and "\<exists>raw. create_network h = Inr (raw, regularization_loss g, scores g) \<and>
           integrate_ddf (net_kwargs h) raw = Inr (net_kwargs g, int_steps g, vec g, ddf g)"
    and "get_warped_atlases_prob g (augmented_data ''atlases_label'') (ddf g) ''linear'' None
           = Inr (warped_atlases_prob g)"
    and "get_warped_atlases g (augmented_data ''atlases_weight'') (ddf g) (Some ''linear'')
           = Inr (warped_atlases_weight g)"
    and "atlases_joint_prob g = map get_joint_prob (warped_atlases_prob g)"
    and "prob_sigma h \<noteq> []"
    and "cost_kwargs g = (cost_kwargs h)\<lparr>kw_prior_prob := None\<rparr>"
  using assms
  by (auto simp: init_graph_def bind_r_eq_Inr split: if_splits dest: integrate_ddf_kw)

lemma init_outputs_inv:
  assumes "init_outputs g = Inr n"
  shows "get_cost n (regularizer_type n) = Inr (cost n, scores_loss n, scores_gt n)"
    and "pretrain_cost n = get_pretrain_cost n"
    and "get_segmenter n = Inr (segmenter n)"
    and "bending_energy n = None" and "num_neg_jacob n = None"
    and "ddf n = ddf g" and "cost_name n = cost_name g" and "net_kwargs n = net_kwargs g"
    and "warped_atlases_prob n = warped_atlases_prob g"
    and "warped_atlases_weight n = warped_atlases_weight g"
    and "atlases_joint_prob n = atlases_joint_prob g"
    and "regularizer_type n = regularizer_type g"
    and "regularization_coefficient n = regularization_coefficient g"
    and "n_atlas n = n_atlas g" and "prob_sigma n = prob_sigma g" and "prob_eps n = prob_eps g"
    and "regularization_loss n = regularization_loss g" and "scores n = scores g"
    and "cost_kwargs n = cost_kwargs g" and "n_class n = n_class g"
    and "int_steps n = int_steps g" and "vec n = vec g"
    and "target_prob n = target_prob g" and "pi_prior n = pi_prior g"
  using assms
  by (auto simp: init_outputs_def bind_r_eq_Inr)

lemma constructor_stages:
  assumes "UnifiedMultiAtlasSegNet i cs k a ns ck nk = Inr n"
  shows "\<exists>h g. init_hparams i cs k a ns ck nk = Inr h \<and> init_graph h = Inr g \<and>
           init_outputs g = Inr n"
  using assms by (auto simp: UnifiedMultiAtlasSegNet_def bind_r_eq_Inr)

subsection \<open>Names without a branch\<close>

lemma loss_variant_unknown:
  "cost_name g = Some c \<Longrightarrow> c \<notin> set implemented_costs \<Longrightarrow>
     loss_variant g = Inl NotImplementedError"
  by (simp add: loss_variant_def implemented_costs_def Let_def)

lemma get_cost_unknown:
  "cost_name g = Some c \<Longrightarrow> c \<notin> set implemented_costs \<Longrightarrow>
     get_cost g rt = Inl NotImplementedError"
  by (simp add: get_cost_def loss_variant_unknown)

lemma constructor_unknown_cost:
  assumes "kw_cost_name d = Some c" and "c \<notin> set implemented_costs"
  shows "\<exists>e. UnifiedMultiAtlasSegNet i cs k a ns (Some d) nk = Inl e"
proof (cases "init_hparams i cs k a ns (Some d) nk")
  case (Inl e)
  then show ?thesis by (simp add: UnifiedMultiAtlasSegNet_def)
next
  case (Inr h)
  then have h: "cost_name h = Some c"
    using init_hparams_fields [OF Inr] assms(1) by auto
  show ?thesis
  proof (cases "init_graph h")
    case (Inl e)
    then show ?thesis using Inr by (simp add: UnifiedMultiAtlasSegNet_def)
  next
    case g: (Inr g)
    have "cost_name g = Some c" using init_graph_inv(1) [OF g] h by simp
    then have "init_outputs g = Inl NotImplementedError"
      using assms(2) by (simp add: init_outputs_def get_cost_unknown)
    then show ?thesis using Inr g by (simp add: UnifiedMultiAtlasSegNet_def)
  qed
qed

lemma create_network_unknown:
  "kw_method (net_kwargs h) \<noteq> Some ''ddf_label'' \<Longrightarrow>
   kw_method (net_kwargs h) \<noteq> Some ''ddf_score'' \<Longrightarrow> \<exists>e. create_network h = Inl e"
  by (auto simp: create_network_def split: option.splits)

lemma constructor_unknown_method:
  assumes "kw_method nk \<noteq> Some ''ddf_label''" and "kw_method nk \<noteq> Some ''ddf_score''"
  shows "\<exists>e. UnifiedMultiAtlasSegNet i cs k a ns ck nk = Inl e"
proof (cases "init_hparams i cs k a ns ck nk")
  case (Inl e)
  then show ?thesis by (simp add: UnifiedMultiAtlasSegNet_def)
next
  case (Inr h)
  then have "net_kwargs h = nk" using init_hparams_fields [OF Inr] by auto
  then obtain e where "create_network h = Inl e"
    using create_network_unknown [of h] assms by auto
  then have "\<exists>e'. init_graph h = Inl e'"
    by (cases "prior_node (kw_prior_prob (cost_kwargs h)) (n_class h)")
      (simp_all add: init_graph_def)
  then show ?thesis using Inr by (auto simp: UnifiedMultiAtlasSegNet_def)
qed

lemma get_optimizer_unknown:
  "optimizer_name tr \<notin> set known_optimizers \<Longrightarrow> \<exists>e. get_optimizer tr c clip None lr = Inl e"
  by (simp add: get_optimizer_def known_optimizers_def Let_def)

lemma initialize_unknown:
  assumes "optimizer_name tr \<notin> set known_optimizers"
  shows "\<exists>e. initialize tr ti si clip pe = Inl e"
proof (cases "add_bending_energy (net tr) ti si")
  case (Inl e)
  then show ?thesis by (simp add: initialize_def)
next
  case (Inr n')
  have "\<exists>e. get_optimizer (tr\<lparr>net := n'\<rparr>) (cost n') clip None (Some (learning_rate tr)) = Inl e"
    using assms by (intro get_optimizer_unknown) simp
  then show ?thesis using Inr by (auto simp: initialize_def Let_def)
qed

subsection \<open>Lists of nodes\<close>
lemma sequence_map_Inr: "sequence (map (\<lambda>x. Inr (f x)) xs) = Inr (map f xs)"
  by (induction xs) simp_all

lemma sequence_eq_Inr_length: "sequence ms = Inr xs \<Longrightarrow> length xs = length ms"
  by (induction ms arbitrary: xs) (auto simp: bind_r_eq_Inr)

lemma sequence_eq_Inr_nth:
  "sequence ms = Inr xs \<Longrightarrow> i < length ms \<Longrightarrow> ms ! i = Inr (xs ! i)"
proof (induction ms arbitrary: xs i)
  case Nil
  then show ?case by simp
next
  case (Cons m ms)
  then show ?case by (cases i) (auto simp: bind_r_eq_Inr)
qed

lemma tf_stack_nonempty: "xs \<noteq> [] \<Longrightarrow> tf_stack xs ax = Inr (TfStack ax xs)"
  by (simp add: tf_stack_def)

lemma get_warped_atlases_prob_eq:
  assumes "0 < n_atlas self"
  shows "get_warped_atlases_prob self label d m None =
           Inr (map (warped_prob_node self label d m) [0..<length (prob_sigma self)])"
proof -
  have "[0..<n_atlas self] \<noteq> []" using assms by simp
  then show ?thesis
    by (simp add: get_warped_atlases_prob_def warped_prob_node_def tf_stack_nonempty sequence_map_Inr)
qed

lemma get_warped_atlases_prob_fails:
  assumes "n_atlas self = 0" and "prob_sigma self \<noteq> []"
  shows "get_warped_atlases_prob self label d m ek = Inl GraphError"
proof -
  obtain k where "length (prob_sigma self) = Suc k" using assms(2) by (cases "prob_sigma self") auto
  then show ?thesis using assms(1)
    by (simp add: get_warped_atlases_prob_def tf_stack_def upt_conv_Cons del: upt_Suc)
qed

lemma get_warped_atlases_eq:
  "0 < n_atlas self \<Longrightarrow> get_warped_atlases self x d m =
     Inr (TfStack (- 2) (map (\<lambda>i. spatial_transform m (Unary (GetItem i) x) (Unary (GetItem i) d)) [0..<n_atlas self]))"
  by (simp add: get_warped_atlases_def tf_stack_def)

lemma get_warped_atlases_fails: "n_atlas self = 0 \<Longrightarrow> get_warped_atlases self x d m = Inl GraphError"
  by (simp add: get_warped_atlases_def tf_stack_def)

lemma init_graph_n_atlas:
  assumes "init_graph h = Inr g" shows "0 < n_atlas g"
proof (rule ccontr)
  assume "\<not> 0 < n_atlas g"
  then have "n_atlas g = 0" by simp
  then show False using init_graph_inv(13) [OF assms] by (simp add: get_warped_atlases_fails)
qed

lemma constructor_inv:
  assumes "UnifiedMultiAtlasSegNet i cs k a ns ck nk = Inr n"
  shows "\<exists>d. ck = Some d \<and> cost_name n = kw_cost_name d \<and> regularizer_type n = kw_regularizer d
            \<and> regularization_coefficient n = kw_regularization_coefficient d"
    and "n_atlas n = a" and "0 < a" and "n_class n = k"
    and "kw_method (net_kwargs n) = kw_method nk"
    and "kw_diffeomorphism (net_kwargs n) = kw_diffeomorphism nk"
    and "prob_sigma n \<noteq> []"
    and "warped_atlases_prob n =
           map (warped_prob_node n (augmented_data ''atlases_label'') (ddf n) ''linear'')
             [0..<length (prob_sigma n)]"
    and "warped_atlases_weight n =
           TfStack (- 2) (map (\<lambda>i. spatial_transform (Some ''linear'')
                                     (Unary (GetItem i) (augmented_data ''atlases_weight''))
                                     (Unary (GetItem i) (ddf n))) [0..<n_atlas n])"
    and "atlases_joint_prob n = map get_joint_prob (warped_atlases_prob n)"
    and "get_cost n (regularizer_type n) = Inr (cost n, scores_loss n, scores_gt n)"
    and "pretrain_cost n = get_pretrain_cost n"
    and "get_segmenter n = Inr (segmenter n)"
    and "bending_energy n = None" and "num_neg_jacob n = None"
    and "\<exists>h raw. init_hparams i cs k a ns ck nk = Inr h \<and>
           create_network h = Inr (raw, regularization_loss n, scores n) \<and>
           integrate_ddf nk raw = Inr (net_kwargs n, int_steps n, vec n, ddf n)"
    and "\<exists>d. ck = Some d \<and> cost_kwargs n = d\<lparr>kw_prior_prob := None\<rparr>"
proof -
  obtain h g where h: "init_hparams i cs k a ns ck nk = Inr h" and g: "init_graph h = Inr g"
    and n: "init_outputs g = Inr n"
    using constructor_stages [OF assms] by blast
  note H = init_hparams_fields [OF h]
  note G = init_graph_inv [OF g]
  note N = init_outputs_inv [OF n]
  have pos: "0 < n_atlas g" by (rule init_graph_n_atlas [OF g])
  show "\<exists>d. ck = Some d \<and> cost_name n = kw_cost_name d \<and> regularizer_type n = kw_regularizer d
            \<and> regularization_coefficient n = kw_regularization_coefficient d"
    using H G(1,6,7) N(7,12,13) by auto
  show "n_atlas n = a" using H G(2) N(14) by auto
  then show "0 < a" using pos N(14) by simp
  show "n_class n = k" using H G(3) N(20) by auto
  show "kw_method (net_kwargs n) = kw_method nk" using H G(9) N(8) by auto
  show "kw_diffeomorphism (net_kwargs n) = kw_diffeomorphism nk" using H G(10) N(8) by auto
  show "prob_sigma n \<noteq> []" using G(4,15) N(15) by simp
  have "get_warped_atlases_prob g (augmented_data ''atlases_label'') (ddf g) ''linear'' None =
       Inr (map (warped_prob_node g (augmented_data ''atlases_label'') (ddf g) ''linear'')
             [0..<length (prob_sigma g)])"
    by (rule get_warped_atlases_prob_eq [OF pos])
  then have "warped_atlases_prob g = map (warped_prob_node g (augmented_data ''atlases_label'') (ddf g) ''linear'')
             [0..<length (prob_sigma g)]"
    using G(12) by simp
  then show "warped_atlases_prob n =
           map (warped_prob_node n (augmented_data ''atlases_label'') (ddf n) ''linear'')
             [0..<length (prob_sigma n)]"
    using N(6,9,14,15,16) by (simp add: warped_prob_node_def)
  show "warped_atlases_weight n =
           TfStack (- 2) (map (\<lambda>i. spatial_transform (Some ''linear'')
                                     (Unary (GetItem i) (augmented_data ''atlases_weight''))
                                     (Unary (GetItem i) (ddf n))) [0..<n_atlas n])"
    using G(13) N(6,10,14) pos by (simp add: get_warped_atlases_eq)
  show "atlases_joint_prob n = map get_joint_prob (warped_atlases_prob n)"
    using G(14) N(9,11) by simp
  show "get_cost n (regularizer_type n) = Inr (cost n, scores_loss n, scores_gt n)" by (rule N(1))
  show "pretrain_cost n = get_pretrain_cost n" by (rule N(2))
  show "get_segmenter n = Inr (segmenter n)" by (rule N(3))
  show "bending_energy n = None" by (rule N(4))
  show "num_neg_jacob n = None" by (rule N(5))
  show "\<exists>h raw. init_hparams i cs k a ns ck nk = Inr h \<and>
           create_network h = Inr (raw, regularization_loss n, scores n) \<and>
           integrate_ddf nk raw = Inr (net_kwargs n, int_steps n, vec n, ddf n)"
    using h H G(11) N(6,8,17,18,21,22) by auto
  show "\<exists>d. ck = Some d \<and> cost_kwargs n = d\<lparr>kw_prior_prob := None\<rparr>"
    using H G(16) N(19) by auto
qed

subsection \<open>When the constructor succeeds\<close>

lemma warped_prob0_Cons: "warped_atlases_prob g = w # ws \<Longrightarrow> warped_prob0 g = Inr w"
  by (simp add: warped_prob0_def)

lemma joint_prob0_Cons: "atlases_joint_prob g = w # ws \<Longrightarrow> joint_prob0 g = Inr w"
  by (simp add: joint_prob0_def)

lemma warped_atlas_Cons: "warped_atlases_prob g = w # ws \<Longrightarrow> warped_atlas g i = Inr (Unary (GetItem i) w)"
  by (simp add: warped_atlas_def warped_prob0_Cons)

lemma loss_variant_succeeds:
  assumes "cost_name g = Some c" and "c \<in> set implemented_costs"
    and "warped_atlases_prob g = w # ws" and "atlases_joint_prob g = j # js" and "0 < n_atlas g"
  shows "\<exists>v. loss_variant g = Inr v"
proof -
  have ne: "[0..<n_atlas g] \<noteq> []" using assms(5) by simp
  have "c = ''label_consistency'' \<or> c = ''multi_scale_label_consistency'' \<or> c = ''dice'' \<or>
        c = ''multi_scale_dice'' \<or> c = ''cross_entropy'' \<or> c = ''SSD'' \<or> c = ''LNCC'' \<or>
        c = ''L2_norm'' \<or> c = ''mvmm_net_gmm'' \<or> c = ''mvmm_net_ncc'' \<or> c = ''mvmm_net_lecc'' \<or>
        c = ''mvmm_net_mask''"
    using assms(2) by (simp add: implemented_costs_def)
  then show ?thesis
    using assms(1,3,4,5) ne
    by (elim disjE)
      (simp_all add: loss_variant_def Let_def warped_prob0_Cons joint_prob0_Cons warped_atlas_Cons
        mvmm_loss_weight_def sequence_map_Inr tf_stack_def get_warped_atlases_def)
qed

lemma get_scores_gt_eq:
  assumes "warped_atlases_prob g = w # ws" and "0 < n_atlas g"
  shows "get_scores_gt g =
     Inr (Binary TfAdd
            (TfStack (- 1) (map (\<lambda>i. atlas_jaccard g (Unary (GetItem i) w)) [0..<n_atlas g]))
            (TfStack (- 1) (map (\<lambda>i. atlas_cross_entropy (Unary (GetItem i) w)) [0..<n_atlas g])))"
  using assms
  by (simp add: get_scores_gt_def warped_atlas_Cons sequence_map_Inr tf_stack_def)


lemma init_hparams_succeeds:
  assumes "kw_cost_name d = Some c" and "kw_regularizer d = Some (r0 # rs)"
  shows "\<exists>h. init_hparams i cs k a ns (Some d) nk = Inr h"
  using assms by (simp add: init_hparams_def Let_def)

lemma init_hparams_sigma:
  assumes "init_hparams i cs k a ns (Some d) nk = Inr h"
  shows "kw_prob_sigma d \<noteq> Some [] \<Longrightarrow> prob_sigma h \<noteq> []"
  using assms
  by (auto simp: init_hparams_def Let_def bind_r_eq_Inr split: option.splits if_splits)

lemma create_network_scores:
  "create_network h = Inr (raw, reg, sc) \<Longrightarrow>
     (kw_method (net_kwargs h) = Some ''ddf_score'' \<longrightarrow> sc \<noteq> None) \<and>
     (kw_method (net_kwargs h) = Some ''ddf_label'' \<or> kw_method (net_kwargs h) = Some ''ddf_score'')"
  by (auto simp: create_network_def split: option.splits if_splits)

lemma init_graph_succeeds:
  assumes "case kw_prior_prob (cost_kwargs h) of None \<Rightarrow> 0 < n_class h | Some p \<Rightarrow> length p = n_class h"
    and "kw_method (net_kwargs h) = Some ''ddf_label'' \<or> kw_method (net_kwargs h) = Some ''ddf_score''"
    and "kw_diffeomorphism (net_kwargs h) = Some b"
    and "prob_sigma h \<noteq> []" and "0 < n_atlas h"
    and "b \<longrightarrow> configured_steps (net_kwargs h) < 1024"
  shows "\<exists>g. init_graph h = Inr g"
proof -
  obtain p where p: "prior_node (kw_prior_prob (cost_kwargs h)) (n_class h) = Inr p"
    using assms(1) by (auto simp: prior_node_def split: option.splits)
  obtain raw reg sc where c: "create_network h = Inr (raw, reg, sc)"
    using assms(2) by (auto simp: create_network_def)
  have "\<exists>x. integrate_ddf (net_kwargs h) raw = Inr x"
    using assms(3,6) by (auto simp: integrate_ddf_def configured_steps_def Let_def)
  then obtain kw' st v d' where i: "integrate_ddf (net_kwargs h) raw = Inr (kw', st, v, d')"
    by (metis prod_cases4)
  obtain s0 ss where s: "prob_sigma h = s0 # ss" using assms(4) by (cases "prob_sigma h") auto
  show ?thesis
    using p c i s assms(5)
    by (simp add: init_graph_def get_warped_atlases_prob_eq get_warped_atlases_eq)
qed

lemma if_Inr: "(if P then Inr a else Inr b) = Inr (if P then a else b)"
  by simp

lemma add_regularization_succeeds:
  assumes "rt = Some (r0 # rs)"
    and "r0 = ''l2'' \<or> r0 = ''l1'' \<longrightarrow>
           regularization_coefficient g \<noteq> None \<and> regularization_coefficient g \<noteq> Some []"
  shows "\<exists>l. add_regularization g rt loss = Inr l"
proof (cases "r0 = ''l2'' \<or> r0 = ''l1''")
  case True
  then obtain c0 cs where "regularization_coefficient g = Some (c0 # cs)"
    using assms(2) by (cases "regularization_coefficient g") (auto simp: neq_Nil_conv)
  then show ?thesis using assms(1) True by (auto simp: add_regularization_def if_Inr)
next
  case False
  then show ?thesis using assms(1) by (auto simp: add_regularization_def)
qed

lemma init_outputs_succeeds:
  assumes g: "init_graph h = Inr g"
    and "cost_name g = Some c" and "c \<in> set implemented_costs"
    and "regularizer_type g = Some (r0 # rs)"
    and "r0 = ''l2'' \<or> r0 = ''l1'' \<longrightarrow>
           regularization_coefficient g \<noteq> None \<and> regularization_coefficient g \<noteq> Some []"
  shows "\<exists>n. init_outputs g = Inr n"
proof -
  note G = init_graph_inv [OF g]
  have pos: "0 < n_atlas g" by (rule init_graph_n_atlas [OF g])
  have "prob_sigma g \<noteq> []" using G(4,15) by simp
  then obtain s0 ss where "prob_sigma g = s0 # ss" by (cases "prob_sigma g") auto
  then have "length (prob_sigma g) = Suc (length ss)" by simp
  moreover have "warped_atlases_prob g =
      map (warped_prob_node g (augmented_data ''atlases_label'') (ddf g) ''linear'')
        [0..<length (prob_sigma g)]"
    using G(12) get_warped_atlases_prob_eq [OF pos, of "augmented_data ''atlases_label''" "ddf g" "''linear''"]
    by simp
  ultimately have "\<exists>w ws. warped_atlases_prob g = w # ws"
    by (simp add: upt_conv_Cons del: upt_Suc)
  then obtain w ws where w: "warped_atlases_prob g = w # ws" by blast
  then obtain j js where j: "atlases_joint_prob g = j # js" using G(14) by simp
  obtain v where v: "loss_variant g = Inr v"
    using loss_variant_succeeds [OF assms(2,3) w j pos] by blast
  obtain raw where raw: "create_network h = Inr (raw, regularization_loss g, scores g)"
    using G(11) by blast
  have m: "kw_method (net_kwargs g) = Some ''ddf_label'' \<or> kw_method (net_kwargs g) = Some ''ddf_score''"
    and sc: "kw_method (net_kwargs g) = Some ''ddf_score'' \<longrightarrow> scores g \<noteq> None"
    using create_network_scores [OF raw] G(9) by auto
  obtain l sl gt where st: "scores_terms g v = Inr (l, sl, gt)"
    using m sc by (auto simp: scores_terms_def get_scores_gt_eq [OF w pos] Let_def)
  obtain l' where r: "add_regularization g (regularizer_type g) l = Inr l'"
    using add_regularization_succeeds [OF assms(4,5)] by blast
  show ?thesis
    using v st r w by (simp add: init_outputs_def get_cost_def get_segmenter_def warped_prob0_Cons)
qed

lemma constructor_succeeds:
  assumes "kw_cost_name d = Some c" and "c \<in> set implemented_costs"
    and "kw_regularizer d = Some (r0 # rs)"
    and "r0 = ''l2'' \<or> r0 = ''l1'' \<longrightarrow>
           kw_regularization_coefficient d \<noteq> None \<and> kw_regularization_coefficient d \<noteq> Some []"
    and "case kw_prior_prob d of None \<Rightarrow> 0 < k | Some p \<Rightarrow> length p = k"
    and "kw_method nk = Some ''ddf_label'' \<or> kw_method nk = Some ''ddf_score''"
    and "kw_diffeomorphism nk = Some b"
    and "kw_prob_sigma d \<noteq> Some []" and "0 < a"
    and "b \<longrightarrow> configured_steps nk < 1024"
  shows "\<exists>n. UnifiedMultiAtlasSegNet i cs k a ns (Some d) nk = Inr n"
proof -
  obtain h where h: "init_hparams i cs k a ns (Some d) nk = Inr h"
    using init_hparams_succeeds [OF assms(1,3)] by blast
  have H: "cost_name h = kw_cost_name d" "cost_kwargs h = d" "net_kwargs h = nk" "n_atlas h = a"
    "n_class h = k" "regularizer_type h = kw_regularizer d"
    "regularization_coefficient h = kw_regularization_coefficient d"
    using init_hparams_fields [OF h] by auto
  have "prob_sigma h \<noteq> []" using init_hparams_sigma [OF h assms(8)] .
  then obtain g where g: "init_graph h = Inr g"
    using init_graph_succeeds [of h b] H assms(5,6,7,9,10) by auto
  note G = init_graph_inv [OF g]
  obtain n where "init_outputs g = Inr n"
    using init_outputs_succeeds [OF g, of c r0 rs] G(1,6,7) H assms(1,2,3,4) by auto
  then show ?thesis using h g by (simp add: UnifiedMultiAtlasSegNet_def)
qed

lemma example_net_built:
  "UnifiedMultiAtlasSegNet (1, 1) 1 2 2 [2, 1] (Some example_cost_kwargs) example_net_kwargs
     = Inr example_net"
proof -
  have "\<exists>n. UnifiedMultiAtlasSegNet (1, 1) 1 2 2 [2, 1] (Some example_cost_kwargs)
          example_net_kwargs = Inr n"
    by (rule constructor_succeeds [where c = "''L2_norm''" and b = True])
      (simp_all add: example_cost_kwargs_def example_net_kwargs_def implemented_costs_def
        configured_steps_def)
  then show ?thesis by (auto simp: example_net_def)
qed

subsection \<open>The parts of the cost\<close>

lemma entries_tmap: "entries (tmap f t) = map f (entries t)"
  by (induction t) (simp_all add: map_concat cong: map_cong)

lemma eval_add_scalars:
  "eval s fd x = Inr (Sc a) \<Longrightarrow> eval s fd y = Inr (Sc b) \<Longrightarrow>
     eval s fd (Binary TfAdd x y) = Inr (Sc (a + b))"
  by (simp add: apply_bin_def broadcast_def)

lemma eval_mul_const:
  "eval s fd x = Inr (Sc a) \<Longrightarrow> eval s fd (Binary TfMul x (Constant (Sc c))) = Inr (Sc (a * c))"
  by (simp add: apply_bin_def broadcast_def)

lemma eval_regularized:
  "eval s fd base = Inr (Sc b) \<Longrightarrow> eval s fd reg = Inr (Sc r) \<Longrightarrow>
     eval s fd (Binary TfAdd base (Binary TfMul reg (Constant (Sc c)))) = Inr (Sc (b + r * c))"
  by (simp add: apply_bin_def broadcast_def)

lemma eval_reduce_mean:
  "eval s fd x = Inr t \<Longrightarrow> entries t \<noteq> [] \<Longrightarrow>
     eval s fd (Unary TfReduceMean x) = Inr (Sc (sum_list (entries t) / real (length (entries t))))"
  by (simp add: apply_un_def reduce_mean_def)

lemma get_cost_parts:
  assumes "get_cost g rt = Inr (c, sl, gt)"
  shows "\<exists>variant base. loss_variant g = Inr variant \<and> scores_terms g variant = Inr (base, sl, gt)
           \<and> add_regularization g rt base = Inr c"
  using assms by (auto simp: get_cost_def bind_r_eq_Inr)

lemma scores_terms_base:
  assumes "scores_terms g variant = Inr (base, sl, gt)"
  shows "base = loss_with_scores g variant sl"
  using assms
  by (auto simp: scores_terms_def loss_with_scores_def bind_r_eq_Inr Let_def
      split: option.splits if_splits)

lemma add_regularization_cases:
  assumes "add_regularization g rt base = Inr c"
  shows "\<exists>r0 rs. rt = Some (r0 # rs) \<and>
          (if r0 = ''l2'' \<or> r0 = ''l1''
           then \<exists>c0 cs. regularization_coefficient g = Some (c0 # cs) \<and>
                  c = (if c0 \<noteq> 0
                       then Binary TfAdd base (Binary TfMul (regularization_loss g) (Constant (Sc c0)))
                       else base)
           else c = base)"
proof -
  obtain r0 where r0: "subscript rt 0 = Inr r0"
    using assms by (auto simp: add_regularization_def bind_r_eq_Inr)
  then obtain rs where rt: "rt = Some (r0 # rs)"
    by (cases rt; cases "the rt") (auto split: if_splits)
  show ?thesis
  proof (cases "r0 = ''l2'' \<or> r0 = ''l1''")
    case True
    then obtain c0 where c0: "subscript (regularization_coefficient g) 0 = Inr c0"
      using assms rt by (auto simp: add_regularization_def bind_r_eq_Inr)
    then obtain cs where "regularization_coefficient g = Some (c0 # cs)"
      by (cases "regularization_coefficient g"; cases "the (regularization_coefficient g)")
        (auto split: if_splits)
    then show ?thesis using assms rt True by (auto simp: add_regularization_def)
  next
    case False
    then show ?thesis using assms rt by (auto simp: add_regularization_def)
  qed
qed

lemma scores_terms_score:
  assumes "kw_method (net_kwargs g) = Some ''ddf_score''"
    and "scores_terms g variant = Inr (base, sl, gt)"
  shows "\<exists>predicted. scores g = Some predicted \<and> get_scores_gt g = Inr gt \<and>
           sl = get_scores_loss predicted gt \<and> base = Binary TfAdd variant sl"
  using assms
  by (auto simp: scores_terms_def bind_r_eq_Inr Let_def split: option.splits)

lemma scores_terms_other:
  assumes "kw_method (net_kwargs g) \<noteq> Some ''ddf_score''"
    and "scores_terms g variant = Inr (base, sl, gt)"
  shows "base = variant \<and> sl = Constant (Sc 0) \<and> gt = Constant (Sc 0)"
  using assms
  by (auto simp: scores_terms_def split: option.splits if_splits)

lemma eval_scores_loss:
  assumes "eval s fd (Binary TfSub (Unary TfSqueezeLast predicted) gt) = Inr D" and "entries D \<noteq> []"
  shows "eval s fd (get_scores_loss predicted gt) =
           Inr (Sc (sum_list (map abs (entries D)) / real (length (entries D))))"
proof -
  have "eval s fd (Unary TfAbs (Binary TfSub (Unary TfSqueezeLast predicted) gt)) = Inr (tmap abs D)"
    using assms(1) by (simp add: apply_un_def)
  then show ?thesis
    using assms(2) eval_reduce_mean [of s fd "Unary TfAbs (Binary TfSub (Unary TfSqueezeLast predicted) gt)" "tmap abs D"]
    by (simp add: get_scores_loss_def entries_tmap)
qed

lemma store_prediction_feed_missing_weight:
  assumes "sample ''target_image'' \<noteq> None" and "sample ''target_label'' \<noteq> None"
    and "sample ''target_weight'' \<noteq> None" and "sample ''atlases_label'' \<noteq> None"
    and "sample ''atlases_image'' \<noteq> None" and "sample ''atlases_weight'' = None"
  shows "store_prediction_feed sample dropout = Inl (KeyError ''atlases_weight'')"
  using assms by (auto simp: store_prediction_feed_def lookup_def)

lemma add_bending_energy_on:
  assumes "add_bending_energy n ti si = Inr n'"
    and "subscript (regularizer_type n) 1 = Inr ''bending_energy''"
    and "0 < n_atlas n"
  shows "\<exists>weight. bending_energy n' =
           Some (Unary TfReduceMean (TfStack 0
                   (map (\<lambda>j. displacement_energy (Unary (GetItem j) (ddf n)) weight)
                      [0..<n_atlas n])))
         \<and> num_neg_jacob n' =
           Some (Unary TfCountNonzero (Binary TfLessEqual
                   (Unary TfReduceMean (TfStack 0
                      (map (\<lambda>j. jacobian_determinant (Unary (GetItem j) (ddf n)))
                         [0..<n_atlas n])))
                   (Constant (Sc 0))))
         \<and> cost n' = Binary TfAdd (cost n) (the (bending_energy n'))
         \<and> ddf n' = ddf n \<and> segmenter n' = segmenter n \<and> pretrain_cost n' = pretrain_cost n"
  using assms
  by (auto simp: add_bending_energy_def bind_r_eq_Inr get_bending_energy_def get_num_neg_jacob_def
      tf_stack_def Let_def split: option.splits)

lemma add_bending_energy_off:
  assumes "add_bending_energy n ti si = Inr n'"
    and "subscript (regularizer_type n) 1 = Inr r1" and "r1 \<noteq> ''bending_energy''"
  shows "n' = n"
  using assms by (auto simp: add_bending_energy_def)

lemma example_score_net_built:
  "UnifiedMultiAtlasSegNet (1, 1) 1 2 2 [2, 1] (Some example_score_cost_kwargs)
     example_score_net_kwargs = Inr example_score_net"
proof -
  have "\<exists>n. UnifiedMultiAtlasSegNet (1, 1) 1 2 2 [2, 1] (Some example_score_cost_kwargs)
          example_score_net_kwargs = Inr n"
    by (rule constructor_succeeds [where c = "''L2_norm''" and b = False])
      (simp_all add: example_score_cost_kwargs_def example_cost_kwargs_def
        example_score_net_kwargs_def implemented_costs_def)
  then show ?thesis by (auto simp: example_score_net_def)
qed

subsection \<open>The example network\<close>

lemma integrate_ddf_cases:
  assumes "integrate_ddf kw raw = Inr (kw', st, v, d')"
  shows "d' = (if kw_diffeomorphism kw = Some True
               then integrate_vec (Binary TfDiv raw (Constant (Sc (py_pow2 (configured_steps kw)))))
                      (configured_steps kw)
               else raw)"
  using assms
  by (auto simp: integrate_ddf_def configured_steps_def Let_def split: option.splits if_splits)

lemma example_hparams_built:
  "init_hparams (1, 1) 1 2 2 [2, 1] (Some example_cost_kwargs) example_net_kwargs
     = Inr example_hparams"
proof -
  have "\<exists>h. init_hparams (1, 1) 1 2 2 [2, 1] (Some example_cost_kwargs) example_net_kwargs = Inr h"
    by (rule init_hparams_succeeds) (simp_all add: example_cost_kwargs_def)
  then show ?thesis by (auto simp: example_hparams_def)
qed

lemma example_net_attributes:
  "regularizer_type example_net = Some [''l2'', ''bending_energy'']"
  "regularization_coefficient example_net = Some [1 / 2, 1 / 10]"
  "kw_bending_energy_increment_rate (cost_kwargs example_net) = Some 1"
  "cost_name example_net = Some ''L2_norm''"
  "n_atlas example_net = 2"
  using constructor_inv(1,2,17) [OF example_net_built]
  by (simp_all add: example_cost_kwargs_def)

lemma upt_2: "[0..<2] = [0, 1]"
  by (simp add: upt_conv_Cons)

lemma example_regularized_net_built:
  "add_bending_energy example_net 10 1 = Inr example_regularized_net"
proof -
  have "\<exists>n'. add_bending_energy example_net 10 1 = Inr n'"
    by (simp add: add_bending_energy_def get_bending_energy_def get_num_neg_jacob_def
        tf_stack_def Let_def example_net_attributes)
  then show ?thesis by (auto simp: example_regularized_net_def)
qed

lemma example_ddf:
  "create_network example_hparams =
     Inr (example_raw_ddf, regularization_loss example_net, scores example_net)"
  "ddf example_net = integrate_vec (Binary TfDiv example_raw_ddf (Constant (Sc 256))) 8"
proof -
  obtain h raw where h: "init_hparams (1, 1) 1 2 2 [2, 1] (Some example_cost_kwargs) example_net_kwargs = Inr h"
    and c: "create_network h = Inr (raw, regularization_loss example_net, scores example_net)"
    and d: "integrate_ddf example_net_kwargs raw =
              Inr (net_kwargs example_net, int_steps example_net, vec example_net, ddf example_net)"
    using constructor_inv(16) [OF example_net_built] by blast
  have hh: "h = example_hparams" using h example_hparams_built by simp
  have "net_kwargs example_hparams = example_net_kwargs"
    using init_hparams_fields [OF example_hparams_built] by simp
  then have raw: "raw = example_raw_ddf"
    using c hh by (simp add: create_network_def example_net_kwargs_def example_raw_ddf_def)
  show "create_network example_hparams =
     Inr (example_raw_ddf, regularization_loss example_net, scores example_net)"
    using c hh raw by simp
  show "ddf example_net = integrate_vec (Binary TfDiv example_raw_ddf (Constant (Sc 256))) 8"
    using integrate_ddf_cases [OF d] raw
    by (simp add: example_net_kwargs_def configured_steps_def py_pow2_def)
qed

lemma example_bending_energy:
  "bending_energy example_regularized_net =
     Some (Unary TfReduceMean (TfStack 0
             [displacement_energy (Unary (GetItem 0) (ddf example_net)) example_weight,
              displacement_energy (Unary (GetItem 1) (ddf example_net)) example_weight]))"
  "num_neg_jacob example_regularized_net \<noteq> None"
  unfolding example_regularized_net_def
  by (simp_all add: add_bending_energy_def get_bending_energy_def get_num_neg_jacob_def
        tf_stack_def Let_def example_net_attributes upt_2 example_weight_def)

subsection \<open>Elementwise products and the segmenter\<close>

lemma tzips_zip: "tzips f xs ys = map (\<lambda>(x, y). tzip f x y) (zip xs ys)"
proof (induction xs arbitrary: ys)
  case Nil
  then show ?case by simp
next
  case (Cons x xs)
  then show ?case by (cases ys) simp_all
qed

lemma has_shape_Cons:
  "has_shape (m # sh) t \<longleftrightarrow> (\<exists>ts. t = Tn ts \<and> length ts = m \<and> list_all (has_shape sh) ts)"
  by (cases t) auto

lemma has_shape_Nil: "has_shape [] t \<longleftrightarrow> (\<exists>x. t = Sc x)"
  by (cases t) auto

lemma length_entries: "has_shape sh t \<Longrightarrow> length (entries t) = prod_list sh"
proof (induction sh arbitrary: t)
  case Nil
  then show ?case by (auto simp: has_shape_Nil)
next
  case (Cons m sh)
  then obtain ts where t: "t = Tn ts" and l: "length ts = m" and a: "list_all (has_shape sh) ts"
    by (auto simp: has_shape_Cons)
  have "\<forall>u \<in> set ts. length (entries u) = prod_list sh"
    using a Cons.IH by (auto simp: list_all_iff)
  then have "length (concat (map entries ts)) = length ts * prod_list sh"
    by (induction ts) simp_all
  then show ?case using t l by simp
qed

lemma zip_concat_equal_lengths:
  assumes "length xs = length ys"
    and "\<forall>(x, y) \<in> set (zip xs ys). length (f x) = length (g y)"
  shows "zip (concat (map f xs)) (concat (map g ys)) = concat (map (\<lambda>(x, y). zip (f x) (g y)) (zip xs ys))"
  using assms by (induction xs ys rule: list_induct2) simp_all

lemma entries_tzip:
  "has_shape sh p \<Longrightarrow> has_shape sh w \<Longrightarrow>
     entries (tzip f p w) = map (\<lambda>(x, y). f x y) (zip (entries p) (entries w))"
proof (induction sh arbitrary: p w)
  case Nil
  then show ?case by (auto simp: has_shape_Nil)
next
  case (Cons m sh)
  obtain ps where p: "p = Tn ps" and lp: "length ps = m" and ap: "list_all (has_shape sh) ps"
    using Cons.prems(1) by (auto simp: has_shape_Cons)
  obtain ws where w: "w = Tn ws" and lw: "length ws = m" and aw: "list_all (has_shape sh) ws"
    using Cons.prems(2) by (auto simp: has_shape_Cons)
  have len: "length ps = length ws" using lp lw by simp
  have in_zip: "\<forall>(x, y) \<in> set (zip ps ws). has_shape sh x \<and> has_shape sh y"
    using ap aw by (auto simp: list_all_iff dest: set_zip_leftD set_zip_rightD)
  have eq_len: "\<forall>(x, y) \<in> set (zip ps ws). length (entries x) = length (entries y)"
    using in_zip by (auto simp: length_entries)
  have "entries (tzip f p w) = concat (map (\<lambda>(x, y). entries (tzip f x y)) (zip ps ws))"
    using p w by (simp add: tzips_zip comp_def case_prod_unfold)
  also have "\<dots> = concat (map (\<lambda>(x, y). map (\<lambda>(a, b). f a b) (zip (entries x) (entries y))) (zip ps ws))"
    using in_zip Cons.IH by (intro arg_cong [where f = concat] map_cong) auto
  also have "\<dots> = map (\<lambda>(a, b). f a b) (concat (map (\<lambda>(x, y). zip (entries x) (entries y)) (zip ps ws)))"
    by (simp add: map_concat comp_def case_prod_unfold)
  also have "\<dots> = map (\<lambda>(a, b). f a b) (zip (entries p) (entries w))"
    using zip_concat_equal_lengths [OF len eq_len] p w by simp
  finally show ?case .
qed

lemma has_shape_shape_of: "has_shape sh p \<Longrightarrow> has_shape sh w \<Longrightarrow> shape_of p = shape_of w"
proof (induction sh arbitrary: p w)
  case Nil
  then show ?case by (auto simp: has_shape_Nil)
next
  case (Cons m sh)
  obtain ps where p: "p = Tn ps" and lp: "length ps = m" and ap: "list_all (has_shape sh) ps"
    using Cons.prems(1) by (auto simp: has_shape_Cons)
  obtain ws where w: "w = Tn ws" and lw: "length ws = m" and aw: "list_all (has_shape sh) ws"
    using Cons.prems(2) by (auto simp: has_shape_Cons)
  show ?case
  proof (cases ps)
    case Nil
    then show ?thesis using p w lp lw by simp
  next
    case (Cons x xs)
    then obtain y ys where "ws = y # ys" using lp lw by (cases ws) auto
    then show ?thesis using Cons p w lp lw ap aw Cons.IH [of x y] by simp
  qed
qed

lemma eval_weighted_product:
  assumes "eval s fd a = Inr p" and "eval s fd b = Inr w"
    and "has_shape (m # sh) p" and "has_shape (m # sh) w"
  shows "eval s fd (Binary TfMul a b) = Inr (tzip (\<lambda>u v. u * v) p w)"
proof -
  obtain ps ws where "p = Tn ps" "w = Tn ws" using assms(3,4) by (auto simp: has_shape_Cons)
  then show ?thesis
    using assms has_shape_shape_of [OF assms(3,4)] by (simp add: apply_bin_def broadcast_def)
qed


lemma store_prediction_feed_fails:
  assumes "sample ''atlases_weight'' = None"
  shows "\<exists>e. store_prediction_feed sample dropout = Inl e"
  using assms
  by (cases "sample ''target_image''"; cases "sample ''target_label''";
      cases "sample ''target_weight''"; cases "sample ''atlases_label''";
      cases "sample ''atlases_image''")
    (simp_all add: store_prediction_feed_def lookup_def)

lemma store_prediction_run_no_attribute:
  assumes "bending_energy n' = None"
  shows "store_prediction_run s n' sample dropout = Inl (AttributeError ''bending_energy'')"
  using assms by (simp add: store_prediction_run_def store_prediction_fetches_def attribute_def)

lemma store_prediction_run_fails:
  assumes "sample ''atlases_weight'' = None"
  shows "\<exists>e. store_prediction_run s n' sample dropout = Inl e"
proof (cases "store_prediction_fetches n'")
  case (Inl e)
  then show ?thesis by (simp add: store_prediction_run_def)
next
  case (Inr fetches)
  obtain e where "store_prediction_feed sample dropout = Inl e"
    using store_prediction_feed_fails [of sample dropout] assms by blast
  then show ?thesis using Inr by (simp add: store_prediction_run_def)
qed

lemma store_prediction_run_missing_weight:
  assumes "bending_energy n' \<noteq> None" and "num_neg_jacob n' \<noteq> None"
    and "sample ''target_image'' \<noteq> None" and "sample ''target_label'' \<noteq> None"
    and "sample ''target_weight'' \<noteq> None" and "sample ''atlases_label'' \<noteq> None"
    and "sample ''atlases_image'' \<noteq> None" and "sample ''atlases_weight'' = None"
  shows "store_prediction_run s n' sample dropout = Inl (KeyError ''atlases_weight'')"
  using assms(1,2) store_prediction_feed_missing_weight [OF assms(3-8)]
  by (auto simp: store_prediction_run_def store_prediction_fetches_def attribute_def)

lemma finest_scale_first:
  assumes "UnifiedMultiAtlasSegNet i cs k a ns ck nk = Inr n"
  shows "\<exists>ws. warped_atlases_prob n =
           warped_prob_node n (augmented_data ''atlases_label'') (ddf n) ''linear'' 0 # ws"
proof -
  note I = constructor_inv [OF assms]
  obtain s0 ss where "prob_sigma n = s0 # ss" using I(7) by (cases "prob_sigma n") auto
  then have "length (prob_sigma n) = Suc (length ss)" by simp
  then show ?thesis using I(8) by (simp add: upt_conv_Cons del: upt_Suc)
qed

lemma bind_r_assoc: "bind_r (bind_r m f) g = bind_r m (\<lambda>x. bind_r (f x) g)"
  by (cases m) simp_all

lemma eval_segmentation:
  "eval s fd x = Inr m \<Longrightarrow>
     eval s fd (get_segmentation (get_joint_prob x)) =
       bind_r (ext s ''utils_2d.get_joint_prob'' [] [m])
         (\<lambda>j. ext s ''utils_2d.get_segmentation'' [] [j])"
  by (simp add: get_segmentation_def get_joint_prob_def bind_r_assoc)

lemma segmenter_node:
  assumes "UnifiedMultiAtlasSegNet i cs k a ns ck nk = Inr n"
  shows "segmenter n =
           get_segmentation (get_joint_prob (Binary TfMul
             (warped_prob_node n (augmented_data ''atlases_label'') (ddf n) ''linear'' 0)
             (warped_atlases_weight n)))"
proof -
  obtain ws where w: "warped_atlases_prob n =
      warped_prob_node n (augmented_data ''atlases_label'') (ddf n) ''linear'' 0 # ws"
    using finest_scale_first [OF assms] by blast
  show ?thesis
    using constructor_inv(13) [OF assms] by (simp add: get_segmenter_def warped_prob0_Cons [OF w])
qed

lemma example_regularized_net_fields:
  "segmenter example_regularized_net = segmenter example_net"
  "atlases_joint_prob example_regularized_net = atlases_joint_prob example_net"
  "warped_atlases_prob example_regularized_net = warped_atlases_prob example_net"
  "warped_atlases_weight example_regularized_net = warped_atlases_weight example_net"
  "ddf example_regularized_net = ddf example_net"
  unfolding example_regularized_net_def
  by (simp_all add: add_bending_energy_def get_bending_energy_def get_num_neg_jacob_def
        tf_stack_def Let_def example_net_attributes upt_2)

subsection \<open>Evaluating the example networks\<close>

lemma network_nodes:
  assumes "UnifiedMultiAtlasSegNet i cs k a ns ck nk = Inr n"
  shows "\<exists>st raw. integrate_ddf nk raw = Inr (net_kwargs n, int_steps n, vec n, ddf n) \<and>
           (if kw_method nk = Some ''ddf_score''
            then raw = Helper ''create_ddf_score_net.ddf'' st net_inputs \<and>
                 regularization_loss n = Helper ''create_ddf_score_net.regularization_loss'' st net_inputs \<and>
                 scores n = Some (Helper ''create_ddf_score_net.scores'' st net_inputs)
            else raw = Helper ''create_ddf_label_net.ddf'' st net_inputs \<and>
                 regularization_loss n = Helper ''create_ddf_label_net.regularization_loss'' st net_inputs \<and>
                 scores n = None)"
proof -
  obtain h raw where h: "init_hparams i cs k a ns ck nk = Inr h"
    and c: "create_network h = Inr (raw, regularization_loss n, scores n)"
    and d: "integrate_ddf nk raw = Inr (net_kwargs n, int_steps n, vec n, ddf n)"
    using constructor_inv(16) [OF assms] by blast
  have "net_kwargs h = nk" using init_hparams_fields [OF h] by auto
  then show ?thesis
    using c d
    by (intro exI [of _ "[SNat (n_atlas h), SStr (net_regularizer h), SNetKw (net_kwargs h)]"]
        exI [of _ raw])
      (auto simp: create_network_def network_output_def net_inputs_def split: option.splits if_splits)
qed

lemma example_feed_values:
  "example_feed ''train_phase'' = Some (Sc 0)"
  "example_feed ''dropout_rate'' = Some (Sc 0)"
  "example_feed ''target_image'' = Some (Tn [Tn [Tn [Tn [Sc 1]]]])"
  "example_feed ''target_label'' = Some (Tn [Tn [Tn [Tn [Sc 1, Sc 0]]]])"
  "example_feed ''target_weight'' = Some (Tn [Tn [Tn [Tn [Sc 1, Sc 1]]]])"
  "example_feed ''atlases_image'' = Some (Tn [Tn [Tn [Tn [Tn [Sc 1], Tn [Sc 1]]]]])"
  "example_feed ''atlases_label'' = Some (Tn [Tn [Tn [Tn [Tn [Sc 1, Sc 0], Tn [Sc 0, Sc 1]]]]])"
  "example_feed ''atlases_weight'' = Some (Tn [Tn [Tn [Tn [Tn [Sc 1, Sc 1], Tn [Sc 1, Sc 1]]]]])"
  by (simp_all add: example_feed_def example_sample_def example_sample_no_weight_def)

lemma example_ext_simps:
  "example_ext ''create_ddf_label_net.ddf'' st xs = Inr example_zero_ddf"
  "example_ext ''create_ddf_score_net.ddf'' st xs = Inr example_zero_ddf"
  "example_ext ''create_ddf_score_net.scores'' st xs = Inr (Tn [Tn [Tn [Sc 1], Tn [Sc 1]]])"
  "example_ext ''OverlapMetrics.averaged_foreground_jaccard'' st xs = Inr (Tn [Sc 0])"
  "example_ext ''CrossEntropy.loss'' st xs = Inr (Tn [Tn [Tn [Sc 0]]])"
  "example_ext ''tf.cond(random_affine_augment)'' st [p, x] = Inr x"
  "example_ext ''utils_2d.get_prob_from_label'' st (x # xs) = Inr x"
  "example_ext ''SpatialTransformer'' st (x # xs) = Inr x"
  "example_ext ''resample'' st (x # xs) = Inr x"
  by (simp_all add: example_ext_def)

lemma example_session_ext: "ext example_session = example_ext"
  by (simp add: example_session_def)

lemma eval_example_augmented:
  "example_feed k = Some v \<Longrightarrow> eval example_session example_feed (augmented_data k) = Inr v"
  by (simp add: augmented_data_def train_phase_def data_def example_feed_values
      example_session_ext example_ext_simps)

lemma eval_example_net_inputs:
  "sequence (map (eval example_session example_feed) net_inputs) =
     Inr [Tn [Tn [Tn [Tn [Sc 1]]]], Tn [Tn [Tn [Tn [Tn [Sc 1], Tn [Sc 1]]]]], Sc 0, Sc 0]"
  by (simp add: net_inputs_def eval_example_augmented example_feed_values dropout_rate_def
      train_phase_def)

lemma score_example_nodes:
  assumes "UnifiedMultiAtlasSegNet i cs 2 2 ns (Some d) example_score_net_kwargs = Inr n"
  shows "\<exists>st. ddf n = Helper ''create_ddf_score_net.ddf'' st net_inputs
     \<and> regularization_loss n = Helper ''create_ddf_score_net.regularization_loss'' st net_inputs
     \<and> scores n = Some (Helper ''create_ddf_score_net.scores'' st net_inputs)"
proof -
  obtain st raw where
    d: "integrate_ddf example_score_net_kwargs raw =
      Inr (net_kwargs n, int_steps n, vec n, ddf n)"
    and r: "raw = Helper ''create_ddf_score_net.ddf'' st net_inputs"
    and g: "regularization_loss n = Helper ''create_ddf_score_net.regularization_loss'' st net_inputs"
    and s: "scores n = Some (Helper ''create_ddf_score_net.scores'' st net_inputs)"
    using network_nodes [OF assms] by (auto simp: example_score_net_kwargs_def)
  have "ddf n = raw"
    using integrate_ddf_cases [OF d] by (simp add: example_score_net_kwargs_def)
  then show ?thesis using r g s by blast
qed

lemma score_example_ddf:
  assumes "UnifiedMultiAtlasSegNet i cs 2 2 ns (Some d) example_score_net_kwargs = Inr n"
  shows "eval example_session example_feed (ddf n) = Inr example_zero_ddf"
    and "eval example_session example_feed (regularization_loss n) = Inr (Sc 0)"
proof -
  obtain st where "ddf n = Helper ''create_ddf_score_net.ddf'' st net_inputs"
    and "regularization_loss n = Helper ''create_ddf_score_net.regularization_loss'' st net_inputs"
    using score_example_nodes [OF assms] by blast
  then show "eval example_session example_feed (ddf n) = Inr example_zero_ddf"
    and "eval example_session example_feed (regularization_loss n) = Inr (Sc 0)"
    by (simp_all add: eval_example_net_inputs example_session_ext example_ext_simps
        example_ext_def)
qed

lemma score_example_attributes:
  assumes "UnifiedMultiAtlasSegNet i cs 2 2 ns (Some d) example_score_net_kwargs = Inr n"
  shows "cost_name n = kw_cost_name d"
    "regularizer_type n = kw_regularizer d"
    "regularization_coefficient n = kw_regularization_coefficient d"
    "n_atlas n = 2" "n_class n = 2"
    "kw_method (net_kwargs n) = Some ''ddf_score''"
    "prob_sigma n \<noteq> []"
  using constructor_inv(1,2,4,5,7) [OF assms]
  by (simp_all add: example_score_net_kwargs_def)

lemma score_example_finest:
  assumes "UnifiedMultiAtlasSegNet i cs 2 2 ns (Some d) example_score_net_kwargs = Inr n"
  shows "eval example_session example_feed
     (warped_prob_node n (augmented_data ''atlases_label'') (ddf n) ''linear'' 0)
   = Inr (Tn [Tn [Tn [Tn [Tn [Sc 1, Sc 0], Tn [Sc 0, Sc 1]]]]])"
  by (simp add: warped_prob_node_def score_example_attributes [OF assms] upt_2
      spatial_transform_def get_prob_from_label_def eval_example_augmented example_feed_values
      score_example_ddf [OF assms] example_zero_ddf_def apply_un_def example_session_ext
      example_ext_simps tf_stack_run_def Let_def eval_nat_numeral)

lemma score_example_scores_gt:
  assumes "UnifiedMultiAtlasSegNet i cs 2 2 ns (Some d) example_score_net_kwargs = Inr n"
  shows "eval example_session example_feed (scores_gt n) = Inr (Tn [Tn [Sc 0, Sc 0]])"
proof -
  note I = constructor_inv [OF assms]
  note A = score_example_attributes [OF assms]
  obtain ws where w: "warped_atlases_prob n =
      warped_prob_node n (augmented_data ''atlases_label'') (ddf n) ''linear'' 0 # ws"
    using finest_scale_first [OF assms] by blast
  obtain variant base where
    b: "scores_terms n variant = Inr (base, scores_loss n, scores_gt n)"
    using get_cost_parts [OF I(11)] by blast
  have gt: "get_scores_gt n = Inr (scores_gt n)"
    using scores_terms_score [OF A(6) b] by blast
  have "scores_gt n =
      Binary TfAdd
        (TfStack (- 1) (map (\<lambda>i. atlas_jaccard n
           (Unary (GetItem i) (warped_prob_node n (augmented_data ''atlases_label'') (ddf n) ''linear'' 0))) [0..<2]))
        (TfStack (- 1) (map (\<lambda>i. atlas_cross_entropy
           (Unary (GetItem i) (warped_prob_node n (augmented_data ''atlases_label'') (ddf n) ''linear'' 0))) [0..<2]))"
    using gt get_scores_gt_eq [OF w] by (simp add: A)
  then show ?thesis
    by (simp add: upt_2 atlas_jaccard_def atlas_cross_entropy_def score_example_finest [OF assms]
        eval_example_augmented example_feed_values apply_un_def apply_bin_def broadcast_def
        example_session_ext example_ext_simps tf_stack_run_def Let_def eval_nat_numeral
        pow_defined_def is_nat_exponent_def pow_real_def reduce_mean_axes12_def mean_of_def)
qed

lemma score_example_loss:
  assumes "UnifiedMultiAtlasSegNet i cs 2 2 ns (Some d) example_score_net_kwargs = Inr n"
    and "kw_cost_name d = Some ''L2_norm''"
  shows "loss_variant n = Inr (Unary TfReduceMean (Unary TfSquare (ddf n)))"
    and "eval example_session example_feed (Unary TfReduceMean (Unary TfSquare (ddf n))) = Inr (Sc 0)"
    and "eval example_session example_feed (scores_loss n) = Inr (Sc 1)"
    and "add_regularization n (regularizer_type n)
           (Binary TfAdd (Unary TfReduceMean (Unary TfSquare (ddf n))) (scores_loss n))
         = Inr (cost n)"
proof -
  note I = constructor_inv [OF assms(1)]
  note A = score_example_attributes [OF assms(1)]
  obtain variant base where v: "loss_variant n = Inr variant"
    and b: "scores_terms n variant = Inr (base, scores_loss n, scores_gt n)"
    and r: "add_regularization n (regularizer_type n) base = Inr (cost n)"
    using get_cost_parts [OF I(11)] by blast
  have v': "variant = Unary TfReduceMean (Unary TfSquare (ddf n))"
    using v A(1) assms(2) by (simp add: loss_variant_def Let_def)
  show "loss_variant n = Inr (Unary TfReduceMean (Unary TfSquare (ddf n)))"
    using v v' by simp
  obtain predicted where p: "scores n = Some predicted"
    and sl: "scores_loss n = get_scores_loss predicted (scores_gt n)"
    and base: "base = Binary TfAdd variant (scores_loss n)"
    using scores_terms_score [OF A(6) b] by blast
  obtain st where st: "predicted = Helper ''create_ddf_score_net.scores'' st net_inputs"
    using score_example_nodes [OF assms(1)] p by auto
  show "eval example_session example_feed (Unary TfReduceMean (Unary TfSquare (ddf n))) = Inr (Sc 0)"
    by (simp add: score_example_ddf [OF assms(1)] example_zero_ddf_def apply_un_def reduce_mean_def)
  show "eval example_session example_feed (scores_loss n) = Inr (Sc 1)"
    by (simp add: sl st get_scores_loss_def score_example_scores_gt [OF assms(1)]
        eval_example_net_inputs example_session_ext example_ext_simps apply_un_def apply_bin_def
        broadcast_def reduce_mean_def)
  show "add_regularization n (regularizer_type n)
           (Binary TfAdd (Unary TfReduceMean (Unary TfSquare (ddf n))) (scores_loss n))
         = Inr (cost n)"
    using r base v' by simp
qed

lemma example_score_net_ddf:
  "eval example_session example_feed (ddf example_score_net) = Inr example_zero_ddf"
  by (rule score_example_ddf(1) [OF example_score_net_built])

lemma eval_example_score_cost:
  "eval example_session example_feed (scores_loss example_score_net) = Inr (Sc 1)"
  "eval example_session example_feed (cost example_score_net) = Inr (Sc 1)"
  "eval example_session example_feed (pretrain_cost example_score_net) = Inr (Sc 0)"
proof -
  have c: "kw_cost_name example_score_cost_kwargs = Some ''L2_norm''"
    by (simp add: example_score_cost_kwargs_def example_cost_kwargs_def)
  note L = score_example_loss [OF example_score_net_built c]
  note A = score_example_attributes [OF example_score_net_built]
  show l: "eval example_session example_feed (scores_loss example_score_net) = Inr (Sc 1)"
    by (rule L(3))
  have "cost example_score_net =
      Binary TfAdd (Unary TfReduceMean (Unary TfSquare (ddf example_score_net)))
        (scores_loss example_score_net)"
    using L(4)
    by (simp add: add_regularization_def A example_score_cost_kwargs_def example_cost_kwargs_def)
  then show "eval example_session example_feed (cost example_score_net) = Inr (Sc 1)"
    using L(2) l by (simp add: apply_bin_def broadcast_def)
  show "eval example_session example_feed (pretrain_cost example_score_net) = Inr (Sc 0)"
    using constructor_inv(12) [OF example_score_net_built]
    by (simp add: get_pretrain_cost_def example_score_net_ddf example_zero_ddf_def apply_un_def
        apply_bin_def reduce_mean_def pow_defined_def is_nat_exponent_def pow_real_def)
qed

lemma example_coupled_net_built:
  "UnifiedMultiAtlasSegNet (1, 1) 1 2 2 [2, 1] (Some example_cost_kwargs)
     example_score_net_kwargs = Inr example_coupled_net"
proof -
  have "\<exists>n. UnifiedMultiAtlasSegNet (1, 1) 1 2 2 [2, 1] (Some example_cost_kwargs)
          example_score_net_kwargs = Inr n"
    by (rule constructor_succeeds [where c = "''L2_norm''" and b = False])
      (simp_all add: example_cost_kwargs_def example_score_net_kwargs_def implemented_costs_def)
  then show ?thesis by (auto simp: example_coupled_net_def)
qed

lemma example_coupled_net_cost:
  "cost example_coupled_net =
     Binary TfAdd
       (Binary TfAdd (Unary TfReduceMean (Unary TfSquare (ddf example_coupled_net)))
          (scores_loss example_coupled_net))
       (Binary TfMul (regularization_loss example_coupled_net) (Constant (Sc (1 / 2))))"
  "eval example_session example_feed (cost example_coupled_net) = Inr (Sc 1)"
  "eval example_session example_feed
     (Binary TfAdd (Unary TfReduceMean (Unary TfSquare (ddf example_coupled_net)))
        (Binary TfMul (regularization_loss example_coupled_net) (Constant (Sc (1 / 2)))))
   = Inr (Sc 0)"
proof -
  have c: "kw_cost_name example_cost_kwargs = Some ''L2_norm''"
    by (simp add: example_cost_kwargs_def)
  note L = score_example_loss [OF example_coupled_net_built c]
  note A = score_example_attributes [OF example_coupled_net_built]
  note D = score_example_ddf [OF example_coupled_net_built]
  show n: "cost example_coupled_net =
     Binary TfAdd
       (Binary TfAdd (Unary TfReduceMean (Unary TfSquare (ddf example_coupled_net)))
          (scores_loss example_coupled_net))
       (Binary TfMul (regularization_loss example_coupled_net) (Constant (Sc (1 / 2))))"
    using L(4) by (simp add: add_regularization_def A example_cost_kwargs_def)
  have s: "eval example_session example_feed
      (Binary TfMul (regularization_loss example_coupled_net) (Constant (Sc (1 / 2)))) = Inr (Sc 0)"
    using D(2) by (simp add: apply_bin_def broadcast_def)
  have t: "eval example_session example_feed
      (Binary TfAdd (Unary TfReduceMean (Unary TfSquare (ddf example_coupled_net)))
          (scores_loss example_coupled_net)) = Inr (Sc 1)"
    using L(2,3) by (simp add: apply_bin_def broadcast_def)
  show "eval example_session example_feed (cost example_coupled_net) = Inr (Sc 1)"
    unfolding n using s t by (simp add: apply_bin_def broadcast_def)
  show "eval example_session example_feed
     (Binary TfAdd (Unary TfReduceMean (Unary TfSquare (ddf example_coupled_net)))
        (Binary TfMul (regularization_loss example_coupled_net) (Constant (Sc (1 / 2)))))
   = Inr (Sc 0)"
    using L(2) s by (simp add: apply_bin_def broadcast_def)
qed

lemma constructor_not_implemented:
  assumes "kw_cost_name d = Some c" and "c \<notin> set implemented_costs"
    and "kw_regularizer d = Some (r0 # rs)"
    and "case kw_prior_prob d of None \<Rightarrow> 0 < k | Some p \<Rightarrow> length p = k"
    and "kw_method nk = Some ''ddf_label'' \<or> kw_method nk = Some ''ddf_score''"
    and "kw_diffeomorphism nk = Some b"
    and "kw_prob_sigma d \<noteq> Some []" and "0 < a"
    and "b \<longrightarrow> configured_steps nk < 1024"
  shows "UnifiedMultiAtlasSegNet i cs k a ns (Some d) nk = Inl NotImplementedError"
proof -
  obtain h where h: "init_hparams i cs k a ns (Some d) nk = Inr h"
    using init_hparams_succeeds [OF assms(1,3)] by blast
  have H: "cost_name h = kw_cost_name d" "cost_kwargs h = d" "net_kwargs h = nk" "n_atlas h = a"
    "n_class h = k"
    using init_hparams_fields [OF h] by auto
  have "prob_sigma h \<noteq> []" using init_hparams_sigma [OF h assms(7)] .
  then obtain g where g: "init_graph h = Inr g"
    using init_graph_succeeds [of h b] H assms(4,5,6,8,9) by auto
  have "cost_name g = Some c" using init_graph_inv(1) [OF g] H assms(1) by simp
  then have "init_outputs g = Inl NotImplementedError"
    using assms(2) by (simp add: init_outputs_def get_cost_unknown)
  then show ?thesis using h g by (simp add: UnifiedMultiAtlasSegNet_def)
qed

subsection \<open>The pretraining loss\<close>

lemma create_network_raw:
  assumes "create_network h = Inr (raw, reg, sc)"
  shows "raw = Helper (if kw_method (net_kwargs h) = Some ''ddf_label''
                       then ''create_ddf_label_net.ddf'' else ''create_ddf_score_net.ddf'')
                 [SNat (n_atlas h), SStr (net_regularizer h), SNetKw (net_kwargs h)] net_inputs"
  using assms
  by (auto simp: create_network_def network_output_def net_inputs_def split: option.splits if_splits)

lemma ddf_determined:
  assumes "UnifiedMultiAtlasSegNet i cs k a ns (Some d) nk = Inr n"
    and "UnifiedMultiAtlasSegNet i' cs' k' a ns' (Some d') nk = Inr n'"
    and "kw_regularizer d = kw_regularizer d'"
  shows "ddf n' = ddf n"
proof -
  obtain h raw where h: "init_hparams i cs k a ns (Some d) nk = Inr h"
    and c: "create_network h = Inr (raw, regularization_loss n, scores n)"
    and e: "integrate_ddf nk raw = Inr (net_kwargs n, int_steps n, vec n, ddf n)"
    using constructor_inv(16) [OF assms(1)] by blast
  obtain h' raw' where h': "init_hparams i' cs' k' a ns' (Some d') nk = Inr h'"
    and c': "create_network h' = Inr (raw', regularization_loss n', scores n')"
    and e': "integrate_ddf nk raw' = Inr (net_kwargs n', int_steps n', vec n', ddf n')"
    using constructor_inv(16) [OF assms(2)] by blast
  have "net_kwargs h = nk" "n_atlas h = a" "subscript (kw_regularizer d) 0 = Inr (net_regularizer h)"
    using init_hparams_fields [OF h] by auto
  moreover have "net_kwargs h' = nk" "n_atlas h' = a"
    "subscript (kw_regularizer d') 0 = Inr (net_regularizer h')"
    using init_hparams_fields [OF h'] by auto
  ultimately have "raw' = raw"
    using create_network_raw [OF c] create_network_raw [OF c'] assms(3) by simp
  then show ?thesis using integrate_ddf_cases [OF e] integrate_ddf_cases [OF e'] by simp
qed

lemma eval_mean_of_squares:
  assumes "eval s fd x = Inr z" and "entries z \<noteq> []"
  shows "eval s fd (Unary TfReduceMean (Binary TfPow x (Constant (Sc 2)))) =
           Inr (Sc (sum_list (map (\<lambda>u. u ^ 2) (entries z)) / real (length (entries z))))"
    and "eval s fd (Unary TfReduceMean (Unary TfSquare x)) =
           Inr (Sc (sum_list (map (\<lambda>u. u * u) (entries z)) / real (length (entries z))))"
  using assms
  by (simp_all add: apply_un_def apply_bin_def reduce_mean_def entries_tmap pow_defined_def
      is_nat_exponent_def pow_real_def list_all_iff)

lemma sum_of_zero_squares:
  "list_all (\<lambda>x. x = 0) xs \<Longrightarrow>
     sum_list (map (\<lambda>u. u ^ 2) xs) = 0 \<and> sum_list (map (\<lambda>u. u * u) xs) = (0::real)"
  by (induction xs) simp_all

lemma l2_cost_without_terms:
  assumes "UnifiedMultiAtlasSegNet i cs k a ns (Some d) nk = Inr n"
    and "kw_cost_name d = Some ''L2_norm''" and "kw_method nk = Some ''ddf_label''"
    and "kw_regularizer d = Some (r0 # rs)"
    and "r0 = ''l2'' \<or> r0 = ''l1'' \<longrightarrow> (\<exists>cs'. kw_regularization_coefficient d = Some (0 # cs'))"
  shows "cost n = Unary TfReduceMean (Unary TfSquare (ddf n))"
proof -
  note I = constructor_inv [OF assms(1)]
  obtain variant base where v: "loss_variant n = Inr variant"
    and b: "scores_terms n variant = Inr (base, scores_loss n, scores_gt n)"
    and r: "add_regularization n (regularizer_type n) base = Inr (cost n)"
    using get_cost_parts [OF I(11)] by blast
  have "cost_name n = Some ''L2_norm''" using I(1) assms(2) by simp
  then have v': "variant = Unary TfReduceMean (Unary TfSquare (ddf n))"
    using v by (simp add: loss_variant_def Let_def)
  have "kw_method (net_kwargs n) \<noteq> Some ''ddf_score''" using I(5) assms(3) by simp
  then have base: "base = variant" using scores_terms_other [OF _ b] by simp
  have rt: "regularizer_type n = Some (r0 # rs)"
    "regularization_coefficient n = kw_regularization_coefficient d"
    using I(1) assms(4) by auto
  have "cost n = base"
    using add_regularization_cases [OF r] rt assms(5) by (auto split: if_splits)
  then show ?thesis using base v' by simp
qed

lemma example_plain_net_built:
  "UnifiedMultiAtlasSegNet (1, 1) 1 2 2 [2, 1] (Some example_score_cost_kwargs)
     example_plain_net_kwargs = Inr example_plain_net"
proof -
  have "\<exists>n. UnifiedMultiAtlasSegNet (1, 1) 1 2 2 [2, 1] (Some example_score_cost_kwargs)
          example_plain_net_kwargs = Inr n"
    by (rule constructor_succeeds [where c = "''L2_norm''" and b = False])
      (simp_all add: example_score_cost_kwargs_def example_cost_kwargs_def
        example_plain_net_kwargs_def implemented_costs_def)
  then show ?thesis by (auto simp: example_plain_net_def)
qed

lemma example_plain_net_ddf:
  "eval example_session example_feed (ddf example_plain_net) = Inr example_zero_ddf"
proof -
  obtain st raw where
    d: "integrate_ddf example_plain_net_kwargs raw =
      Inr (net_kwargs example_plain_net, int_steps example_plain_net, vec example_plain_net,
           ddf example_plain_net)"
    and r: "raw = Helper ''create_ddf_label_net.ddf'' st net_inputs"
    using network_nodes [OF example_plain_net_built] by (auto simp: example_plain_net_kwargs_def)
  have "ddf example_plain_net = raw"
    using integrate_ddf_cases [OF d] by (simp add: example_plain_net_kwargs_def)
  then show ?thesis
    using r by (simp add: eval_example_net_inputs example_session_ext example_ext_simps)
qed


subsection \<open>The regularization term\<close>

lemma regularization_cases:
  assumes "UnifiedMultiAtlasSegNet i cs k a ns (Some d) nk = Inr n"
  shows "\<exists>variant r0 rs. loss_variant n = Inr variant \<and> kw_regularizer d = Some (r0 # rs) \<and>
          (if r0 = ''l2'' \<or> r0 = ''l1''
           then \<exists>c cs'. kw_regularization_coefficient d = Some (c # cs') \<and>
                 (if c \<noteq> 0
                  then cost n = Binary TfAdd (loss_with_scores n variant (scores_loss n))
                                  (Binary TfMul (regularization_loss n) (Constant (Sc c)))
                     \<and> (\<forall>s fd b r. eval s fd (loss_with_scores n variant (scores_loss n)) = Inr (Sc b)
                                  \<and> eval s fd (regularization_loss n) = Inr (Sc r)
                              \<longrightarrow> eval s fd (cost n) = Inr (Sc (b + r * c)))
                  else cost n = loss_with_scores n variant (scores_loss n))
           else cost n = loss_with_scores n variant (scores_loss n))"
proof -
  note I = constructor_inv [OF assms]
  obtain variant base where v: "loss_variant n = Inr variant"
    and b: "scores_terms n variant = Inr (base, scores_loss n, scores_gt n)"
    and r: "add_regularization n (regularizer_type n) base = Inr (cost n)"
    using get_cost_parts [OF I(11)] by blast
  have base: "base = loss_with_scores n variant (scores_loss n)"
    by (rule scores_terms_base [OF b])
  obtain r0 rs where rt: "regularizer_type n = Some (r0 # rs)"
    and c: "if r0 = ''l2'' \<or> r0 = ''l1''
           then \<exists>c0 cs. regularization_coefficient n = Some (c0 # cs) \<and>
                  cost n = (if c0 \<noteq> 0
                       then Binary TfAdd base (Binary TfMul (regularization_loss n) (Constant (Sc c0)))
                       else base)
           else cost n = base"
    using add_regularization_cases [OF r] by blast
  have d: "regularizer_type n = kw_regularizer d"
    "regularization_coefficient n = kw_regularization_coefficient d"
    using I(1) by auto
  let ?base = "loss_with_scores n variant (scores_loss n)"
  have tail: "if r0 = ''l2'' \<or> r0 = ''l1''
           then \<exists>c cs'. kw_regularization_coefficient d = Some (c # cs') \<and>
                 (if c \<noteq> 0
                  then cost n = Binary TfAdd ?base
                                  (Binary TfMul (regularization_loss n) (Constant (Sc c)))
                     \<and> (\<forall>s fd b r. eval s fd ?base = Inr (Sc b)
                                  \<and> eval s fd (regularization_loss n) = Inr (Sc r)
                              \<longrightarrow> eval s fd (cost n) = Inr (Sc (b + r * c)))
                  else cost n = ?base)
           else cost n = ?base"
  proof (cases "r0 = ''l2'' \<or> r0 = ''l1''")
    case True
    then obtain c0 cs' where c0: "regularization_coefficient n = Some (c0 # cs')"
      and cn: "cost n = (if c0 \<noteq> 0
                       then Binary TfAdd base (Binary TfMul (regularization_loss n) (Constant (Sc c0)))
                       else base)"
      using c by auto
    have "if c0 \<noteq> 0
          then cost n = Binary TfAdd ?base (Binary TfMul (regularization_loss n) (Constant (Sc c0)))
             \<and> (\<forall>s fd b r. eval s fd ?base = Inr (Sc b)
                          \<and> eval s fd (regularization_loss n) = Inr (Sc r)
                      \<longrightarrow> eval s fd (cost n) = Inr (Sc (b + r * c0)))
          else cost n = ?base"
      using cn base by (auto simp: apply_bin_def broadcast_def)
    then show ?thesis using True c0 d(2) by simp
  next
    case False
    then show ?thesis using c base by simp
  qed
  show ?thesis
    using v rt d(1) tail by (intro exI [of _ variant] exI [of _ r0] exI [of _ rs]) simp
qed

lemma add_bending_energy_cost:
  assumes "add_bending_energy n ti si = Inr n'" and "0 < n_atlas n"
  shows "if subscript (regularizer_type n) 1 = Inr ''bending_energy''
         then \<exists>be. bending_energy n' = Some be \<and> cost n' = Binary TfAdd (cost n) be
         else cost n' = cost n"
proof (cases "subscript (regularizer_type n) 1 = Inr ''bending_energy''")
  case True
  obtain weight where "bending_energy n' =
           Some (Unary TfReduceMean (TfStack 0
                   (map (\<lambda>j. displacement_energy (Unary (GetItem j) (ddf n)) weight)
                      [0..<n_atlas n])))"
    and "cost n' = Binary TfAdd (cost n) (the (bending_energy n'))"
    using add_bending_energy_on [OF assms(1) True assms(2)] by blast
  then have "\<exists>be. bending_energy n' = Some be \<and> cost n' = Binary TfAdd (cost n) be"
    by simp
  then show ?thesis unfolding if_P [OF True] .
next
  case False
  have "n' = n" using assms(1) False by (auto simp: add_bending_energy_def bind_r_eq_Inr)
  then show ?thesis unfolding if_not_P [OF False] by simp
qed

subsection \<open>The spatial mean of powers\<close>

lemma foldl_tzip_scalars:
  "foldl (tzip (\<lambda>u v. u + v)) (Sc x) (map Sc xs) = Sc (x + sum_list xs)"
  by (induction xs arbitrary: x) (simp_all add: add.assoc)

lemma mean_of_scalars:
  assumes "xs \<noteq> []"
  shows "mean_of (map Sc xs) = Inr (Sc (sum_list xs / real (length xs)))"
proof -
  obtain y ys where xs: "xs = y # ys" using assms by (cases xs) auto
  have "list_all (\<lambda>u. shape_of u = shape_of (Sc y)) (map Sc ys)"
    by (simp add: list_all_iff)
  then show ?thesis
    unfolding xs by (simp add: mean_of_def foldl_tzip_scalars)
qed

lemma entries_image_batch: "entries (image_batch ims) = concat (map concat ims)"
  by (simp add: image_batch_def comp_def)

lemma tmap_image_batch: "tmap f (image_batch ims) = image_batch (map (map (map f)) ims)"
  by (simp add: image_batch_def comp_def)

lemma reduce_mean_axes12_image_batch:
  assumes "ims \<noteq> []" and "\<forall>im \<in> set ims. im \<noteq> [] \<and> (\<forall>row \<in> set im. row \<noteq> [])"
  shows "reduce_mean_axes12 (image_batch ims) =
           Inr (Tn (map (\<lambda>im. Sc (sum_list (concat im) / real (length (concat im)))) ims))"
proof -
  obtain im0 ims' where ims: "ims = im0 # ims'" using assms(1) by (cases ims) auto
  then obtain row0 im0' where im0: "im0 = row0 # im0'" using assms(2) by (cases im0) auto
  have len: "\<not> length (shape_of (image_batch ims)) < 3"
    unfolding ims im0 image_batch_def by (cases row0) simp_all
  have m: "mean_of (concat (map (map Sc) im))
      = Inr (Sc (sum_list (concat im) / real (length (concat im))))" if "im \<in> set ims" for im
  proof -
    have "im \<noteq> []" "\<forall>row \<in> set im. row \<noteq> []" using assms(2) that by auto
    then have "concat im \<noteq> []" by (cases im) auto
    then show ?thesis using mean_of_scalars [of "concat im"] by (simp add: map_concat)
  qed
  have "map (\<lambda>tb. mean_of (concat (map children (children tb)))) (children (image_batch ims))
      = map (\<lambda>im. Inr (Sc (sum_list (concat im) / real (length (concat im))))) ims"
    unfolding image_batch_def children.simps map_map comp_def
    by (rule map_cong [OF refl]) (rule m)
  then show ?thesis
    using len by (simp add: reduce_mean_axes12_def sequence_map_Inr)
qed

lemma eval_mean_of_powers:
  assumes "eval s fd ce = Inr (image_batch ims)" and "ims \<noteq> []"
    and "\<forall>im \<in> set ims. im \<noteq> [] \<and> (\<forall>row \<in> set im. row \<noteq> [] \<and> (\<forall>x \<in> set row. 0 \<le> x))"
  shows "eval s fd (Unary TfReduceMeanAxes12 (Binary TfPow ce (Constant (Sc (3 / 10))))) =
           Inr (Tn (map (\<lambda>im. Sc (sum_list (map (\<lambda>x. x powr (3 / 10)) (concat im))
                                  / real (length (concat im)))) ims))"
proof -
  have nn: "\<not> is_nat_exponent (3 / 10)" by (simp add: is_nat_exponent_def)
  have h: "\<forall>x \<in> set (concat (map concat ims)). 0 \<le> x" using assms(3) by auto
  have d: "list_all (pow_defined (3 / 10)) (entries (image_batch ims))"
    unfolding entries_image_batch list_all_iff
  proof
    fix x :: real
    assume "x \<in> set (concat (map concat ims))"
    then have "0 \<le> x" using h by blast
    then show "pow_defined (3 / 10) x" by (cases "x = 0") (simp_all add: pow_defined_def)
  qed
  have p: "apply_bin TfPow (image_batch ims) (Sc (3 / 10)) =
      Inr (image_batch (map (map (map (\<lambda>x. x powr (3 / 10)))) ims))"
    using d nn by (simp add: apply_bin_def tmap_image_batch pow_real_def)
  have "reduce_mean_axes12 (image_batch (map (map (map (\<lambda>x. x powr (3 / 10)))) ims)) =
      Inr (Tn (map (\<lambda>im. Sc (sum_list (concat im) / real (length (concat im))))
                 (map (map (map (\<lambda>x. x powr (3 / 10)))) ims)))"
    using assms(2,3) by (intro reduce_mean_axes12_image_batch) auto
  then show ?thesis
    using assms(1) p by (simp add: apply_un_def comp_def map_concat [symmetric])
qed

subsection \<open>The example with an image of two pixels\<close>

lemma example_wide_net_built:
  "UnifiedMultiAtlasSegNet (1, 2) 1 2 2 [2, 1] (Some example_score_cost_kwargs)
     example_score_net_kwargs = Inr example_wide_net"
proof -
  have "\<exists>n. UnifiedMultiAtlasSegNet (1, 2) 1 2 2 [2, 1] (Some example_score_cost_kwargs)
          example_score_net_kwargs = Inr n"
    by (rule constructor_succeeds [where c = "''L2_norm''" and b = False])
      (simp_all add: example_score_cost_kwargs_def example_cost_kwargs_def
        example_score_net_kwargs_def implemented_costs_def)
  then show ?thesis by (auto simp: example_wide_net_def)
qed

lemma example_wide_feed_values:
  "example_wide_feed ''train_phase'' = Some (Sc 0)"
  "example_wide_feed ''dropout_rate'' = Some (Sc 0)"
  "example_wide_feed ''target_image'' = Some (Tn [Tn [Tn [Tn [Sc 1], Tn [Sc 1]]]])"
  "example_wide_feed ''target_label'' = Some (Tn [Tn [Tn [Tn [Sc 1, Sc 0], Tn [Sc 0, Sc 1]]]])"
  "example_wide_feed ''atlases_image'' =
     Some (Tn [Tn [Tn [Tn [Tn [Sc 1], Tn [Sc 1]], Tn [Tn [Sc 1], Tn [Sc 1]]]]])"
  "example_wide_feed ''atlases_label'' =
     Some (Tn [Tn [Tn [Tn [Tn [Sc 1, Sc 0], Tn [Sc 0, Sc 1]],
                       Tn [Tn [Sc 0, Sc 1], Tn [Sc 1, Sc 0]]]]])"
  by (simp_all add: example_wide_feed_def)

lemma example_wide_ext_simps:
  "example_wide_ext ''create_ddf_score_net.ddf'' st xs = Inr example_wide_zero_ddf"
  "example_wide_ext ''create_ddf_score_net.scores'' st xs = Inr (Tn [Tn [Tn [Sc 1], Tn [Sc 1]]])"
  "example_wide_ext ''OverlapMetrics.averaged_foreground_jaccard'' st xs = Inr (Tn [Sc 0])"
  "example_wide_ext ''CrossEntropy.loss'' st xs = Inr (image_batch [[[0, 1]]])"
  "example_wide_ext ''tf.cond(random_affine_augment)'' st [p, x] = Inr x"
  "example_wide_ext ''utils_2d.get_prob_from_label'' st (x # xs) = Inr x"
  "example_wide_ext ''SpatialTransformer'' st (x # xs) = Inr x"
  by (simp_all add: example_wide_ext_def)

lemma example_wide_session_ext: "ext example_wide_session = example_wide_ext"
  by (simp add: example_wide_session_def)

lemma eval_example_wide_augmented:
  "example_wide_feed k = Some v \<Longrightarrow>
     eval example_wide_session example_wide_feed (augmented_data k) = Inr v"
  by (simp add: augmented_data_def train_phase_def data_def example_wide_feed_values
      example_wide_session_ext example_wide_ext_simps)

lemma eval_example_wide_net_inputs:
  "\<exists>xs. sequence (map (eval example_wide_session example_wide_feed) net_inputs) = Inr xs"
  by (simp add: net_inputs_def eval_example_wide_augmented example_wide_feed_values
      dropout_rate_def train_phase_def)

lemma eval_example_wide_ddf:
  "eval example_wide_session example_wide_feed (ddf example_wide_net) = Inr example_wide_zero_ddf"
proof -
  obtain st where "ddf example_wide_net = Helper ''create_ddf_score_net.ddf'' st net_inputs"
    using score_example_nodes [OF example_wide_net_built] by blast
  moreover obtain xs where
    "sequence (map (eval example_wide_session example_wide_feed) net_inputs) = Inr xs"
    using eval_example_wide_net_inputs by blast
  ultimately show ?thesis
    by (simp add: example_wide_session_ext example_wide_ext_simps)
qed

lemma eval_example_wide_finest:
  "eval example_wide_session example_wide_feed
     (warped_prob_node example_wide_net (augmented_data ''atlases_label'') (ddf example_wide_net)
        ''linear'' 0)
   = Inr (Tn [Tn [Tn [Tn [Tn [Sc 1, Sc 0], Tn [Sc 0, Sc 1]],
                      Tn [Tn [Sc 0, Sc 1], Tn [Sc 1, Sc 0]]]]])"
  by (simp add: warped_prob_node_def score_example_attributes [OF example_wide_net_built] upt_2
      spatial_transform_def get_prob_from_label_def eval_example_wide_augmented
      example_wide_feed_values eval_example_wide_ddf example_wide_zero_ddf_def apply_un_def
      example_wide_session_ext example_wide_ext_simps tf_stack_run_def Let_def eval_nat_numeral)

lemma eval_example_wide_prob:
  "eval example_wide_session example_wide_feed (example_wide_prob 0)
     = Inr (Tn [Tn [Tn [Tn [Sc 1, Sc 0], Tn [Sc 0, Sc 1]]]])"
  "eval example_wide_session example_wide_feed (example_wide_prob 1)
     = Inr (Tn [Tn [Tn [Tn [Sc 0, Sc 1], Tn [Sc 1, Sc 0]]]])"
  "eval example_wide_session example_wide_feed (example_wide_prob (Suc 0))
     = Inr (Tn [Tn [Tn [Tn [Sc 0, Sc 1], Tn [Sc 1, Sc 0]]]])"
  by (simp_all add: example_wide_prob_def eval_example_wide_finest apply_un_def)

lemma eval_example_wide_ce:
  "eval example_wide_session example_wide_feed (example_wide_ce 0) = Inr (image_batch [[[0, 1]]])"
  "eval example_wide_session example_wide_feed (example_wide_ce 1) = Inr (image_batch [[[0, 1]]])"
  by (simp_all add: example_wide_ce_def eval_example_wide_prob eval_example_wide_augmented
      example_wide_feed_values apply_bin_def broadcast_def example_wide_session_ext
      example_wide_ext_simps)

lemma eval_example_wide_ce_term:
  "eval example_wide_session example_wide_feed
     (Unary TfReduceMeanAxes12 (Binary TfPow (example_wide_ce 0) (Constant (Sc (3 / 10)))))
   = Inr (Tn [Sc (1 / 2)])"
  "eval example_wide_session example_wide_feed
     (Unary TfReduceMeanAxes12 (Binary TfPow (example_wide_ce 1) (Constant (Sc (3 / 10)))))
   = Inr (Tn [Sc (1 / 2)])"
  using eval_mean_of_powers [OF eval_example_wide_ce(1)]
    eval_mean_of_powers [OF eval_example_wide_ce(2)]
  by simp_all

lemma power_of_mean_differs: "(1 / 2) powr (3 / 10) \<noteq> (1 / 2 :: real)"
proof -
  have "(1 / 2 :: real) powr 1 < (1 / 2) powr (3 / 10)"
    by (rule powr_less_mono') simp_all
  then show ?thesis by simp
qed

lemma eval_example_wide_claimed:
  "eval example_wide_session example_wide_feed
     (Binary TfPow (Unary TfReduceMeanAxes12 (example_wide_ce 0)) (Constant (Sc (3 / 10))))
   = Inr (Tn [Sc ((1 / 2) powr (3 / 10))])"
  "eval example_wide_session example_wide_feed
     (Binary TfPow (example_wide_ce 0) (Constant (Sc (3 / 10))))
   = Inr (image_batch [[[0, 1]]])"
proof -
  have nn: "\<not> is_nat_exponent (3 / 10)" by (simp add: is_nat_exponent_def)
  have m: "reduce_mean_axes12 (image_batch [[[0, 1]]]) = Inr (Tn [Sc (1 / 2)])"
    using reduce_mean_axes12_image_batch [of "[[[0, 1]]]"] by simp
  show "eval example_wide_session example_wide_feed
     (Binary TfPow (Unary TfReduceMeanAxes12 (example_wide_ce 0)) (Constant (Sc (3 / 10))))
   = Inr (Tn [Sc ((1 / 2) powr (3 / 10))])"
    using nn by (simp add: eval_example_wide_ce apply_un_def m apply_bin_def pow_defined_def
        pow_real_def)
  show "eval example_wide_session example_wide_feed
     (Binary TfPow (example_wide_ce 0) (Constant (Sc (3 / 10))))
   = Inr (image_batch [[[0, 1]]])"
    using nn by (simp add: eval_example_wide_ce apply_bin_def entries_image_batch
        tmap_image_batch pow_defined_def pow_real_def)
qed


lemma eval_stack_pair:
  "eval s fd x = Inr u \<Longrightarrow> eval s fd y = Inr v \<Longrightarrow>
     eval s fd (TfStack axis [x, y]) = tf_stack_run axis [u, v]"
  by simp

lemma eval_binary:
  "eval s fd x = Inr u \<Longrightarrow> eval s fd y = Inr v \<Longrightarrow>
     eval s fd (Binary b x y) = apply_bin b u v"
  by simp

lemma eval_example_wide_scores_gt:
  "scores_gt example_wide_net =
     Binary TfAdd
       (TfStack (- 1)
          [Helper ''OverlapMetrics.averaged_foreground_jaccard'' [SNat 2, SBool False, SBool False]
             [augmented_data ''target_label'', example_wide_prob 0],
           Helper ''OverlapMetrics.averaged_foreground_jaccard'' [SNat 2, SBool False, SBool False]
             [augmented_data ''target_label'', example_wide_prob 1]])
       (TfStack (- 1)
          [Unary TfReduceMeanAxes12 (Binary TfPow (example_wide_ce 0) (Constant (Sc (3 / 10)))),
           Unary TfReduceMeanAxes12 (Binary TfPow (example_wide_ce 1) (Constant (Sc (3 / 10))))])"
  "eval example_wide_session example_wide_feed (scores_gt example_wide_net)
     = Inr (Tn [Tn [Sc (1 / 2), Sc (1 / 2)]])"
proof -
  note I = constructor_inv [OF example_wide_net_built]
  note A = score_example_attributes [OF example_wide_net_built]
  obtain ws where w: "warped_atlases_prob example_wide_net =
      warped_prob_node example_wide_net (augmented_data ''atlases_label'') (ddf example_wide_net)
        ''linear'' 0 # ws"
    using finest_scale_first [OF example_wide_net_built] by blast
  obtain variant base where
    b: "scores_terms example_wide_net variant =
          Inr (base, scores_loss example_wide_net, scores_gt example_wide_net)"
    using get_cost_parts [OF I(11)] by blast
  have gt: "get_scores_gt example_wide_net = Inr (scores_gt example_wide_net)"
    using scores_terms_score [OF A(6) b] by blast
  show n: "scores_gt example_wide_net =
     Binary TfAdd
       (TfStack (- 1)
          [Helper ''OverlapMetrics.averaged_foreground_jaccard'' [SNat 2, SBool False, SBool False]
             [augmented_data ''target_label'', example_wide_prob 0],
           Helper ''OverlapMetrics.averaged_foreground_jaccard'' [SNat 2, SBool False, SBool False]
             [augmented_data ''target_label'', example_wide_prob 1]])
       (TfStack (- 1)
          [Unary TfReduceMeanAxes12 (Binary TfPow (example_wide_ce 0) (Constant (Sc (3 / 10)))),
           Unary TfReduceMeanAxes12 (Binary TfPow (example_wide_ce 1) (Constant (Sc (3 / 10))))])"
    using gt get_scores_gt_eq [OF w]
    by (simp add: A upt_2 atlas_jaccard_def atlas_cross_entropy_def example_wide_ce_def
        example_wide_prob_def)
  have j: "eval example_wide_session example_wide_feed
      (Helper ''OverlapMetrics.averaged_foreground_jaccard'' [SNat 2, SBool False, SBool False]
             [augmented_data ''target_label'', example_wide_prob 0]) = Inr (Tn [Sc 0])"
    "eval example_wide_session example_wide_feed
      (Helper ''OverlapMetrics.averaged_foreground_jaccard'' [SNat 2, SBool False, SBool False]
             [augmented_data ''target_label'', example_wide_prob 1]) = Inr (Tn [Sc 0])"
    by (simp_all add: eval_example_wide_prob eval_example_wide_augmented example_wide_feed_values
        example_wide_session_ext example_wide_ext_simps)
  have sj: "eval example_wide_session example_wide_feed
      (TfStack (- 1)
          [Helper ''OverlapMetrics.averaged_foreground_jaccard'' [SNat 2, SBool False, SBool False]
             [augmented_data ''target_label'', example_wide_prob 0],
           Helper ''OverlapMetrics.averaged_foreground_jaccard'' [SNat 2, SBool False, SBool False]
             [augmented_data ''target_label'', example_wide_prob 1]]) = Inr (Tn [Tn [Sc 0, Sc 0]])"
    by (subst eval_stack_pair [OF j]) (simp_all add: tf_stack_run_def Let_def eval_nat_numeral)
  have sc: "eval example_wide_session example_wide_feed
      (TfStack (- 1)
          [Unary TfReduceMeanAxes12 (Binary TfPow (example_wide_ce 0) (Constant (Sc (3 / 10)))),
           Unary TfReduceMeanAxes12 (Binary TfPow (example_wide_ce 1) (Constant (Sc (3 / 10))))])
      = Inr (Tn [Tn [Sc (1 / 2), Sc (1 / 2)]])"
    by (subst eval_stack_pair [OF eval_example_wide_ce_term])
      (simp_all add: tf_stack_run_def Let_def eval_nat_numeral)
  show "eval example_wide_session example_wide_feed (scores_gt example_wide_net)
     = Inr (Tn [Tn [Sc (1 / 2), Sc (1 / 2)]])"
    unfolding n by (subst eval_binary [OF sj sc]) (simp_all add: apply_bin_def broadcast_def)
qed

subsection \<open>The integration of the displacement field\<close>

lemma tmap_ident: "tmap (\<lambda>u. u) t = t"
  by (induction t) (simp_all add: map_idI)

lemma broadcast_scalar_right: "broadcast f x (Sc c) = Inr (tmap (\<lambda>u. f u c) x)"
  by (cases x) (simp_all add: broadcast_def)

lemma py_pow2_nonzero: "py_pow2 k \<noteq> 0"
  by (simp add: py_pow2_def)

lemma eval_scaled:
  assumes "eval s fd raw = Inr x"
  shows "eval s fd (Binary TfDiv raw (Constant (Sc (py_pow2 k)))) =
           Inr (tmap (\<lambda>u. u / py_pow2 k) x)"
  using assms by (simp add: apply_bin_def broadcast_scalar_right py_pow2_nonzero)

lemma eval_integrate_vec:
  assumes "eval s fd v = Inr y"
  shows "eval s fd (integrate_vec v k) = integrate_loop s (nat k) y"
  using assms by (simp add: integrate_vec_def apply_un_def integrate_vec_run_def)

lemma integrate_loop_funpow:
  "integrate_loop s j d =
     ((\<lambda>m. bind_r m (\<lambda>e. bind_r (ext s ''resample'' [] [e, e])
                              (\<lambda>r. broadcast (\<lambda>u v. u + v) e r))) ^^ j) (Inr d)"
proof (induction j arbitrary: d)
  case 0
  then show ?case by simp
next
  case (Suc j)
  let ?step = "\<lambda>m. bind_r m (\<lambda>e. bind_r (ext s ''resample'' [] [e, e])
                              (\<lambda>r. broadcast (\<lambda>u v. u + v) e r))"
  have fail: "(?step ^^ j) (Inl e) = Inl e" for e
    by (induction j) simp_all
  have first: "(?step ^^ Suc j) (Inr d) =
      (?step ^^ j) (bind_r (ext s ''resample'' [] [d, d]) (\<lambda>r. broadcast (\<lambda>u v. u + v) d r))"
    by (simp only: funpow_Suc_right comp_apply bind_r_Inr)
  show ?case
  proof (cases "bind_r (ext s ''resample'' [] [d, d]) (\<lambda>r. broadcast (\<lambda>u v. u + v) d r)")
    case (Inl e)
    then have "integrate_loop s (Suc j) d = Inl e"
      by (cases "ext s ''resample'' [] [d, d]") (simp_all add: bind_r_def)
    then show ?thesis unfolding first Inl fail .
  next
    case (Inr d')
    then have "integrate_loop s (Suc j) d = integrate_loop s j d'"
      by (cases "ext s ''resample'' [] [d, d]") (simp_all add: bind_r_def)
    then show ?thesis unfolding first Inr using Suc.IH by simp
  qed
qed

lemma integrate_ddf_on:
  assumes "integrate_ddf kw raw = Inr (kw', st, v, d')" and "kw_diffeomorphism kw = Some True"
  shows "configured_steps kw < 1024" and "st = Some (configured_steps kw)"
    and "v = Some (Binary TfDiv raw (Constant (Sc (py_pow2 (configured_steps kw)))))"
    and "d' = integrate_vec (Binary TfDiv raw (Constant (Sc (py_pow2 (configured_steps kw)))))
                (configured_steps kw)"
  using assms
  by (auto simp: integrate_ddf_def configured_steps_def Let_def split: option.splits if_splits)

lemma integrate_ddf_overflow:
  assumes "kw_diffeomorphism kw = Some True" and "1024 \<le> configured_steps kw"
  shows "integrate_ddf kw raw = Inl OverflowError"
  using assms by (simp add: integrate_ddf_def configured_steps_def Let_def)

lemma constructor_overflow:
  assumes "kw_cost_name d = Some c" and "kw_regularizer d = Some (r0 # rs)"
    and "case kw_prior_prob d of None \<Rightarrow> 0 < k | Some p \<Rightarrow> length p = k"
    and "kw_method nk = Some ''ddf_label'' \<or> kw_method nk = Some ''ddf_score''"
    and "kw_diffeomorphism nk = Some True" and "1024 \<le> configured_steps nk"
  shows "UnifiedMultiAtlasSegNet i cs k a ns (Some d) nk = Inl OverflowError"
proof -
  obtain h where h: "init_hparams i cs k a ns (Some d) nk = Inr h"
    using init_hparams_succeeds [OF assms(1,2)] by blast
  have H: "cost_kwargs h = d" "net_kwargs h = nk" "n_class h = k"
    using init_hparams_fields [OF h] by auto
  obtain p where p: "prior_node (kw_prior_prob (cost_kwargs h)) (n_class h) = Inr p"
    using assms(3) H by (auto simp: prior_node_def split: option.splits)
  obtain raw reg sc where c: "create_network h = Inr (raw, reg, sc)"
    using assms(4) H by (auto simp: create_network_def)
  have "integrate_ddf (net_kwargs h) raw = Inl OverflowError"
    using integrate_ddf_overflow [of nk raw] assms(5,6) H by simp
  then have "init_graph h = Inl OverflowError"
    using p c by (simp add: init_graph_def)
  then show ?thesis using h by (simp add: UnifiedMultiAtlasSegNet_def)
qed

lemma example_identity_net_built:
  "UnifiedMultiAtlasSegNet (1, 1) 1 2 2 [2, 1] (Some example_cost_kwargs)
     (example_net_kwargs\<lparr>kw_int_steps := Some 0\<rparr>) = Inr example_identity_net"
proof -
  have "\<exists>n. UnifiedMultiAtlasSegNet (1, 1) 1 2 2 [2, 1] (Some example_cost_kwargs)
          (example_net_kwargs\<lparr>kw_int_steps := Some 0\<rparr>) = Inr n"
    by (rule constructor_succeeds [where c = "''L2_norm''" and b = True])
      (simp_all add: example_cost_kwargs_def example_net_kwargs_def implemented_costs_def
        configured_steps_def)
  then show ?thesis by (auto simp: example_identity_net_def)
qed

lemma example_shift_session_ext: "ext example_shift_session = example_shift_ext"
  by (simp add: example_shift_session_def)

lemma eval_example_shift_net_inputs:
  "sequence (map (eval example_shift_session example_feed) net_inputs) =
     Inr [Tn [Tn [Tn [Tn [Sc 1]]]], Tn [Tn [Tn [Tn [Tn [Sc 1], Tn [Sc 1]]]]], Sc 0, Sc 0]"
  by (simp add: net_inputs_def augmented_data_def data_def example_feed_values dropout_rate_def
      train_phase_def example_shift_session_ext example_shift_ext_def example_ext_simps)

lemma label_net_raw:
  assumes "UnifiedMultiAtlasSegNet i cs k a ns ck nk = Inr n"
    and "kw_method nk = Some ''ddf_label''"
    and "init_hparams i cs k a ns ck nk = Inr h"
    and "create_network h = Inr (raw, reg, sc)"
  shows "\<exists>st. raw = Helper ''create_ddf_label_net.ddf'' st net_inputs"
proof -
  have "net_kwargs h = nk" using init_hparams_fields [OF assms(3)] by auto
  then show ?thesis
    using create_network_raw [OF assms(4)] assms(2) by auto
qed

lemma example_shift_resample:
  "ext example_shift_session ''resample'' [] [e, e] = Inr e"
  by (simp add: example_shift_session_ext example_shift_ext_def example_ext_simps)

lemma example_shift_doubling:
  "((\<lambda>m. bind_r m (\<lambda>e. bind_r (ext example_shift_session ''resample'' [] [e, e])
                           (\<lambda>r. broadcast (\<lambda>u v. u + v) e r))) ^^ 8)
     (Inr (Tn [Tn [Tn [Tn [Tn [Sc 1, Sc 2], Tn [Sc 0, Sc (- 1)]]]]]))
   = Inr example_shift_ddf"
  by (simp add: eval_nat_numeral example_shift_resample broadcast_def example_shift_ddf_def)

subsection \<open>The number of negative Jacobians\<close>

lemma example_wide_regularized_net_built:
  "add_bending_energy example_wide_net 10 1 = Inr example_wide_regularized_net"
  "num_neg_jacob example_wide_regularized_net =
     Some (Unary TfCountNonzero (Binary TfLessEqual
             (Unary TfReduceMean (TfStack 0
                [jacobian_determinant (Unary (GetItem 0) (ddf example_wide_net)),
                 jacobian_determinant (Unary (GetItem 1) (ddf example_wide_net))]))
             (Constant (Sc 0))))"
proof -
  note A = score_example_attributes [OF example_wide_net_built]
  have k: "kw_bending_energy_increment_rate (cost_kwargs example_wide_net) = Some 1"
    using constructor_inv(17) [OF example_wide_net_built]
    by (simp add: example_score_cost_kwargs_def example_cost_kwargs_def)
  have r: "regularizer_type example_wide_net = Some [''l2'', ''bending_energy'']"
    "regularization_coefficient example_wide_net = Some [0, 0]"
    using A(2,3) by (simp_all add: example_score_cost_kwargs_def example_cost_kwargs_def)
  have "\<exists>n'. add_bending_energy example_wide_net 10 1 = Inr n'"
    by (simp add: add_bending_energy_def get_bending_energy_def get_num_neg_jacob_def
        tf_stack_def Let_def A(4) k r)
  then show b: "add_bending_energy example_wide_net 10 1 = Inr example_wide_regularized_net"
    by (auto simp: example_wide_regularized_net_def)
  have s: "subscript (regularizer_type example_wide_net) 1 = Inr ''bending_energy''"
    by (simp add: r)
  have pos: "0 < n_atlas example_wide_net" by (simp add: A)
  show "num_neg_jacob example_wide_regularized_net =
     Some (Unary TfCountNonzero (Binary TfLessEqual
             (Unary TfReduceMean (TfStack 0
                [jacobian_determinant (Unary (GetItem 0) (ddf example_wide_net)),
                 jacobian_determinant (Unary (GetItem 1) (ddf example_wide_net))]))
             (Constant (Sc 0))))"
    using add_bending_energy_on [OF b s pos] by (auto simp: A(4) upt_2)
qed

lemma eval_example_wide_determinant:
  "eval example_wide_session example_wide_feed
     (jacobian_determinant (Unary (GetItem 0) (ddf example_wide_net)))
   = Inr (image_batch [[[- 1, 3]]])"
  "eval example_wide_session example_wide_feed
     (jacobian_determinant (Unary (GetItem 1) (ddf example_wide_net)))
   = Inr (image_batch [[[- 1, 3]]])"
  by (simp_all add: jacobian_determinant_def eval_example_wide_ddf example_wide_zero_ddf_def
      apply_un_def example_wide_session_ext example_wide_ext_def)

lemma eval_example_wide_mean_determinant:
  "eval example_wide_session example_wide_feed
     (Unary TfReduceMean (TfStack 0
        [jacobian_determinant (Unary (GetItem 0) (ddf example_wide_net)),
         jacobian_determinant (Unary (GetItem 1) (ddf example_wide_net))]))
   = Inr (Sc 1)"
proof -
  have "eval example_wide_session example_wide_feed
     (TfStack 0
        [jacobian_determinant (Unary (GetItem 0) (ddf example_wide_net)),
         jacobian_determinant (Unary (GetItem 1) (ddf example_wide_net))])
     = Inr (Tn [image_batch [[[- 1, 3]]], image_batch [[[- 1, 3]]]])"
    by (subst eval_stack_pair [OF eval_example_wide_determinant])
      (simp_all add: tf_stack_run_def Let_def image_batch_def)
  then show ?thesis
    by (simp add: apply_un_def reduce_mean_def entries_image_batch)
qed

lemma count_is_flag:
  "eval s fd (Unary TfCountNonzero (Binary TfLessEqual (Unary TfReduceMean x) (Constant (Sc 0))))
     = Inr v \<Longrightarrow> v = Sc 0 \<or> v = Sc 1"
  by (cases "eval s fd x")
    (auto simp: apply_un_def apply_bin_def broadcast_def reduce_mean_def count_nonzero_def
      split: if_splits)

subsection \<open>Slices and stacks of tensors with a shape\<close>

lemma sequence_all:
  assumes "\<forall>i < length xs. \<exists>y. f (xs ! i) = Inr y \<and> P i y"
  shows "\<exists>ys. sequence (map f xs) = Inr ys \<and> length ys = length xs
              \<and> (\<forall>i < length xs. f (xs ! i) = Inr (ys ! i) \<and> P i (ys ! i))"
  using assms
proof (induction xs arbitrary: P)
  case Nil
  then show ?case by simp
next
  case (Cons x xs)
  obtain y where y: "f x = Inr y" "P 0 y" using Cons.prems by fastforce
  have "\<forall>i < length xs. \<exists>y. f (xs ! i) = Inr y \<and> P (Suc i) y"
    using Cons.prems by fastforce
  then obtain ys where ys: "sequence (map f xs) = Inr ys" "length ys = length xs"
    "\<forall>i < length xs. f (xs ! i) = Inr (ys ! i) \<and> P (Suc i) (ys ! i)"
    using Cons.IH [of "\<lambda>i. P (Suc i)"] by blast
  have "\<forall>i < length (x # xs). f ((x # xs) ! i) = Inr ((y # ys) ! i) \<and> P i ((y # ys) ! i)"
    using y ys(3) by (auto simp: nth_Cons split: nat.splits)
  then show ?case
    using y(1) ys(1,2) by (intro exI [of _ "y # ys"]) simp
qed

lemma has_shape_positive: "has_shape sh t \<Longrightarrow> list_all (\<lambda>k. 0 < k) sh \<Longrightarrow> shape_of t = sh"
proof (induction sh arbitrary: t)
  case Nil
  then show ?case by (auto simp: has_shape_Nil)
next
  case (Cons k sh)
  obtain ts where t: "t = Tn ts" "length ts = k" "list_all (has_shape sh) ts"
    using Cons.prems(1) by (auto simp: has_shape_Cons)
  then obtain u us where ts: "ts = u # us" using Cons.prems(2) by (cases ts) auto
  have "shape_of u = sh" using Cons.IH [of u] t(3) ts Cons.prems(2) by simp
  then show ?case using t ts by simp
qed

lemma not_vector:
  assumes "has_shape (k # m # rest) t" and "0 < k"
  shows "\<not> is_vector t"
proof -
  obtain ts where t: "t = Tn ts" "length ts = k" "list_all (has_shape (m # rest)) ts"
    using assms(1) by (auto simp: has_shape_Cons)
  then obtain u us where ts: "ts = u # us" using assms(2) by (cases ts) auto
  then obtain vs where "u = Tn vs" using t(3) by (auto simp: has_shape_Cons)
  then have "shape_of u \<noteq> []" by (cases vs) simp_all
  then show ?thesis using t ts by simp
qed

lemma vectors: "list_all (has_shape [c]) ts \<Longrightarrow> list_all is_vector ts"
proof -
  have "is_vector t" if h: "has_shape [c] t" for t
  proof -
    obtain us where "t = Tn us" "list_all (has_shape []) us"
      using h by (auto simp: has_shape_Cons)
    then show ?thesis by (auto simp: list_all_iff has_shape_Nil)
  qed
  then show "list_all (has_shape [c]) ts \<Longrightarrow> list_all is_vector ts"
    by (auto simp: list_all_iff)
qed

lemma get_item_shape:
  assumes "has_shape (sh @ [a, c]) t" and "list_all (\<lambda>k. 0 < k) sh" and "n < a"
  shows "\<exists>u. get_item n t = Inr u \<and> has_shape (sh @ [c]) u"
  using assms
proof (induction sh arbitrary: t)
  case Nil
  obtain ts where t: "t = Tn ts" "length ts = a" "list_all (has_shape [c]) ts"
    using Nil.prems(1) by (auto simp: has_shape_Cons)
  have "has_shape [c] (ts ! n)" using t(2,3) Nil.prems(3) by (simp add: list_all_length)
  then show ?case using t vectors [OF t(3)] Nil.prems(3) by simp
next
  case (Cons k sh)
  obtain ts where t: "t = Tn ts" "length ts = k" "list_all (has_shape (sh @ [a, c])) ts"
    using Cons.prems(1) by (auto simp: has_shape_Cons)
  have k: "0 < k" and pos: "list_all (\<lambda>k. 0 < k) sh" using Cons.prems(2) by simp_all
  obtain m rest where mr: "sh @ [a, c] = m # rest" "rest \<noteq> []" "0 < m"
    using pos Cons.prems(3) by (cases sh) auto
  obtain rest1 rest2 where rest: "rest = rest1 # rest2" using mr(2) by (cases rest) auto
  have "ts \<noteq> []" using t(2) k by auto
  then have "has_shape (m # rest1 # rest2) (hd ts)"
    using t(3) mr(1) rest by (cases ts) simp_all
  then have "\<not> is_vector (hd ts)" using not_vector mr(3) by blast
  then have nv: "\<not> list_all is_vector ts" using \<open>ts \<noteq> []\<close> by (cases ts) simp_all
  have "\<forall>i < length ts. \<exists>y. get_item n (ts ! i) = Inr y \<and> has_shape (sh @ [c]) y"
    using Cons.IH [OF _ pos Cons.prems(3)] t(3) by (simp add: list_all_length)
  then obtain ys where ys: "sequence (map (get_item n) ts) = Inr ys" "length ys = length ts"
    "\<forall>i < length ts. get_item n (ts ! i) = Inr (ys ! i) \<and> has_shape (sh @ [c]) (ys ! i)"
    using sequence_all [of ts "get_item n" "\<lambda>i y. has_shape (sh @ [c]) y"] by blast
  have "list_all (has_shape (sh @ [c])) ys" using ys(2,3) by (simp add: list_all_length)
  then show ?case using t nv ys(1,2) by simp
qed


lemma transpose_children:
  assumes "ts \<noteq> []" and "list_all (has_shape (k # sh)) ts"
  shows "transpose (map children ts) =
           map (\<lambda>i. map (\<lambda>j. children (ts ! j) ! i) [0..<length ts]) [0..<k]"
proof -
  have len: "length (children (ts ! j)) = k" if j: "j < length ts" for j
  proof -
    have "has_shape (k # sh) (ts ! j)" using assms(2) j by (simp add: list_all_length)
    then show ?thesis by (auto simp: has_shape_Cons)
  qed
  have "transpose (map children ts) =
      map (\<lambda>i. map (\<lambda>j. map children ts ! j ! i) [0..<length (map children ts)]) [0..<k]"
    by (rule transpose_rectangle) (use assms(1) len in simp_all)
  then show ?thesis by (simp cong: map_cong)
qed

lemma children_shape:
  assumes "has_shape (k # sh) t" and "i < k"
  shows "has_shape sh (children t ! i)" and "t = Tn (children t)" and "length (children t) = k"
  using assms by (auto simp: has_shape_Cons list_all_length)

lemma stack_at_shape:
  assumes "ts \<noteq> []" and "list_all (has_shape sh) ts" and "d \<le> length sh"
    and "list_all (\<lambda>k. 0 < k) (take d sh)"
  shows "has_shape (take d sh @ [length ts] @ drop d sh) (stack_at d ts)"
  using assms
proof (induction d arbitrary: ts sh)
  case 0
  then show ?case by simp
next
  case (Suc d)
  obtain k sh' where sh: "sh = k # sh'" using Suc.prems(3) by (cases sh) auto
  have k: "0 < k" and pos: "list_all (\<lambda>k. 0 < k) (take d sh')" and d: "d \<le> length sh'"
    using Suc.prems(3,4) sh by simp_all
  have all: "list_all (has_shape (k # sh')) ts" using Suc.prems(2) sh by simp
  let ?row = "\<lambda>i. map (\<lambda>j. children (ts ! j) ! i) [0..<length ts]"
  have tr: "transpose (map children ts) = map ?row [0..<k]"
    by (rule transpose_children [OF Suc.prems(1) all])
  have row: "has_shape (take d sh' @ [length ts] @ drop d sh') (stack_at d (?row i))"
    if i: "i < k" for i
  proof -
    have ne: "?row i \<noteq> []" using Suc.prems(1) by simp
    have "list_all (has_shape sh') (?row i)"
      using all i by (auto simp: list_all_length intro: children_shape(1))
    then show ?thesis
      using Suc.IH [OF ne _ d pos] by simp
  qed
  have "has_shape (k # take d sh' @ [length ts] @ drop d sh')
          (Tn (map (\<lambda>i. stack_at d (?row i)) [0..<k]))"
    using row by (simp add: list_all_iff)
  then show ?case unfolding sh by (simp add: tr comp_def)
qed

lemma get_item_stack_at:
  assumes "list_all (has_shape (sh @ [c])) ts" and "list_all (\<lambda>k. 0 < k) sh"
    and "n < length ts"
  shows "get_item n (stack_at (length sh) ts) = Inr (ts ! n)"
  using assms
proof (induction sh arbitrary: ts)
  case Nil
  then show ?case using vectors [of c ts] by simp
next
  case (Cons k sh)
  have k: "0 < k" and pos: "list_all (\<lambda>k. 0 < k) sh" using Cons.prems(2) by simp_all
  have ne: "ts \<noteq> []" using Cons.prems(3) by auto
  have all: "list_all (has_shape (k # (sh @ [c]))) ts" using Cons.prems(1) by simp
  let ?row = "\<lambda>i. map (\<lambda>j. children (ts ! j) ! i) [0..<length ts]"
  have tr: "transpose (map children ts) = map ?row [0..<k]"
    by (rule transpose_children [OF ne all])
  have rows: "list_all (has_shape (sh @ [c])) (?row i)" if i: "i < k" for i
    using all i by (auto simp: list_all_length intro: children_shape(1))
  let ?rs = "map (\<lambda>i. stack_at (length sh) (?row i)) [0..<k]"
  have st: "stack_at (length (k # sh)) ts = Tn ?rs" by (simp add: tr comp_def)
  have shp: "has_shape (sh @ [length ts] @ [c]) (stack_at (length sh) (?row i))"
    if i: "i < k" for i
  proof -
    have "has_shape (take (length sh) (sh @ [c]) @ [length (?row i)] @ drop (length sh) (sh @ [c]))
            (stack_at (length sh) (?row i))"
      by (rule stack_at_shape) (use ne rows [OF i] pos in simp_all)
    then show ?thesis by simp
  qed
  obtain m rest where mr: "sh @ [length ts] @ [c] = m # rest" "rest \<noteq> []" "0 < m"
    using pos Cons.prems(3) by (cases sh) auto
  obtain rest1 rest2 where rest: "rest = rest1 # rest2" using mr(2) by (cases rest) auto
  have "has_shape (m # rest1 # rest2) (stack_at (length sh) (?row 0))"
    using shp [OF k] mr(1) rest by simp
  then have "\<not> is_vector (stack_at (length sh) (?row 0))" using not_vector mr(3) by blast
  moreover have "?rs ! 0 = stack_at (length sh) (?row 0)" using k by simp
  ultimately have nv: "\<not> list_all is_vector ?rs"
    using k by (auto simp: list_all_length)
  have each: "get_item n (stack_at (length sh) (?row i)) = Inr (children (ts ! n) ! i)"
    if i: "i < k" for i
    using Cons.IH [OF rows [OF i] pos] Cons.prems(3) by simp
  have eq: "map (get_item n) ?rs = map (\<lambda>i. Inr (children (ts ! n) ! i)) [0..<k]"
    using each by (simp add: comp_def)
  have sq: "sequence (map (get_item n) ?rs) = Inr (map (\<lambda>i. children (ts ! n) ! i) [0..<k])"
    unfolding eq by (rule sequence_map_Inr)
  have "has_shape (k # (sh @ [c])) (ts ! n)" using all Cons.prems(3) by (simp add: list_all_length)
  then have tn: "ts ! n = Tn (children (ts ! n))" "length (children (ts ! n)) = k"
    by (auto simp: has_shape_Cons)
  have "map (\<lambda>i. children (ts ! n) ! i) [0..<k] = children (ts ! n)"
    using tn(2) by (metis map_nth)
  then show ?case unfolding st using nv sq tn(1) by simp
qed


lemma tf_stack_run_last_but_one:
  assumes "ts \<noteq> []" and "list_all (has_shape (sh @ [c])) ts"
    and "list_all (\<lambda>k. 0 < k) sh" and "0 < c"
  shows "tf_stack_run (- 2) ts = Inr (stack_at (length sh) ts)"
proof -
  obtain t rest where ts: "ts = t # rest" using assms(1) by (cases ts) auto
  have p: "list_all (\<lambda>k. 0 < k) (sh @ [c])" using assms(3,4) by simp
  have sh: "shape_of u = sh @ [c]" if u: "u \<in> set ts" for u
    using has_shape_positive [OF _ p] assms(2) u by (auto simp: list_all_iff)
  have "shape_of t = sh @ [c]" using sh ts by simp
  moreover have "list_all (\<lambda>u. shape_of u = shape_of t) rest"
    using sh ts by (auto simp: list_all_iff)
  ultimately show ?thesis
    unfolding ts by (simp add: tf_stack_run_def Let_def)
qed

lemma eval_warped_stack:
  assumes L: "eval s fd label = Inr L" and D: "eval s fd d = Inr D"
    and SL: "has_shape (sh @ [a, c]) L" and SD: "has_shape (sh @ [a, 2]) D"
    and pos: "list_all (\<lambda>k. 0 < k) sh" and c: "0 < c" and a: "0 < a"
    and H1: "\<forall>st x sh'. has_shape sh' x \<longrightarrow>
               (\<exists>u. ext s ''utils_2d.get_prob_from_label'' st [x] = Inr u \<and> has_shape sh' u)"
    and H2: "\<forall>st x y sh'. has_shape sh' x \<longrightarrow>
               (\<exists>u. ext s ''SpatialTransformer'' st [x, y] = Inr u \<and> has_shape sh' u)"
  shows "\<exists>T. eval s fd
            (TfStack (- 2)
               (map (\<lambda>n. Helper ''SpatialTransformer'' [SStr m]
                            [Helper ''utils_2d.get_prob_from_label'' [SReal sg, SReal ep]
                               [Unary (GetItem n) label],
                             Unary (GetItem n) d])
                  [0..<a])) = Inr T
          \<and> has_shape (sh @ [a, c]) T
          \<and> (\<forall>n < a. \<exists>Ln Dn Pn. get_item n L = Inr Ln \<and> get_item n D = Inr Dn
                \<and> ext s ''utils_2d.get_prob_from_label'' [SReal sg, SReal ep] [Ln] = Inr Pn
                \<and> get_item n T = ext s ''SpatialTransformer'' [SStr m] [Pn, Dn])"
proof -
  let ?node = "\<lambda>n. Helper ''SpatialTransformer'' [SStr m]
                            [Helper ''utils_2d.get_prob_from_label'' [SReal sg, SReal ep]
                               [Unary (GetItem n) label],
                             Unary (GetItem n) d]"
  let ?Q = "\<lambda>n y. has_shape (sh @ [c]) y
              \<and> (\<exists>Ln Dn Pn. get_item n L = Inr Ln \<and> get_item n D = Inr Dn
                \<and> ext s ''utils_2d.get_prob_from_label'' [SReal sg, SReal ep] [Ln] = Inr Pn
                \<and> Inr y = ext s ''SpatialTransformer'' [SStr m] [Pn, Dn])"
  have each: "\<exists>y. eval s fd (?node n) = Inr y \<and> ?Q n y" if n: "n < a" for n
  proof -
    obtain Ln where Ln: "get_item n L = Inr Ln" "has_shape (sh @ [c]) Ln"
      using get_item_shape [OF SL pos n] by blast
    obtain Dn where Dn: "get_item n D = Inr Dn"
      using get_item_shape [OF SD pos n] by blast
    obtain Pn where Pn: "ext s ''utils_2d.get_prob_from_label'' [SReal sg, SReal ep] [Ln] = Inr Pn"
      "has_shape (sh @ [c]) Pn"
      using H1 Ln(2) by blast
    obtain Wn where Wn: "ext s ''SpatialTransformer'' [SStr m] [Pn, Dn] = Inr Wn"
      "has_shape (sh @ [c]) Wn"
      using H2 Pn(2) by blast
    have "eval s fd (?node n) = Inr Wn"
      using L D Ln(1) Dn Pn(1) Wn(1) by (simp add: apply_un_def)
    then show ?thesis using Ln(1) Dn Pn(1) Wn by auto
  qed
  have "\<forall>i < length [0..<a]. \<exists>y. eval s fd (?node ([0..<a] ! i)) = Inr y \<and> ?Q i y"
    using each by simp
  then obtain ys where ys: "sequence (map (\<lambda>n. eval s fd (?node n)) [0..<a]) = Inr ys"
    "length ys = length [0..<a]"
    "\<forall>i < length [0..<a]. eval s fd (?node ([0..<a] ! i)) = Inr (ys ! i) \<and> ?Q i (ys ! i)"
    using sequence_all [of "[0..<a]" "\<lambda>n. eval s fd (?node n)" ?Q] by blast
  have len: "length ys = a" using ys(2) by simp
  have Q: "?Q i (ys ! i)" if "i < a" for i using ys(3) that by simp
  have all: "list_all (has_shape (sh @ [c])) ys"
    using Q len by (simp add: list_all_length)
  have ne: "ys \<noteq> []" using len a by auto
  have run: "tf_stack_run (- 2) ys = Inr (stack_at (length sh) ys)"
    by (rule tf_stack_run_last_but_one [OF ne all pos c])
  have ev: "eval s fd (TfStack (- 2) (map ?node [0..<a])) = Inr (stack_at (length sh) ys)"
    using ys(1) run by (simp add: comp_def)
  have "has_shape (take (length sh) (sh @ [c]) @ [length ys] @ drop (length sh) (sh @ [c]))
          (stack_at (length sh) ys)"
    by (rule stack_at_shape) (use ne all pos in simp_all)
  then have shp: "has_shape (sh @ [a, c]) (stack_at (length sh) ys)"
    using len by simp
  have sl: "\<forall>n < a. \<exists>Ln Dn Pn. get_item n L = Inr Ln \<and> get_item n D = Inr Dn
                \<and> ext s ''utils_2d.get_prob_from_label'' [SReal sg, SReal ep] [Ln] = Inr Pn
                \<and> get_item n (stack_at (length sh) ys)
                    = ext s ''SpatialTransformer'' [SStr m] [Pn, Dn]"
  proof (intro allI impI)
    fix n assume n: "n < a"
    have "get_item n (stack_at (length sh) ys) = Inr (ys ! n)"
      by (rule get_item_stack_at [OF all pos]) (use n len in simp)
    then show "\<exists>Ln Dn Pn. get_item n L = Inr Ln \<and> get_item n D = Inr Dn
                \<and> ext s ''utils_2d.get_prob_from_label'' [SReal sg, SReal ep] [Ln] = Inr Pn
                \<and> get_item n (stack_at (length sh) ys)
                    = ext s ''SpatialTransformer'' [SStr m] [Pn, Dn]"
      using Q [OF n] by auto
  qed
  show ?thesis
    by (intro exI [of _ "stack_at (length sh) ys"] conjI) (rule ev shp sl)+
qed


lemma get_warped_atlases_prob_explicit:
  assumes "0 < n_atlas self"
  shows "get_warped_atlases_prob self label d m ek =
           Inr (map (\<lambda>idx. TfStack (- 2)
                   (map (\<lambda>n. Helper ''SpatialTransformer'' [SStr m]
                                [Helper ''utils_2d.get_prob_from_label''
                                   [SReal (prob_sigma self ! idx),
                                    SReal (case ek of None \<Rightarrow> prob_eps self | Some e \<Rightarrow> e)]
                                   [Unary (GetItem n) label],
                                 Unary (GetItem n) d])
                      [0..<n_atlas self]))
                  [0..<length (prob_sigma self)])"
proof -
  have "[0..<n_atlas self] \<noteq> []" using assms by simp
  then show ?thesis
    by (simp add: get_warped_atlases_prob_def spatial_transform_def get_prob_from_label_def
        tf_stack_nonempty sequence_map_Inr)
qed

section \<open>The claims\<close>

text \<open>
  C10.  When \<^verbatim>\<open>cost_kwargs\<close> gives no \<^verbatim>\<open>cost_name\<close> (the dictionary is \<^verbatim>\<open>None\<close> or has
  no such key), the constructor raises a \<^verbatim>\<open>TypeError\<close> at the membership test of line
  65, whatever the other arguments are: the part of the constructor that precedes the
  graph already fails, so no loss name is validated and no node is built.
\<close>

theorem missing_cost_name_is_type_error:
  assumes "cost_kwargs' = None \<or> (\<exists>d. cost_kwargs' = Some d \<and> kw_cost_name d = None)"
  shows "init_hparams input_size' channels' n_class' n_atlas' n_subtypes' cost_kwargs'
           net_kwargs' = Inl TypeError
       \<and> UnifiedMultiAtlasSegNet input_size' channels' n_class' n_atlas' n_subtypes'
           cost_kwargs' net_kwargs' = Inl TypeError"
proof -
  have "init_hparams input_size' channels' n_class' n_atlas' n_subtypes' cost_kwargs'
          net_kwargs' = Inl TypeError"
    using assms by (auto simp: init_hparams_def empty_cost_dict_def)
  then show ?thesis by (simp add: UnifiedMultiAtlasSegNet_def)
qed

text \<open>
  The witness: no cost name, and arguments that would fail later for other reasons (no
  class, an unknown method, no \<^verbatim>\<open>diffeomorphism\<close> key).
\<close>

theorem missing_cost_name_is_type_error_witness:
  "kw_cost_name (example_cost_kwargs\<lparr>kw_cost_name := None\<rparr>) = None
   \<and> init_hparams (64, 64) 1 0 5 [2, 1] (Some (example_cost_kwargs\<lparr>kw_cost_name := None\<rparr>))
       \<lparr>kw_method = Some ''unknown'', kw_diffeomorphism = None, kw_int_steps = None\<rparr>
       = Inl TypeError
   \<and> UnifiedMultiAtlasSegNet (64, 64) 1 0 5 [2, 1]
       (Some (example_cost_kwargs\<lparr>kw_cost_name := None\<rparr>))
       \<lparr>kw_method = Some ''unknown'', kw_diffeomorphism = None, kw_int_steps = None\<rparr>
       = Inl TypeError"
  using missing_cost_name_is_type_error
    [of "Some (example_cost_kwargs\<lparr>kw_cost_name := None\<rparr>)" "(64, 64)" 1 0 5 "[2, 1]"
      "\<lparr>kw_method = Some ''unknown'', kw_diffeomorphism = None, kw_int_steps = None\<rparr>"]
  by simp

text \<open>
  C4.  A loss name without an implemented branch makes the constructor raise; so does
  a network method other than \<^verbatim>\<open>ddf_label\<close> and \<^verbatim>\<open>ddf_score\<close> (or none); an optimizer
  name without an implemented branch makes \<^verbatim>\<open>_initialize\<close> raise, and \<^verbatim>\<open>train\<close> returns
  that error whatever its session part is, so before any step runs.  In each case the
  result is an error and never a network or an optimizer of some default variant.
\<close>

theorem unknown_names_raise:
  "(kw_cost_name d = Some c \<and> c \<notin> set implemented_costs \<longrightarrow>
      (\<exists>e. UnifiedMultiAtlasSegNet i cs k a ns (Some d) nk = Inl e))
   \<and> (kw_method nk' \<noteq> Some ''ddf_label'' \<and> kw_method nk' \<noteq> Some ''ddf_score'' \<longrightarrow>
      (\<exists>e. UnifiedMultiAtlasSegNet i cs k a ns ck nk' = Inl e))
   \<and> (optimizer_name tr \<notin> set known_optimizers \<longrightarrow>
      (\<exists>e. initialize tr ti si clip pe = Inl e
          \<and> train tr ti si clip pe session_part = Inl e))"
proof (intro conjI impI)
  assume "kw_cost_name d = Some c \<and> c \<notin> set implemented_costs"
  then show "\<exists>e. UnifiedMultiAtlasSegNet i cs k a ns (Some d) nk = Inl e"
    using constructor_unknown_cost by blast
next
  assume "kw_method nk' \<noteq> Some ''ddf_label'' \<and> kw_method nk' \<noteq> Some ''ddf_score''"
  then show "\<exists>e. UnifiedMultiAtlasSegNet i cs k a ns ck nk' = Inl e"
    using constructor_unknown_method by blast
next
  assume "optimizer_name tr \<notin> set known_optimizers"
  then obtain e where "initialize tr ti si clip pe = Inl e"
    using initialize_unknown by blast
  then show "\<exists>e. initialize tr ti si clip pe = Inl e
      \<and> train tr ti si clip pe session_part = Inl e"
    by (simp add: train_def)
qed

theorem unknown_names_raise_witness:
  "kw_cost_name (example_cost_kwargs\<lparr>kw_cost_name := Some ''focal''\<rparr>) = Some ''focal''
   \<and> ''focal'' \<notin> set implemented_costs
   \<and> (\<exists>e. UnifiedMultiAtlasSegNet (1, 1) 1 2 2 [2, 1]
             (Some (example_cost_kwargs\<lparr>kw_cost_name := Some ''focal''\<rparr>)) example_net_kwargs
           = Inl e)
   \<and> kw_method (example_net_kwargs\<lparr>kw_method := Some ''affine''\<rparr>) \<noteq> Some ''ddf_label''
   \<and> kw_method (example_net_kwargs\<lparr>kw_method := Some ''affine''\<rparr>) \<noteq> Some ''ddf_score''
   \<and> (\<exists>e. UnifiedMultiAtlasSegNet (1, 1) 1 2 2 [2, 1] (Some example_cost_kwargs)
             (example_net_kwargs\<lparr>kw_method := Some ''affine''\<rparr>) = Inl e)
   \<and> optimizer_name example_trainer \<notin> set known_optimizers
   \<and> (\<exists>e. initialize example_trainer 10 1 False 5 = Inl e
         \<and> train example_trainer 10 1 False 5 (\<lambda>r. Inr r) = Inl e)"
  using unknown_names_raise
    [of "example_cost_kwargs\<lparr>kw_cost_name := Some ''focal''\<rparr>" "''focal''" "(1, 1)" 1 2 2
      "[2, 1]" example_net_kwargs "example_net_kwargs\<lparr>kw_method := Some ''affine''\<rparr>"
      "Some example_cost_kwargs" example_trainer 10 1 False 5 "\<lambda>r. Inr r"]
  by (simp add: implemented_costs_def known_optimizers_def example_trainer_def)

text \<open>
  C5, as the code has it.  For every network the constructor returns there is the node
  of the selected loss variant, and \<open>base\<close> is the loss that lines 326-342 make of it:
  the variant, with the loss of the score head added in the mode \<^verbatim>\<open>ddf_score\<close>.  When
  the first regularizer is \<^verbatim>\<open>l2\<close> or \<^verbatim>\<open>l1\<close> and the first coefficient \<open>c\<close> is not zero,
  the cost is \<open>base\<close> plus \<open>c\<close> times the regularization loss that the network body
  returns, and it evaluates to \<open>b + r * c\<close> whenever the two evaluate to the scalars
  \<open>b\<close> and \<open>r\<close>.  When the coefficient is zero, or the regularizer is another one, the
  cost is \<open>base\<close> with no term added.  \<^verbatim>\<open>_initialize\<close> then adds the bending energy to
  the cost when the second regularizer is \<^verbatim>\<open>bending_energy\<close>, and leaves the cost as it
  is otherwise.
\<close>

theorem regularization_term_added:
  assumes "UnifiedMultiAtlasSegNet i cs k a ns (Some d) nk = Inr n"
  shows "\<exists>variant base r0 rs h raw.
          loss_variant n = Inr variant \<and> kw_regularizer d = Some (r0 # rs)
        \<and> init_hparams i cs k a ns (Some d) nk = Inr h
        \<and> create_network h = Inr (raw, regularization_loss n, scores n)
        \<and> base = (if kw_method nk = Some ''ddf_score''
                   then Binary TfAdd variant (scores_loss n) else variant)
        \<and> (if r0 = ''l2'' \<or> r0 = ''l1''
           then \<exists>c cs'. kw_regularization_coefficient d = Some (c # cs') \<and>
                 (if c \<noteq> 0
                  then cost n = Binary TfAdd base
                                  (Binary TfMul (regularization_loss n) (Constant (Sc c)))
                     \<and> (\<forall>s fd b r. eval s fd base = Inr (Sc b)
                                  \<and> eval s fd (regularization_loss n) = Inr (Sc r)
                              \<longrightarrow> eval s fd (cost n) = Inr (Sc (b + r * c)))
                  else cost n = base)
           else cost n = base)
        \<and> (\<forall>ti si n'. add_bending_energy n ti si = Inr n' \<longrightarrow>
             (if subscript (kw_regularizer d) 1 = Inr ''bending_energy''
              then \<exists>be. bending_energy n' = Some be \<and> cost n' = Binary TfAdd (cost n) be
              else cost n' = cost n))"
proof -
  note I = constructor_inv [OF assms]
  obtain variant r0 rs where v: "loss_variant n = Inr variant"
    and r: "kw_regularizer d = Some (r0 # rs)"
    and c: "if r0 = ''l2'' \<or> r0 = ''l1''
           then \<exists>c cs'. kw_regularization_coefficient d = Some (c # cs') \<and>
                 (if c \<noteq> 0
                  then cost n = Binary TfAdd (loss_with_scores n variant (scores_loss n))
                                  (Binary TfMul (regularization_loss n) (Constant (Sc c)))
                     \<and> (\<forall>s fd b r. eval s fd (loss_with_scores n variant (scores_loss n)) = Inr (Sc b)
                                  \<and> eval s fd (regularization_loss n) = Inr (Sc r)
                              \<longrightarrow> eval s fd (cost n) = Inr (Sc (b + r * c)))
                  else cost n = loss_with_scores n variant (scores_loss n))
           else cost n = loss_with_scores n variant (scores_loss n)"
    using regularization_cases [OF assms] by blast
  obtain h raw where h: "init_hparams i cs k a ns (Some d) nk = Inr h"
    and cn: "create_network h = Inr (raw, regularization_loss n, scores n)"
    using I(16) by blast
  let ?base = "if kw_method nk = Some ''ddf_score''
               then Binary TfAdd variant (scores_loss n) else variant"
  have b: "loss_with_scores n variant (scores_loss n) = ?base"
    using I(5) by (simp add: loss_with_scores_def)
  have c': "if r0 = ''l2'' \<or> r0 = ''l1''
           then \<exists>c cs'. kw_regularization_coefficient d = Some (c # cs') \<and>
                 (if c \<noteq> 0
                  then cost n = Binary TfAdd ?base
                                  (Binary TfMul (regularization_loss n) (Constant (Sc c)))
                     \<and> (\<forall>s fd b r. eval s fd ?base = Inr (Sc b)
                                  \<and> eval s fd (regularization_loss n) = Inr (Sc r)
                              \<longrightarrow> eval s fd (cost n) = Inr (Sc (b + r * c)))
                  else cost n = ?base)
           else cost n = ?base"
    using c unfolding b .
  have pos: "0 < n_atlas n" using I(2,3) by simp
  have rt: "regularizer_type n = kw_regularizer d" using I(1) by auto
  have e: "\<forall>ti si n'. add_bending_energy n ti si = Inr n' \<longrightarrow>
             (if subscript (kw_regularizer d) 1 = Inr ''bending_energy''
              then \<exists>be. bending_energy n' = Some be \<and> cost n' = Binary TfAdd (cost n) be
              else cost n' = cost n)"
    using add_bending_energy_cost [OF _ pos] unfolding rt by blast
  show ?thesis
    by (intro exI [of _ variant] exI [of _ ?base] exI [of _ r0] exI [of _ rs] exI [of _ h]
        exI [of _ raw] conjI) (rule v r h cn refl c' e)+
qed

text \<open>
  The theorem of C5 at the example with the score head and the coefficient 1/2: the cost
  is the L2 loss plus the loss of the score head plus half the regularization loss.
\<close>

theorem regularization_term_added_witness:
  "UnifiedMultiAtlasSegNet (1, 1) 1 2 2 [2, 1] (Some example_cost_kwargs)
     example_score_net_kwargs = Inr example_coupled_net
   \<and> kw_method example_score_net_kwargs = Some ''ddf_score''
   \<and> kw_regularizer example_cost_kwargs = Some [''l2'', ''bending_energy'']
   \<and> kw_regularization_coefficient example_cost_kwargs = Some [1 / 2, 1 / 10]
   \<and> cost example_coupled_net =
       Binary TfAdd
         (Binary TfAdd (Unary TfReduceMean (Unary TfSquare (ddf example_coupled_net)))
            (scores_loss example_coupled_net))
         (Binary TfMul (regularization_loss example_coupled_net) (Constant (Sc (1 / 2))))"
proof -
  have c: "kw_cost_name example_cost_kwargs = Some ''L2_norm''"
    and r: "kw_regularizer example_cost_kwargs = Some [''l2'', ''bending_energy'']"
    and k: "kw_regularization_coefficient example_cost_kwargs = Some [1 / 2, 1 / 10]"
    by (simp_all add: example_cost_kwargs_def)
  have m: "kw_method example_score_net_kwargs = Some ''ddf_score''"
    by (simp add: example_score_net_kwargs_def)
  have v: "loss_variant example_coupled_net =
      Inr (Unary TfReduceMean (Unary TfSquare (ddf example_coupled_net)))"
    by (rule score_example_loss(1) [OF example_coupled_net_built c])
  obtain variant base r0 rs where "loss_variant example_coupled_net = Inr variant"
    and "kw_regularizer example_cost_kwargs = Some (r0 # rs)"
    and "base = (if kw_method example_score_net_kwargs = Some ''ddf_score''
                   then Binary TfAdd variant (scores_loss example_coupled_net) else variant)"
    and "if r0 = ''l2'' \<or> r0 = ''l1''
           then \<exists>c cs'. kw_regularization_coefficient example_cost_kwargs = Some (c # cs') \<and>
                 (if c \<noteq> 0
                  then cost example_coupled_net = Binary TfAdd base
                         (Binary TfMul (regularization_loss example_coupled_net) (Constant (Sc c)))
                     \<and> (\<forall>s fd b r. eval s fd base = Inr (Sc b)
                                  \<and> eval s fd (regularization_loss example_coupled_net) = Inr (Sc r)
                              \<longrightarrow> eval s fd (cost example_coupled_net) = Inr (Sc (b + r * c)))
                  else cost example_coupled_net = base)
           else cost example_coupled_net = base"
    using regularization_term_added [OF example_coupled_net_built] by blast
  then have "cost example_coupled_net =
       Binary TfAdd
         (Binary TfAdd (Unary TfReduceMean (Unary TfSquare (ddf example_coupled_net)))
            (scores_loss example_coupled_net))
         (Binary TfMul (regularization_loss example_coupled_net) (Constant (Sc (1 / 2))))"
    using v r k m by auto
  then show ?thesis using example_coupled_net_built m r k by blast
qed

text \<open>
  C5 as stated fails for the same example: its cost is not the selected variant plus
  half the regularization loss, since the loss of the score head is part of it; in the
  example session the cost is 1 and the sum the claim states is 0.  It also fails for
  the first example once \<^verbatim>\<open>_initialize\<close> has run, which adds the bending energy to the
  cost that is minimized.
\<close>

theorem regularization_term_is_not_all:
  "UnifiedMultiAtlasSegNet (1, 1) 1 2 2 [2, 1] (Some example_cost_kwargs)
     example_score_net_kwargs = Inr example_coupled_net
   \<and> kw_regularizer example_cost_kwargs = Some [''l2'', ''bending_energy'']
   \<and> kw_regularization_coefficient example_cost_kwargs = Some [1 / 2, 1 / 10]
   \<and> loss_variant example_coupled_net =
       Inr (Unary TfReduceMean (Unary TfSquare (ddf example_coupled_net)))
   \<and> cost example_coupled_net \<noteq>
       Binary TfAdd (Unary TfReduceMean (Unary TfSquare (ddf example_coupled_net)))
         (Binary TfMul (regularization_loss example_coupled_net) (Constant (Sc (1 / 2))))
   \<and> eval example_session example_feed (cost example_coupled_net) = Inr (Sc 1)
   \<and> eval example_session example_feed
       (Binary TfAdd (Unary TfReduceMean (Unary TfSquare (ddf example_coupled_net)))
          (Binary TfMul (regularization_loss example_coupled_net) (Constant (Sc (1 / 2)))))
       = Inr (Sc 0)
   \<and> UnifiedMultiAtlasSegNet (1, 1) 1 2 2 [2, 1] (Some example_cost_kwargs) example_net_kwargs
       = Inr example_net
   \<and> add_bending_energy example_net 10 1 = Inr example_regularized_net
   \<and> cost example_net =
       Binary TfAdd (Unary TfReduceMean (Unary TfSquare (ddf example_net)))
         (Binary TfMul (regularization_loss example_net) (Constant (Sc (1 / 2))))
   \<and> cost example_regularized_net =
       Binary TfAdd (cost example_net)
         (Unary TfReduceMean (TfStack 0
            [displacement_energy (Unary (GetItem 0) (ddf example_net)) example_weight,
             displacement_energy (Unary (GetItem 1) (ddf example_net)) example_weight]))"
proof -
  have c: "kw_cost_name example_cost_kwargs = Some ''L2_norm''"
    and r: "kw_regularizer example_cost_kwargs = Some [''l2'', ''bending_energy'']"
    and k: "kw_regularization_coefficient example_cost_kwargs = Some [1 / 2, 1 / 10]"
    by (simp_all add: example_cost_kwargs_def)
  have v: "loss_variant example_coupled_net =
      Inr (Unary TfReduceMean (Unary TfSquare (ddf example_coupled_net)))"
    by (rule score_example_loss(1) [OF example_coupled_net_built c])
  have ne: "cost example_coupled_net \<noteq>
       Binary TfAdd (Unary TfReduceMean (Unary TfSquare (ddf example_coupled_net)))
         (Binary TfMul (regularization_loss example_coupled_net) (Constant (Sc (1 / 2))))"
    unfolding example_coupled_net_cost(1) by simp
  have pos: "0 < n_atlas example_net" by (simp add: example_net_attributes)
  have s1: "subscript (regularizer_type example_net) 1 = Inr ''bending_energy''"
    by (simp add: example_net_attributes)
  have cr: "cost example_regularized_net =
       Binary TfAdd (cost example_net)
         (Unary TfReduceMean (TfStack 0
            [displacement_energy (Unary (GetItem 0) (ddf example_net)) example_weight,
             displacement_energy (Unary (GetItem 1) (ddf example_net)) example_weight]))"
    using add_bending_energy_on [OF example_regularized_net_built s1 pos]
    by (simp add: example_bending_energy(1))
  have m: "kw_method (net_kwargs example_net) \<noteq> Some ''ddf_score''"
    using constructor_inv(5) [OF example_net_built] by (simp add: example_net_kwargs_def)
  have "cost_name example_net = Some ''L2_norm''" by (simp add: example_net_attributes)
  then have vl: "loss_variant example_net =
      Inr (Unary TfReduceMean (Unary TfSquare (ddf example_net)))"
    by (simp add: loss_variant_def Let_def)
  have cl: "cost example_net =
       Binary TfAdd (Unary TfReduceMean (Unary TfSquare (ddf example_net)))
         (Binary TfMul (regularization_loss example_net) (Constant (Sc (1 / 2))))"
    using regularization_cases [OF example_net_built] m vl
    by (auto simp: example_cost_kwargs_def loss_with_scores_def)
  show ?thesis
    by (intro conjI)
      (rule example_coupled_net_built r k v ne example_coupled_net_cost(2)
        example_coupled_net_cost(3) example_net_built example_regularized_net_built cl cr)+
qed

text \<open>
  C6, as the code has it.  In the mode \<^verbatim>\<open>ddf_score\<close> the ground-truth scores are the sum
  of two stacks over the atlases.  With \<open>w0\<close> the warped probability maps at the first
  (finest) scale and \<^verbatim>\<open>w0[..., j, :]\<close> the map of atlas \<open>j\<close>, the first stack holds the
  Jaccard helper of the target label and that map.  The second holds
  \<^verbatim>\<open>reduce_mean(pow(CE.loss(target_label, 1 - w0[..., j, :]), 0.3), axis=(1, 2))\<close>: the
  cross-entropy helper returns a map, the power is taken entry by entry, and the mean
  over the two spatial axes is taken of the powers; for a map of non-negative entries
  the value is, for each image of the batch, the sum of the powers divided by the number
  of pixels.  The loss of the score head is the mean of the absolute differences between
  the predicted scores and these, and it is added to the selected loss variant before
  the regularization term.  In the other mode the two attributes are the constant zero
  and the loss has no such term.
\<close>

theorem scores_loss_coupling:
  assumes "UnifiedMultiAtlasSegNet i cs k a ns ck nk = Inr n"
  shows "\<exists>variant w0 ws. loss_variant n = Inr variant \<and> warped_atlases_prob n = w0 # ws \<and>
     (if kw_method nk = Some ''ddf_score''
      then (\<exists>predicted. scores n = Some predicted \<and>
              scores_gt n =
                Binary TfAdd
                  (TfStack (- 1)
                     (map (\<lambda>j. Helper ''OverlapMetrics.averaged_foreground_jaccard''
                                  [SNat k, SBool False, SBool False]
                                  [augmented_data ''target_label'', Unary (GetItem j) w0])
                        [0..<a]))
                  (TfStack (- 1)
                     (map (\<lambda>j. Unary TfReduceMeanAxes12
                                  (Binary TfPow
                                     (Helper ''CrossEntropy.loss'' [SReal (1 / 100), SBool False]
                                        [augmented_data ''target_label'',
                                         Binary TfSub (Constant (Sc 1)) (Unary (GetItem j) w0)])
                                     (Constant (Sc (3 / 10)))))
                        [0..<a])) \<and>
              scores_loss n =
                Unary TfReduceMean
                  (Unary TfAbs (Binary TfSub (Unary TfSqueezeLast predicted) (scores_gt n))) \<and>
              add_regularization n (regularizer_type n) (Binary TfAdd variant (scores_loss n))
                = Inr (cost n) \<and>
              (\<forall>s fd v l. eval s fd variant = Inr (Sc v) \<and> eval s fd (scores_loss n) = Inr (Sc l)
                 \<longrightarrow> eval s fd (Binary TfAdd variant (scores_loss n)) = Inr (Sc (v + l))) \<and>
              (\<forall>s fd D. eval s fd (Binary TfSub (Unary TfSqueezeLast predicted) (scores_gt n)) = Inr D
                   \<and> entries D \<noteq> []
                 \<longrightarrow> eval s fd (scores_loss n) =
                       Inr (Sc (sum_list (map abs (entries D)) / real (length (entries D))))) \<and>
              (\<forall>s fd ce ims. eval s fd ce = Inr (image_batch ims) \<and> ims \<noteq> []
                   \<and> (\<forall>im \<in> set ims. im \<noteq> []
                         \<and> (\<forall>row \<in> set im. row \<noteq> [] \<and> (\<forall>x \<in> set row. 0 \<le> x)))
                 \<longrightarrow> eval s fd (Unary TfReduceMeanAxes12
                                   (Binary TfPow ce (Constant (Sc (3 / 10))))) =
                       Inr (Tn (map (\<lambda>im. Sc (sum_list (map (\<lambda>x. x powr (3 / 10)) (concat im))
                                              / real (length (concat im)))) ims))))
      else scores_loss n = Constant (Sc 0) \<and> scores_gt n = Constant (Sc 0) \<and>
           add_regularization n (regularizer_type n) variant = Inr (cost n))"
proof -
  note I = constructor_inv [OF assms]
  obtain variant base where v: "loss_variant n = Inr variant"
    and b: "scores_terms n variant = Inr (base, scores_loss n, scores_gt n)"
    and r: "add_regularization n (regularizer_type n) base = Inr (cost n)"
    using get_cost_parts [OF I(11)] by blast
  obtain s0 ss where "prob_sigma n = s0 # ss" using I(7) by (cases "prob_sigma n") auto
  then have "length (prob_sigma n) = Suc (length ss)" by simp
  then obtain w0 ws where w: "warped_atlases_prob n = w0 # ws"
    using I(8) by (simp add: upt_conv_Cons del: upt_Suc)
  have pos: "0 < n_atlas n" using I(2,3) by simp
  let ?gt = "Binary TfAdd
                  (TfStack (- 1)
                     (map (\<lambda>j. Helper ''OverlapMetrics.averaged_foreground_jaccard''
                                  [SNat k, SBool False, SBool False]
                                  [augmented_data ''target_label'', Unary (GetItem j) w0])
                        [0..<a]))
                  (TfStack (- 1)
                     (map (\<lambda>j. Unary TfReduceMeanAxes12
                                  (Binary TfPow
                                     (Helper ''CrossEntropy.loss'' [SReal (1 / 100), SBool False]
                                        [augmented_data ''target_label'',
                                         Binary TfSub (Constant (Sc 1)) (Unary (GetItem j) w0)])
                                     (Constant (Sc (3 / 10)))))
                        [0..<a]))"
  have tail: "if kw_method nk = Some ''ddf_score''
      then (\<exists>predicted. scores n = Some predicted \<and>
              scores_gt n = ?gt \<and>
              scores_loss n =
                Unary TfReduceMean
                  (Unary TfAbs (Binary TfSub (Unary TfSqueezeLast predicted) (scores_gt n))) \<and>
              add_regularization n (regularizer_type n) (Binary TfAdd variant (scores_loss n))
                = Inr (cost n) \<and>
              (\<forall>s fd v l. eval s fd variant = Inr (Sc v) \<and> eval s fd (scores_loss n) = Inr (Sc l)
                 \<longrightarrow> eval s fd (Binary TfAdd variant (scores_loss n)) = Inr (Sc (v + l))) \<and>
              (\<forall>s fd D. eval s fd (Binary TfSub (Unary TfSqueezeLast predicted) (scores_gt n)) = Inr D
                   \<and> entries D \<noteq> []
                 \<longrightarrow> eval s fd (scores_loss n) =
                       Inr (Sc (sum_list (map abs (entries D)) / real (length (entries D))))) \<and>
              (\<forall>s fd ce ims. eval s fd ce = Inr (image_batch ims) \<and> ims \<noteq> []
                   \<and> (\<forall>im \<in> set ims. im \<noteq> []
                         \<and> (\<forall>row \<in> set im. row \<noteq> [] \<and> (\<forall>x \<in> set row. 0 \<le> x)))
                 \<longrightarrow> eval s fd (Unary TfReduceMeanAxes12
                                   (Binary TfPow ce (Constant (Sc (3 / 10))))) =
                       Inr (Tn (map (\<lambda>im. Sc (sum_list (map (\<lambda>x. x powr (3 / 10)) (concat im))
                                              / real (length (concat im)))) ims))))
      else scores_loss n = Constant (Sc 0) \<and> scores_gt n = Constant (Sc 0) \<and>
           add_regularization n (regularizer_type n) variant = Inr (cost n)"
  proof (cases "kw_method nk = Some ''ddf_score''")
    case True
    then have m: "kw_method (net_kwargs n) = Some ''ddf_score''" using I(5) by simp
    obtain predicted where p: "scores n = Some predicted"
      and gt: "get_scores_gt n = Inr (scores_gt n)"
      and sl: "scores_loss n = get_scores_loss predicted (scores_gt n)"
      and base: "base = Binary TfAdd variant (scores_loss n)"
      using scores_terms_score [OF m b] by blast
    have gt': "scores_gt n = ?gt"
      using gt get_scores_gt_eq [OF w pos] I(2,4)
      by (simp add: atlas_jaccard_def atlas_cross_entropy_def)
    have sl': "scores_loss n =
                Unary TfReduceMean
                  (Unary TfAbs (Binary TfSub (Unary TfSqueezeLast predicted) (scores_gt n)))"
      using sl by (simp add: get_scores_loss_def)
    have e1: "\<forall>s fd v l. eval s fd variant = Inr (Sc v) \<and> eval s fd (scores_loss n) = Inr (Sc l)
                 \<longrightarrow> eval s fd (Binary TfAdd variant (scores_loss n)) = Inr (Sc (v + l))"
      by (simp add: apply_bin_def broadcast_def)
    have e2: "\<forall>s fd D. eval s fd (Binary TfSub (Unary TfSqueezeLast predicted) (scores_gt n)) = Inr D
                   \<and> entries D \<noteq> []
                 \<longrightarrow> eval s fd (scores_loss n) =
                       Inr (Sc (sum_list (map abs (entries D)) / real (length (entries D))))"
      using eval_scores_loss [of _ _ predicted "scores_gt n"] sl by auto
    have e3: "\<forall>s fd ce ims. eval s fd ce = Inr (image_batch ims) \<and> ims \<noteq> []
                   \<and> (\<forall>im \<in> set ims. im \<noteq> []
                         \<and> (\<forall>row \<in> set im. row \<noteq> [] \<and> (\<forall>x \<in> set row. 0 \<le> x)))
                 \<longrightarrow> eval s fd (Unary TfReduceMeanAxes12
                                   (Binary TfPow ce (Constant (Sc (3 / 10))))) =
                       Inr (Tn (map (\<lambda>im. Sc (sum_list (map (\<lambda>x. x powr (3 / 10)) (concat im))
                                              / real (length (concat im)))) ims))"
      using eval_mean_of_powers by blast
    have r': "add_regularization n (regularizer_type n) (Binary TfAdd variant (scores_loss n))
                = Inr (cost n)"
      using r base by simp
    show ?thesis
      unfolding if_P [OF True]
      by (intro exI [of _ predicted] conjI) (rule p gt' sl' r' e1 e2 e3)+
  next
    case False
    then have m: "kw_method (net_kwargs n) \<noteq> Some ''ddf_score''" using I(5) by simp
    have "scores_loss n = Constant (Sc 0) \<and> scores_gt n = Constant (Sc 0) \<and>
           add_regularization n (regularizer_type n) variant = Inr (cost n)"
      using scores_terms_other [OF m b] r by simp
    then show ?thesis unfolding if_not_P [OF False] .
  qed
  show ?thesis
    by (intro exI [of _ variant] exI [of _ w0] exI [of _ ws] conjI) (rule v w tail)+
qed

text \<open>
  The theorem of C6 at the example with an image of two pixels, where the cross-entropy
  map is 0 at the first pixel and 1 at the second: the term of each atlas is 1/2.
\<close>

theorem scores_loss_coupling_witness:
  "UnifiedMultiAtlasSegNet (1, 2) 1 2 2 [2, 1] (Some example_score_cost_kwargs)
     example_score_net_kwargs = Inr example_wide_net
   \<and> kw_method example_score_net_kwargs = Some ''ddf_score''
   \<and> (\<exists>predicted.
         scores example_wide_net = Some predicted \<and>
         scores_gt example_wide_net =
           Binary TfAdd
             (TfStack (- 1)
                [Helper ''OverlapMetrics.averaged_foreground_jaccard''
                   [SNat 2, SBool False, SBool False]
                   [augmented_data ''target_label'', example_wide_prob 0],
                 Helper ''OverlapMetrics.averaged_foreground_jaccard''
                   [SNat 2, SBool False, SBool False]
                   [augmented_data ''target_label'', example_wide_prob 1]])
             (TfStack (- 1)
                [Unary TfReduceMeanAxes12
                   (Binary TfPow (example_wide_ce 0) (Constant (Sc (3 / 10)))),
                 Unary TfReduceMeanAxes12
                   (Binary TfPow (example_wide_ce 1) (Constant (Sc (3 / 10))))]) \<and>
         scores_loss example_wide_net =
           Unary TfReduceMean
             (Unary TfAbs (Binary TfSub (Unary TfSqueezeLast predicted)
                (scores_gt example_wide_net))))
   \<and> eval example_wide_session example_wide_feed
       (Unary TfReduceMeanAxes12 (Binary TfPow (example_wide_ce 0) (Constant (Sc (3 / 10)))))
       = Inr (Tn [Sc (1 / 2)])"
proof -
  have m: "kw_method example_score_net_kwargs = Some ''ddf_score''"
    by (simp add: example_score_net_kwargs_def)
  obtain ws' where w': "warped_atlases_prob example_wide_net =
      warped_prob_node example_wide_net (augmented_data ''atlases_label'') (ddf example_wide_net)
        ''linear'' 0 # ws'"
    using finest_scale_first [OF example_wide_net_built] by blast
  obtain variant w0 ws where w: "warped_atlases_prob example_wide_net = w0 # ws"
    and t: "if kw_method example_score_net_kwargs = Some ''ddf_score''
      then (\<exists>predicted. scores example_wide_net = Some predicted \<and>
              scores_gt example_wide_net =
                Binary TfAdd
                  (TfStack (- 1)
                     (map (\<lambda>j. Helper ''OverlapMetrics.averaged_foreground_jaccard''
                                  [SNat 2, SBool False, SBool False]
                                  [augmented_data ''target_label'', Unary (GetItem j) w0])
                        [0..<2]))
                  (TfStack (- 1)
                     (map (\<lambda>j. Unary TfReduceMeanAxes12
                                  (Binary TfPow
                                     (Helper ''CrossEntropy.loss'' [SReal (1 / 100), SBool False]
                                        [augmented_data ''target_label'',
                                         Binary TfSub (Constant (Sc 1)) (Unary (GetItem j) w0)])
                                     (Constant (Sc (3 / 10)))))
                        [0..<2])) \<and>
              scores_loss example_wide_net =
                Unary TfReduceMean
                  (Unary TfAbs (Binary TfSub (Unary TfSqueezeLast predicted)
                     (scores_gt example_wide_net))) \<and>
              add_regularization example_wide_net (regularizer_type example_wide_net)
                 (Binary TfAdd variant (scores_loss example_wide_net))
                = Inr (cost example_wide_net) \<and>
              (\<forall>s fd v l. eval s fd variant = Inr (Sc v)
                   \<and> eval s fd (scores_loss example_wide_net) = Inr (Sc l)
                 \<longrightarrow> eval s fd (Binary TfAdd variant (scores_loss example_wide_net))
                       = Inr (Sc (v + l))) \<and>
              (\<forall>s fd D. eval s fd (Binary TfSub (Unary TfSqueezeLast predicted)
                                     (scores_gt example_wide_net)) = Inr D
                   \<and> entries D \<noteq> []
                 \<longrightarrow> eval s fd (scores_loss example_wide_net) =
                       Inr (Sc (sum_list (map abs (entries D)) / real (length (entries D))))) \<and>
              (\<forall>s fd ce ims. eval s fd ce = Inr (image_batch ims) \<and> ims \<noteq> []
                   \<and> (\<forall>im \<in> set ims. im \<noteq> []
                         \<and> (\<forall>row \<in> set im. row \<noteq> [] \<and> (\<forall>x \<in> set row. 0 \<le> x)))
                 \<longrightarrow> eval s fd (Unary TfReduceMeanAxes12
                                   (Binary TfPow ce (Constant (Sc (3 / 10))))) =
                       Inr (Tn (map (\<lambda>im. Sc (sum_list (map (\<lambda>x. x powr (3 / 10)) (concat im))
                                              / real (length (concat im)))) ims))))
      else scores_loss example_wide_net = Constant (Sc 0)
         \<and> scores_gt example_wide_net = Constant (Sc 0)
         \<and> add_regularization example_wide_net (regularizer_type example_wide_net) variant
             = Inr (cost example_wide_net)"
    using scores_loss_coupling [OF example_wide_net_built] by blast
  have w0: "w0 = warped_prob_node example_wide_net (augmented_data ''atlases_label'')
                   (ddf example_wide_net) ''linear'' 0"
    using w w' by simp
  obtain predicted where p: "scores example_wide_net = Some predicted"
    and g: "scores_gt example_wide_net =
                Binary TfAdd
                  (TfStack (- 1)
                     (map (\<lambda>j. Helper ''OverlapMetrics.averaged_foreground_jaccard''
                                  [SNat 2, SBool False, SBool False]
                                  [augmented_data ''target_label'', Unary (GetItem j) w0])
                        [0..<2]))
                  (TfStack (- 1)
                     (map (\<lambda>j. Unary TfReduceMeanAxes12
                                  (Binary TfPow
                                     (Helper ''CrossEntropy.loss'' [SReal (1 / 100), SBool False]
                                        [augmented_data ''target_label'',
                                         Binary TfSub (Constant (Sc 1)) (Unary (GetItem j) w0)])
                                     (Constant (Sc (3 / 10)))))
                        [0..<2]))"
    and l: "scores_loss example_wide_net =
                Unary TfReduceMean
                  (Unary TfAbs (Binary TfSub (Unary TfSqueezeLast predicted)
                     (scores_gt example_wide_net)))"
    and e: "\<forall>s fd ce ims. eval s fd ce = Inr (image_batch ims) \<and> ims \<noteq> []
                   \<and> (\<forall>im \<in> set ims. im \<noteq> []
                         \<and> (\<forall>row \<in> set im. row \<noteq> [] \<and> (\<forall>x \<in> set row. 0 \<le> x)))
                 \<longrightarrow> eval s fd (Unary TfReduceMeanAxes12
                                   (Binary TfPow ce (Constant (Sc (3 / 10))))) =
                       Inr (Tn (map (\<lambda>im. Sc (sum_list (map (\<lambda>x. x powr (3 / 10)) (concat im))
                                              / real (length (concat im)))) ims))"
    using t unfolding if_P [OF m] by blast
  have g': "scores_gt example_wide_net =
           Binary TfAdd
             (TfStack (- 1)
                [Helper ''OverlapMetrics.averaged_foreground_jaccard''
                   [SNat 2, SBool False, SBool False]
                   [augmented_data ''target_label'', example_wide_prob 0],
                 Helper ''OverlapMetrics.averaged_foreground_jaccard''
                   [SNat 2, SBool False, SBool False]
                   [augmented_data ''target_label'', example_wide_prob 1]])
             (TfStack (- 1)
                [Unary TfReduceMeanAxes12
                   (Binary TfPow (example_wide_ce 0) (Constant (Sc (3 / 10)))),
                 Unary TfReduceMeanAxes12
                   (Binary TfPow (example_wide_ce 1) (Constant (Sc (3 / 10))))])"
    using g unfolding w0 by (simp add: upt_2 example_wide_ce_def example_wide_prob_def)
  have "eval example_wide_session example_wide_feed (example_wide_ce 0)
          = Inr (image_batch [[[0, 1]]]) \<and> [[[0, 1 :: real]]] \<noteq> []
        \<and> (\<forall>im \<in> set [[[0, 1 :: real]]]. im \<noteq> []
              \<and> (\<forall>row \<in> set im. row \<noteq> [] \<and> (\<forall>x \<in> set row. 0 \<le> x)))"
    using eval_example_wide_ce(1) by simp
  then have v: "eval example_wide_session example_wide_feed
       (Unary TfReduceMeanAxes12 (Binary TfPow (example_wide_ce 0) (Constant (Sc (3 / 10)))))
       = Inr (Tn (map (\<lambda>im. Sc (sum_list (map (\<lambda>x. x powr (3 / 10)) (concat im))
                              / real (length (concat im)))) [[[0, 1]]]))"
    using e by blast
  have v': "eval example_wide_session example_wide_feed
       (Unary TfReduceMeanAxes12 (Binary TfPow (example_wide_ce 0) (Constant (Sc (3 / 10)))))
       = Inr (Tn [Sc (1 / 2)])"
    unfolding v by simp
  have "\<exists>predicted.
         scores example_wide_net = Some predicted \<and>
         scores_gt example_wide_net =
           Binary TfAdd
             (TfStack (- 1)
                [Helper ''OverlapMetrics.averaged_foreground_jaccard''
                   [SNat 2, SBool False, SBool False]
                   [augmented_data ''target_label'', example_wide_prob 0],
                 Helper ''OverlapMetrics.averaged_foreground_jaccard''
                   [SNat 2, SBool False, SBool False]
                   [augmented_data ''target_label'', example_wide_prob 1]])
             (TfStack (- 1)
                [Unary TfReduceMeanAxes12
                   (Binary TfPow (example_wide_ce 0) (Constant (Sc (3 / 10)))),
                 Unary TfReduceMeanAxes12
                   (Binary TfPow (example_wide_ce 1) (Constant (Sc (3 / 10))))]) \<and>
         scores_loss example_wide_net =
           Unary TfReduceMean
             (Unary TfAbs (Binary TfSub (Unary TfSqueezeLast predicted)
                (scores_gt example_wide_net)))"
    by (intro exI [of _ predicted] conjI) (rule p g' l)+
  then show ?thesis
    by (intro conjI) (rule example_wide_net_built m v' | assumption)+
qed

text \<open>
  C6 as stated fails for that example.  The Jaccard helper returns 0, so the claim gives
  the score of an atlas as the power 0.3 of its cross-entropy.  The code gives 1/2, the
  spatial mean of the powers of the map.  That is not the power of the mean
  cross-entropy, which is \<open>(1/2) powr 0.3\<close>, and it is not the power of the map, which
  is a map and no score.
\<close>

theorem scores_gt_takes_mean_of_powers:
  "UnifiedMultiAtlasSegNet (1, 2) 1 2 2 [2, 1] (Some example_score_cost_kwargs)
     example_score_net_kwargs = Inr example_wide_net
   \<and> eval example_wide_session example_wide_feed (example_wide_ce 0)
       = Inr (image_batch [[[0, 1]]])
   \<and> eval example_wide_session example_wide_feed (example_wide_ce 1)
       = Inr (image_batch [[[0, 1]]])
   \<and> scores_gt example_wide_net =
       Binary TfAdd
         (TfStack (- 1)
            [Helper ''OverlapMetrics.averaged_foreground_jaccard''
               [SNat 2, SBool False, SBool False]
               [augmented_data ''target_label'', example_wide_prob 0],
             Helper ''OverlapMetrics.averaged_foreground_jaccard''
               [SNat 2, SBool False, SBool False]
               [augmented_data ''target_label'', example_wide_prob 1]])
         (TfStack (- 1)
            [Unary TfReduceMeanAxes12
               (Binary TfPow (example_wide_ce 0) (Constant (Sc (3 / 10)))),
             Unary TfReduceMeanAxes12
               (Binary TfPow (example_wide_ce 1) (Constant (Sc (3 / 10))))])
   \<and> eval example_wide_session example_wide_feed (scores_gt example_wide_net)
       = Inr (Tn [Tn [Sc (1 / 2), Sc (1 / 2)]])
   \<and> eval example_wide_session example_wide_feed
       (Binary TfPow (Unary TfReduceMeanAxes12 (example_wide_ce 0)) (Constant (Sc (3 / 10))))
       = Inr (Tn [Sc ((1 / 2) powr (3 / 10))])
   \<and> (1 / 2) powr (3 / 10) \<noteq> (1 / 2 :: real)
   \<and> eval example_wide_session example_wide_feed
       (Binary TfPow (example_wide_ce 0) (Constant (Sc (3 / 10))))
       = Inr (image_batch [[[0, 1]]])"
  by (intro conjI)
    (rule example_wide_net_built eval_example_wide_ce eval_example_wide_scores_gt
      eval_example_wide_claimed power_of_mean_differs)+

text \<open>
  C2, as the code has it.  The regularizers read the attribute \<^verbatim>\<open>ddf\<close> of the network.
  That attribute is the displacement field \<open>raw\<close> of the network body when
  \<^verbatim>\<open>diffeomorphism\<close> is off; when it is on, line 138 has reassigned it to the integrated
  field \<^verbatim>\<open>integrate_vec(raw / 2 ** int_steps, int_steps)\<close>.  The pretraining cost and the
  L2 loss average its squares, and the bending energy and the Jacobian determinants of
  \<^verbatim>\<open>_initialize\<close> are computed from its slices.
\<close>

theorem regularizers_read_net_ddf:
  assumes "UnifiedMultiAtlasSegNet i cs k a ns ck nk = Inr n"
  shows "\<exists>h raw. init_hparams i cs k a ns ck nk = Inr h
         \<and> create_network h = Inr (raw, regularization_loss n, scores n)
         \<and> ddf n = (if kw_diffeomorphism nk = Some True
                    then integrate_vec
                           (Binary TfDiv raw (Constant (Sc (py_pow2 (configured_steps nk)))))
                           (configured_steps nk)
                    else raw)
         \<and> pretrain_cost n = Unary TfReduceMean (Binary TfPow (ddf n) (Constant (Sc 2)))
         \<and> (cost_name n = Some ''L2_norm'' \<longrightarrow>
              loss_variant n = Inr (Unary TfReduceMean (Unary TfSquare (ddf n))))
         \<and> (\<forall>ti si n'. add_bending_energy n ti si = Inr n'
                \<and> subscript (regularizer_type n) 1 = Inr ''bending_energy''
              \<longrightarrow> (\<exists>weight.
                     bending_energy n' =
                       Some (Unary TfReduceMean (TfStack 0
                               (map (\<lambda>j. displacement_energy (Unary (GetItem j) (ddf n)) weight)
                                  [0..<a])))
                   \<and> num_neg_jacob n' =
                       Some (Unary TfCountNonzero (Binary TfLessEqual
                               (Unary TfReduceMean (TfStack 0
                                  (map (\<lambda>j. jacobian_determinant (Unary (GetItem j) (ddf n)))
                                     [0..<a])))
                               (Constant (Sc 0))))))"
proof -
  note I = constructor_inv [OF assms]
  obtain h raw where h: "init_hparams i cs k a ns ck nk = Inr h"
    and c: "create_network h = Inr (raw, regularization_loss n, scores n)"
    and d: "integrate_ddf nk raw = Inr (net_kwargs n, int_steps n, vec n, ddf n)"
    using I(16) by blast
  have pos: "0 < n_atlas n" using I(2,3) by simp
  have b: "\<forall>ti si n'. add_bending_energy n ti si = Inr n'
                \<and> subscript (regularizer_type n) 1 = Inr ''bending_energy''
              \<longrightarrow> (\<exists>weight.
                     bending_energy n' =
                       Some (Unary TfReduceMean (TfStack 0
                               (map (\<lambda>j. displacement_energy (Unary (GetItem j) (ddf n)) weight)
                                  [0..<a])))
                   \<and> num_neg_jacob n' =
                       Some (Unary TfCountNonzero (Binary TfLessEqual
                               (Unary TfReduceMean (TfStack 0
                                  (map (\<lambda>j. jacobian_determinant (Unary (GetItem j) (ddf n)))
                                     [0..<a])))
                               (Constant (Sc 0)))))"
    using add_bending_energy_on [OF _ _ pos] I(2) by blast
  show ?thesis
    using h c integrate_ddf_cases [OF d] I(12) b
    by (intro exI [of _ h] exI [of _ raw]) (simp add: get_pretrain_cost_def loss_variant_def Let_def)
qed

theorem regularizers_read_net_ddf_witness:
  "UnifiedMultiAtlasSegNet (1, 1) 1 2 2 [2, 1] (Some example_cost_kwargs) example_net_kwargs
     = Inr example_net
   \<and> add_bending_energy example_net 10 1 = Inr example_regularized_net
   \<and> subscript (regularizer_type example_net) 1 = Inr ''bending_energy''
   \<and> kw_diffeomorphism example_net_kwargs = Some True
   \<and> (\<exists>raw weight.
        ddf example_net = integrate_vec (Binary TfDiv raw (Constant (Sc 256))) 8
      \<and> pretrain_cost example_net =
          Unary TfReduceMean (Binary TfPow (ddf example_net) (Constant (Sc 2)))
      \<and> bending_energy example_regularized_net =
          Some (Unary TfReduceMean (TfStack 0
                  [displacement_energy (Unary (GetItem 0) (ddf example_net)) weight,
                   displacement_energy (Unary (GetItem 1) (ddf example_net)) weight])))"
proof -
  have r: "subscript (regularizer_type example_net) 1 = Inr ''bending_energy''"
    by (simp add: example_net_attributes)
  have d: "kw_diffeomorphism example_net_kwargs = Some True"
    by (simp add: example_net_kwargs_def)
  have p: "py_pow2 (configured_steps example_net_kwargs) = 256"
    "configured_steps example_net_kwargs = 8"
    by (simp_all add: configured_steps_def example_net_kwargs_def py_pow2_def)
  obtain raw where
    "ddf example_net = integrate_vec (Binary TfDiv raw (Constant (Sc 256))) 8"
    and "pretrain_cost example_net =
          Unary TfReduceMean (Binary TfPow (ddf example_net) (Constant (Sc 2)))"
    and "\<forall>ti si n'. add_bending_energy example_net ti si = Inr n'
                \<and> subscript (regularizer_type example_net) 1 = Inr ''bending_energy''
              \<longrightarrow> (\<exists>weight.
                     bending_energy n' =
                       Some (Unary TfReduceMean (TfStack 0
                               (map (\<lambda>j. displacement_energy (Unary (GetItem j) (ddf example_net)) weight)
                                  [0..<2])))
                   \<and> num_neg_jacob n' =
                       Some (Unary TfCountNonzero (Binary TfLessEqual
                               (Unary TfReduceMean (TfStack 0
                                  (map (\<lambda>j. jacobian_determinant (Unary (GetItem j) (ddf example_net)))
                                     [0..<2])))
                               (Constant (Sc 0)))))"
    using regularizers_read_net_ddf [OF example_net_built] d p by auto
  then show ?thesis
    using example_net_built example_regularized_net_built r d by (auto simp: upt_2)
qed

text \<open>
  C2 as stated fails for the example configuration, which integrates with the default
  eight steps: the field whose slices the bending energy reads, and whose squares the
  pretraining cost averages, is the output of \<^verbatim>\<open>integrate_vec\<close>, a node other than the
  displacement field \<open>example_raw_ddf\<close> that the network body returns.
\<close>

theorem regularizers_read_integrated_field:
  "create_network example_hparams =
     Inr (example_raw_ddf, regularization_loss example_net, scores example_net)
   \<and> ddf example_net = integrate_vec (Binary TfDiv example_raw_ddf (Constant (Sc 256))) 8
   \<and> ddf example_net \<noteq> example_raw_ddf
   \<and> bending_energy example_regularized_net =
       Some (Unary TfReduceMean (TfStack 0
               [displacement_energy (Unary (GetItem 0) (ddf example_net)) example_weight,
                displacement_energy (Unary (GetItem 1) (ddf example_net)) example_weight]))
   \<and> bending_energy example_regularized_net \<noteq>
       Some (Unary TfReduceMean (TfStack 0
               [displacement_energy (Unary (GetItem 0) example_raw_ddf) example_weight,
                displacement_energy (Unary (GetItem 1) example_raw_ddf) example_weight]))
   \<and> pretrain_cost example_net =
       Unary TfReduceMean (Binary TfPow (ddf example_net) (Constant (Sc 2)))
   \<and> pretrain_cost example_net \<noteq>
       Unary TfReduceMean (Binary TfPow example_raw_ddf (Constant (Sc 2)))"
proof -
  have ne: "ddf example_net \<noteq> example_raw_ddf"
    by (simp add: example_ddf(2) integrate_vec_def example_raw_ddf_def network_output_def)
  have p: "pretrain_cost example_net =
       Unary TfReduceMean (Binary TfPow (ddf example_net) (Constant (Sc 2)))"
    using constructor_inv(12) [OF example_net_built] by (simp add: get_pretrain_cost_def)
  show ?thesis
    using ne p example_ddf example_bending_energy(1)
    by (simp add: displacement_energy_def)
qed

text \<open>
  C1, as the code has it.  The segmenter is \<^verbatim>\<open>get_segmentation\<close> of \<^verbatim>\<open>get_joint_prob\<close> of the
  product of the warped atlas probabilities at the first (finest) scale and the warped
  atlas weights; the product is entry by entry, and the aggregation of
  \<^verbatim>\<open>get_joint_prob\<close> comes after it.  The weights are a required input and no path
  segments from the unweighted joint probability: \<^verbatim>\<open>store_prediction\<close> returns nothing
  for a sample without \<^verbatim>\<open>atlases_weight\<close>.  Its fetches read the attribute
  \<^verbatim>\<open>bending_energy\<close> before the feed is built, so the error is an \<^verbatim>\<open>AttributeError\<close> for
  the network as constructed and after an \<^verbatim>\<open>_initialize\<close> without the bending energy,
  whatever the sample is; after an \<^verbatim>\<open>_initialize\<close> with the bending energy it is the
  \<^verbatim>\<open>KeyError\<close> of the feed when the other five tensors are present.
\<close>

theorem segmentation_multiplies_weights:
  assumes "UnifiedMultiAtlasSegNet i cs k a ns ck nk = Inr n"
  shows "segmenter n =
           get_segmentation (get_joint_prob (Binary TfMul
             (warped_prob_node n (augmented_data ''atlases_label'') (ddf n) ''linear'' 0)
             (warped_atlases_weight n)))
       \<and> warped_atlases_weight n =
           TfStack (- 2) (map (\<lambda>j. spatial_transform (Some ''linear'')
                                     (Unary (GetItem j) (augmented_data ''atlases_weight''))
                                     (Unary (GetItem j) (ddf n))) [0..<a])
       \<and> (\<forall>s fd p w m sh.
            eval s fd (warped_prob_node n (augmented_data ''atlases_label'') (ddf n) ''linear'' 0)
              = Inr p
            \<and> eval s fd (warped_atlases_weight n) = Inr w
            \<and> has_shape (m # sh) p \<and> has_shape (m # sh) w
          \<longrightarrow> eval s fd (segmenter n) =
                bind_r (ext s ''utils_2d.get_joint_prob'' [] [tzip (\<lambda>u v. u * v) p w])
                  (\<lambda>j. ext s ''utils_2d.get_segmentation'' [] [j])
              \<and> entries (tzip (\<lambda>u v. u * v) p w) =
                  map (\<lambda>(u, v). u * v) (zip (entries p) (entries w)))
       \<and> (\<forall>s sample dropout.
            store_prediction_run s n sample dropout = Inl (AttributeError ''bending_energy''))
       \<and> (\<forall>s ti si n' sample dropout.
            add_bending_energy n ti si = Inr n' \<and> sample ''atlases_weight'' = None
          \<longrightarrow> (\<exists>e. store_prediction_run s n' sample dropout = Inl e)
              \<and> (subscript (regularizer_type n) 1 \<noteq> Inr ''bending_energy''
                 \<longrightarrow> store_prediction_run s n' sample dropout
                      = Inl (AttributeError ''bending_energy''))
              \<and> (subscript (regularizer_type n) 1 = Inr ''bending_energy''
                  \<and> sample ''target_image'' \<noteq> None \<and> sample ''target_label'' \<noteq> None
                  \<and> sample ''target_weight'' \<noteq> None \<and> sample ''atlases_label'' \<noteq> None
                  \<and> sample ''atlases_image'' \<noteq> None
                 \<longrightarrow> store_prediction_run s n' sample dropout
                      = Inl (KeyError ''atlases_weight'')))"
proof (intro conjI allI impI)
  note I = constructor_inv [OF assms]
  show seg: "segmenter n =
           get_segmentation (get_joint_prob (Binary TfMul
             (warped_prob_node n (augmented_data ''atlases_label'') (ddf n) ''linear'' 0)
             (warped_atlases_weight n)))"
    by (rule segmenter_node [OF assms])
  show "warped_atlases_weight n =
           TfStack (- 2) (map (\<lambda>j. spatial_transform (Some ''linear'')
                                     (Unary (GetItem j) (augmented_data ''atlases_weight''))
                                     (Unary (GetItem j) (ddf n))) [0..<a])"
    using I(9) I(2) by simp
  {
    fix s fd p w m sh
    assume h: "eval s fd (warped_prob_node n (augmented_data ''atlases_label'') (ddf n) ''linear'' 0)
              = Inr p
            \<and> eval s fd (warped_atlases_weight n) = Inr w
            \<and> has_shape (m # sh) p \<and> has_shape (m # sh) w"
    then have "eval s fd (Binary TfMul
             (warped_prob_node n (augmented_data ''atlases_label'') (ddf n) ''linear'' 0)
             (warped_atlases_weight n)) = Inr (tzip (\<lambda>u v. u * v) p w)"
      using eval_weighted_product by blast
    then show "eval s fd (segmenter n) =
                bind_r (ext s ''utils_2d.get_joint_prob'' [] [tzip (\<lambda>u v. u * v) p w])
                  (\<lambda>j. ext s ''utils_2d.get_segmentation'' [] [j])"
      unfolding seg by (rule eval_segmentation)
    show "entries (tzip (\<lambda>u v. u * v) p w) =
                  map (\<lambda>(u, v). u * v) (zip (entries p) (entries w))"
      using h entries_tzip by blast
  }
  have none: "bending_energy n = None" using I(14) .
  {
    fix s :: session and sample :: "string \<rightharpoonup> tensor" and dropout :: tensor
    show "store_prediction_run s n sample dropout = Inl (AttributeError ''bending_energy'')"
      by (rule store_prediction_run_no_attribute [OF none])
  }
  {
    fix s :: session and ti si and n' :: seg_net and sample :: "string \<rightharpoonup> tensor"
      and dropout :: tensor
    assume h: "add_bending_energy n ti si = Inr n' \<and> sample ''atlases_weight'' = None"
    show "\<exists>e. store_prediction_run s n' sample dropout = Inl e"
      using h store_prediction_run_fails [of sample s n' dropout] by simp
    {
      assume "subscript (regularizer_type n) 1 \<noteq> Inr ''bending_energy''"
      then have "n' = n" using h by (auto simp: add_bending_energy_def bind_r_eq_Inr)
      then show "store_prediction_run s n' sample dropout = Inl (AttributeError ''bending_energy'')"
        using store_prediction_run_no_attribute [OF none] by simp
    }
    {
      assume g: "subscript (regularizer_type n) 1 = Inr ''bending_energy''
                  \<and> sample ''target_image'' \<noteq> None \<and> sample ''target_label'' \<noteq> None
                  \<and> sample ''target_weight'' \<noteq> None \<and> sample ''atlases_label'' \<noteq> None
                  \<and> sample ''atlases_image'' \<noteq> None"
      have pos: "0 < n_atlas n" using I(2,3) by simp
      have "bending_energy n' \<noteq> None" "num_neg_jacob n' \<noteq> None"
        using add_bending_energy_on [OF _ _ pos, of ti si n'] h g by auto
      then show "store_prediction_run s n' sample dropout = Inl (KeyError ''atlases_weight'')"
        using h g by (intro store_prediction_run_missing_weight) simp_all
    }
  }
qed

theorem segmentation_multiplies_weights_witness:
  "UnifiedMultiAtlasSegNet (1, 1) 1 2 2 [2, 1] (Some example_cost_kwargs) example_net_kwargs
     = Inr example_net
   \<and> add_bending_energy example_net 10 1 = Inr example_regularized_net
   \<and> subscript (regularizer_type example_net) 1 = Inr ''bending_energy''
   \<and> example_sample_no_weight ''atlases_weight'' = None
   \<and> segmenter example_net =
       get_segmentation (get_joint_prob (Binary TfMul
         (warped_prob_node example_net (augmented_data ''atlases_label'') (ddf example_net)
            ''linear'' 0)
         (warped_atlases_weight example_net)))
   \<and> store_prediction_run example_session example_net example_sample_no_weight (Sc 0)
       = Inl (AttributeError ''bending_energy'')
   \<and> store_prediction_run example_session example_regularized_net example_sample_no_weight (Sc 0)
       = Inl (KeyError ''atlases_weight'')"
proof -
  have r: "subscript (regularizer_type example_net) 1 = Inr ''bending_energy''"
    by (simp add: example_net_attributes)
  have "example_sample_no_weight ''target_image'' \<noteq> None"
    "example_sample_no_weight ''target_label'' \<noteq> None"
    "example_sample_no_weight ''target_weight'' \<noteq> None"
    "example_sample_no_weight ''atlases_label'' \<noteq> None"
    "example_sample_no_weight ''atlases_image'' \<noteq> None"
    "example_sample_no_weight ''atlases_weight'' = None"
    by (simp_all add: example_sample_no_weight_def)
  then show ?thesis
    using segmentation_multiplies_weights [OF example_net_built] example_net_built
      example_regularized_net_built r
    by blast
qed

text \<open>
  C1 as stated fails where the weights are absent: for the example sample without
  \<^verbatim>\<open>atlases_weight\<close> the prediction run raises a \<^verbatim>\<open>KeyError\<close> and yields no segmentation;
  and the segmenter is not the segmentation of the unweighted joint probability
  \<^verbatim>\<open>atlases_joint_prob[0]\<close>.
\<close>

theorem segmentation_without_weights_fails:
  "example_sample_no_weight ''atlases_weight'' = None
   \<and> store_prediction_run example_session example_regularized_net example_sample_no_weight (Sc 0)
       = Inl (KeyError ''atlases_weight'')
   \<and> joint_prob0 example_regularized_net =
       Inr (get_joint_prob
              (warped_prob_node example_net (augmented_data ''atlases_label'') (ddf example_net)
                 ''linear'' 0))
   \<and> segmenter example_regularized_net \<noteq>
       get_segmentation (get_joint_prob
         (warped_prob_node example_net (augmented_data ''atlases_label'') (ddf example_net)
            ''linear'' 0))"
proof -
  obtain ws where w: "warped_atlases_prob example_net =
      warped_prob_node example_net (augmented_data ''atlases_label'') (ddf example_net) ''linear'' 0 # ws"
    using finest_scale_first [OF example_net_built] by blast
  have j: "joint_prob0 example_regularized_net =
       Inr (get_joint_prob
              (warped_prob_node example_net (augmented_data ''atlases_label'') (ddf example_net)
                 ''linear'' 0))"
    using constructor_inv(10) [OF example_net_built] w
    by (simp add: joint_prob0_def example_regularized_net_fields)
  have s: "segmenter example_regularized_net \<noteq>
       get_segmentation (get_joint_prob
         (warped_prob_node example_net (augmented_data ''atlases_label'') (ddf example_net)
            ''linear'' 0))"
    by (simp add: example_regularized_net_fields segmenter_node [OF example_net_built]
        get_segmentation_def get_joint_prob_def warped_prob_node_def)
  have r: "store_prediction_run example_session example_regularized_net example_sample_no_weight (Sc 0)
       = Inl (KeyError ''atlases_weight'')"
    by (rule store_prediction_run_missing_weight)
      (simp_all add: example_bending_energy example_sample_no_weight_def)
  show ?thesis using j s r by (simp add: example_sample_no_weight_def)
qed


text \<open>
  Claim C8, as amended.  For every network the constructor returns, the pretraining loss
  is the node \<^verbatim>\<open>reduce_mean(ddf ** 2)\<close>; it is the same node for every other loss name
  with which the constructor returns a network as well; where the displacement field
  evaluates to a tensor with entries, the pretraining loss evaluates to the mean of the
  squared entries; and where all entries are zero it is 0, and so is the loss
  \<^verbatim>\<open>L2_norm\<close> in the mode \<^verbatim>\<open>ddf_label\<close> when the regularization term is absent or has the
  coefficient zero.
\<close>

theorem pretrain_cost_is_mean_square:
  assumes "UnifiedMultiAtlasSegNet i cs k a ns (Some d) nk = Inr n"
  shows "pretrain_cost n = Unary TfReduceMean (Binary TfPow (ddf n) (Constant (Sc 2)))
     \<and> (\<forall>c' n'. UnifiedMultiAtlasSegNet i cs k a ns (Some (d\<lparr>kw_cost_name := Some c'\<rparr>)) nk = Inr n'
           \<longrightarrow> pretrain_cost n' = pretrain_cost n)
     \<and> (\<forall>s fd z. eval s fd (ddf n) = Inr z \<and> entries z \<noteq> [] \<longrightarrow>
          eval s fd (pretrain_cost n) =
            Inr (Sc (sum_list (map (\<lambda>x. x ^ 2) (entries z)) / real (length (entries z))))
          \<and> (list_all (\<lambda>x. x = 0) (entries z) \<longrightarrow>
               eval s fd (pretrain_cost n) = Inr (Sc 0)
               \<and> (kw_cost_name d = Some ''L2_norm'' \<and> kw_method nk = Some ''ddf_label''
                    \<and> (\<exists>r0 rs. kw_regularizer d = Some (r0 # rs)
                          \<and> (r0 = ''l2'' \<or> r0 = ''l1'' \<longrightarrow>
                               (\<exists>cs'. kw_regularization_coefficient d = Some (0 # cs'))))
                  \<longrightarrow> eval s fd (cost n) = Inr (Sc 0))))"
proof -
  have p: "pretrain_cost n = Unary TfReduceMean (Binary TfPow (ddf n) (Constant (Sc 2)))"
    using constructor_inv(12) [OF assms] by (simp add: get_pretrain_cost_def)
  have indep: "\<forall>c' n'. UnifiedMultiAtlasSegNet i cs k a ns (Some (d\<lparr>kw_cost_name := Some c'\<rparr>)) nk = Inr n'
           \<longrightarrow> pretrain_cost n' = pretrain_cost n"
  proof (intro allI impI)
    fix c' n'
    assume n': "UnifiedMultiAtlasSegNet i cs k a ns (Some (d\<lparr>kw_cost_name := Some c'\<rparr>)) nk = Inr n'"
    have "ddf n' = ddf n" by (rule ddf_determined [OF assms n']) simp
    moreover have "pretrain_cost n' = Unary TfReduceMean (Binary TfPow (ddf n') (Constant (Sc 2)))"
      using constructor_inv(12) [OF n'] by (simp add: get_pretrain_cost_def)
    ultimately show "pretrain_cost n' = pretrain_cost n" using p by simp
  qed
  have val: "\<forall>s fd z. eval s fd (ddf n) = Inr z \<and> entries z \<noteq> [] \<longrightarrow>
          eval s fd (pretrain_cost n) =
            Inr (Sc (sum_list (map (\<lambda>x. x ^ 2) (entries z)) / real (length (entries z))))
          \<and> (list_all (\<lambda>x. x = 0) (entries z) \<longrightarrow>
               eval s fd (pretrain_cost n) = Inr (Sc 0)
               \<and> (kw_cost_name d = Some ''L2_norm'' \<and> kw_method nk = Some ''ddf_label''
                    \<and> (\<exists>r0 rs. kw_regularizer d = Some (r0 # rs)
                          \<and> (r0 = ''l2'' \<or> r0 = ''l1'' \<longrightarrow>
                               (\<exists>cs'. kw_regularization_coefficient d = Some (0 # cs'))))
                  \<longrightarrow> eval s fd (cost n) = Inr (Sc 0)))"
  proof (intro allI impI conjI)
    fix s fd z
    assume h: "eval s fd (ddf n) = Inr z \<and> entries z \<noteq> []"
    show m: "eval s fd (pretrain_cost n) =
            Inr (Sc (sum_list (map (\<lambda>x. x ^ 2) (entries z)) / real (length (entries z))))"
      unfolding p using h by (intro eval_mean_of_squares(1)) simp_all
    assume z: "list_all (\<lambda>x. x = 0) (entries z)"
    show "eval s fd (pretrain_cost n) = Inr (Sc 0)"
      using m sum_of_zero_squares [OF z] by simp
    assume l: "kw_cost_name d = Some ''L2_norm'' \<and> kw_method nk = Some ''ddf_label''
                    \<and> (\<exists>r0 rs. kw_regularizer d = Some (r0 # rs)
                          \<and> (r0 = ''l2'' \<or> r0 = ''l1'' \<longrightarrow>
                               (\<exists>cs'. kw_regularization_coefficient d = Some (0 # cs'))))"
    then obtain r0 rs where r: "kw_regularizer d = Some (r0 # rs)"
      and c: "r0 = ''l2'' \<or> r0 = ''l1'' \<longrightarrow>
                (\<exists>cs'. kw_regularization_coefficient d = Some (0 # cs'))"
      by blast
    have "cost n = Unary TfReduceMean (Unary TfSquare (ddf n))"
      using l2_cost_without_terms [OF assms _ _ r c] l by blast
    moreover have "eval s fd (Unary TfReduceMean (Unary TfSquare (ddf n))) =
           Inr (Sc (sum_list (map (\<lambda>u. u * u) (entries z)) / real (length (entries z))))"
      using h by (intro eval_mean_of_squares(2)) simp_all
    ultimately show "eval s fd (cost n) = Inr (Sc 0)"
      using sum_of_zero_squares [OF z] by simp
  qed
  show ?thesis by (intro conjI) (rule p indep val)+
qed

text \<open>
  The theorem of claim C8 at the example without integration: the displacement field is
  zero, the pretraining loss and the loss \<^verbatim>\<open>L2_norm\<close> are both 0.
\<close>

theorem pretrain_cost_is_mean_square_witness:
  "UnifiedMultiAtlasSegNet (1, 1) 1 2 2 [2, 1] (Some example_score_cost_kwargs)
     example_plain_net_kwargs = Inr example_plain_net
   \<and> kw_cost_name example_score_cost_kwargs = Some ''L2_norm''
   \<and> kw_regularization_coefficient example_score_cost_kwargs = Some [0, 0]
   \<and> eval example_session example_feed (ddf example_plain_net) = Inr example_zero_ddf
   \<and> pretrain_cost example_plain_net =
       Unary TfReduceMean (Binary TfPow (ddf example_plain_net) (Constant (Sc 2)))
   \<and> eval example_session example_feed (pretrain_cost example_plain_net) = Inr (Sc 0)
   \<and> eval example_session example_feed (cost example_plain_net) = Inr (Sc 0)"
proof -
  have e: "entries example_zero_ddf = [0, 0, 0, 0]"
    by (simp add: example_zero_ddf_def)
  have c: "kw_cost_name example_score_cost_kwargs = Some ''L2_norm''"
    and r: "kw_regularizer example_score_cost_kwargs = Some [''l2'', ''bending_energy'']"
    and k: "kw_regularization_coefficient example_score_cost_kwargs = Some [0, 0]"
    by (simp_all add: example_score_cost_kwargs_def example_cost_kwargs_def)
  have m: "kw_method example_plain_net_kwargs = Some ''ddf_label''"
    by (simp add: example_plain_net_kwargs_def)
  note T = pretrain_cost_is_mean_square [OF example_plain_net_built]
  note q = conjunct1 [OF T]
  note v = conjunct2 [OF conjunct2 [OF T]]
  have z: "eval example_session example_feed (ddf example_plain_net) = Inr example_zero_ddf
      \<and> entries example_zero_ddf \<noteq> []"
    using example_plain_net_ddf e by simp
  have za: "list_all (\<lambda>x. x = 0) (entries example_zero_ddf)" using e by simp
  have l: "kw_cost_name example_score_cost_kwargs = Some ''L2_norm''
      \<and> kw_method example_plain_net_kwargs = Some ''ddf_label''
      \<and> (\<exists>r0 rs. kw_regularizer example_score_cost_kwargs = Some (r0 # rs)
            \<and> (r0 = ''l2'' \<or> r0 = ''l1'' \<longrightarrow>
                 (\<exists>cs'. kw_regularization_coefficient example_score_cost_kwargs = Some (0 # cs'))))"
    using c m r k by simp
  note v1 = spec [OF spec [OF spec [OF v, of example_session], of example_feed],
      of example_zero_ddf]
  note v2 = mp [OF v1 z]
  note v3 = mp [OF conjunct2 [OF v2] za]
  note v4 = mp [OF conjunct2 [OF v3] l]
  show ?thesis
    by (intro conjI)
      (rule example_plain_net_built c k example_plain_net_ddf q conjunct1 [OF v3] v4)+
qed

text \<open>
  Claim C8 as stated fails in two ways.  The pretraining loss is built at line 160, after
  the loss at line 159: with the loss name \<^verbatim>\<open>mvmm\<close>, which \<^verbatim>\<open>_get_cost\<close> accepts only to
  raise \<^verbatim>\<open>NotImplementedError\<close>, the constructor fails and no pretraining loss exists.
  And in the mode \<^verbatim>\<open>ddf_score\<close> the loss \<^verbatim>\<open>L2_norm\<close> includes the loss of the scores:
  with a zero displacement field and zero regularization coefficients the pretraining loss
  is 0 and the loss is 1.
\<close>

theorem pretrain_cost_needs_a_buildable_loss:
  "UnifiedMultiAtlasSegNet (1, 1) 1 2 2 [2, 1]
     (Some (example_cost_kwargs\<lparr>kw_cost_name := Some ''mvmm''\<rparr>)) example_net_kwargs
     = Inl NotImplementedError
   \<and> UnifiedMultiAtlasSegNet (1, 1) 1 2 2 [2, 1] (Some example_score_cost_kwargs)
       example_score_net_kwargs = Inr example_score_net
   \<and> kw_cost_name example_score_cost_kwargs = Some ''L2_norm''
   \<and> kw_regularization_coefficient example_score_cost_kwargs = Some [0, 0]
   \<and> eval example_session example_feed (ddf example_score_net) = Inr example_zero_ddf
   \<and> eval example_session example_feed (pretrain_cost example_score_net) = Inr (Sc 0)
   \<and> eval example_session example_feed (cost example_score_net) = Inr (Sc 1)"
proof -
  have "UnifiedMultiAtlasSegNet (1, 1) 1 2 2 [2, 1]
     (Some (example_cost_kwargs\<lparr>kw_cost_name := Some ''mvmm''\<rparr>)) example_net_kwargs
     = Inl NotImplementedError"
    by (rule constructor_not_implemented [where c = "''mvmm''" and b = True])
      (simp_all add: example_cost_kwargs_def example_net_kwargs_def implemented_costs_def
        configured_steps_def)
  then show ?thesis
    using example_score_net_built eval_example_score_cost example_score_net_ddf
    by (simp add: example_score_cost_kwargs_def example_cost_kwargs_def)
qed




text \<open>
  C3 at the wide example.  Lines 651-655 take \<^verbatim>\<open>tf.reduce_mean\<close>, with no axis, of the list
  of the determinant maps of the atlases, which is one scalar, and count the nonzero
  entries of its comparison with 0.  In the example each atlas has the determinant -1 at
  the first pixel and 3 at the second: one location of each map is not positive, the mean
  of all determinants is 1, and the number reported is 0.
\<close>

theorem negative_jacobians_flags_the_mean:
  "add_bending_energy example_wide_net 10 1 = Inr example_wide_regularized_net
   \<and> num_neg_jacob example_wide_regularized_net =
       Some (Unary TfCountNonzero (Binary TfLessEqual
               (Unary TfReduceMean (TfStack 0
                  [jacobian_determinant (Unary (GetItem 0) (ddf example_wide_net)),
                   jacobian_determinant (Unary (GetItem 1) (ddf example_wide_net))]))
               (Constant (Sc 0))))
   \<and> eval example_wide_session example_wide_feed
       (jacobian_determinant (Unary (GetItem 0) (ddf example_wide_net)))
       = Inr (image_batch [[[- 1, 3]]])
   \<and> eval example_wide_session example_wide_feed
       (jacobian_determinant (Unary (GetItem 1) (ddf example_wide_net)))
       = Inr (image_batch [[[- 1, 3]]])
   \<and> length (filter (\<lambda>x. x \<le> 0) (entries (image_batch [[[- 1, 3]]]))) = 1
   \<and> eval example_wide_session example_wide_feed
       (Unary TfReduceMean (TfStack 0
          [jacobian_determinant (Unary (GetItem 0) (ddf example_wide_net)),
           jacobian_determinant (Unary (GetItem 1) (ddf example_wide_net))]))
       = Inr (Sc 1)
   \<and> eval example_wide_session example_wide_feed
       (Unary TfCountNonzero (Binary TfLessEqual
          (Unary TfReduceMean (TfStack 0
             [jacobian_determinant (Unary (GetItem 0) (ddf example_wide_net)),
              jacobian_determinant (Unary (GetItem 1) (ddf example_wide_net))]))
          (Constant (Sc 0))))
       = Inr (Sc 0)"
proof -
  have f: "length (filter (\<lambda>x. x \<le> 0) (entries (image_batch [[[- 1, 3 :: real]]]))) = 1"
    by (simp add: entries_image_batch)
  have c: "eval example_wide_session example_wide_feed
       (Unary TfCountNonzero (Binary TfLessEqual
          (Unary TfReduceMean (TfStack 0
             [jacobian_determinant (Unary (GetItem 0) (ddf example_wide_net)),
              jacobian_determinant (Unary (GetItem 1) (ddf example_wide_net))]))
          (Constant (Sc 0))))
       = Inr (Sc 0)"
    using eval_binary [OF eval_example_wide_mean_determinant, of "Constant (Sc 0)" "Sc 0"
        TfLessEqual]
    by (simp add: apply_un_def apply_bin_def broadcast_def count_nonzero_def)
  show ?thesis
    by (intro conjI)
      (rule example_wide_regularized_net_built eval_example_wide_determinant f
        eval_example_wide_mean_determinant c)+
qed

text \<open>
  C9.  \<^verbatim>\<open>_get_warped_atlases_prob\<close> returns a list when there is an atlas, and a list it
  returns has one entry for each scale of \<^verbatim>\<open>prob_sigma\<close>, in the order of the scales.
  Entry \<open>idx\<close> is the stack, along the axis before the last one, over the atlases
  \<open>n\<close> from 0 to \<^verbatim>\<open>n_atlas\<close> - 1, of the spatial transform, with the interpolation
  method asked for, of the probability map of \<^verbatim>\<open>atlases_label[..., n, :]\<close> at the scale
  \<open>idx\<close> and with the floor \<open>eps\<close>, by \<^verbatim>\<open>ddf[..., n, :]\<close>.  In a session whose
  probability helper and spatial transformer return a tensor of the shape of their first
  argument, for labels of shape \<open>sh @ [n_atlas, c]\<close> and a displacement field of shape
  \<open>sh @ [n_atlas, 2]\<close> with positive dimensions, the entry evaluates to a tensor of
  shape \<open>sh @ [n_atlas, c]\<close> whose slice \<open>n\<close> along the atlas axis is the transform
  of the probability map of the slice \<open>n\<close> of the labels by the slice \<open>n\<close> of the
  field.
\<close>

theorem warped_atlases_prob_per_scale:
  "(0 < n_atlas self \<longrightarrow> (\<exists>ps. get_warped_atlases_prob self label d m ek = Inr ps))
   \<and> (\<forall>ps. get_warped_atlases_prob self label d m ek = Inr ps \<longrightarrow>
        length ps = length (prob_sigma self)
        \<and> (\<forall>idx < length (prob_sigma self).
             0 < n_atlas self
             \<and> ps ! idx =
                 TfStack (- 2)
                   (map (\<lambda>n. Helper ''SpatialTransformer'' [SStr m]
                                [Helper ''utils_2d.get_prob_from_label''
                                   [SReal (prob_sigma self ! idx),
                                    SReal (case ek of None \<Rightarrow> prob_eps self | Some e \<Rightarrow> e)]
                                   [Unary (GetItem n) label],
                                 Unary (GetItem n) d])
                      [0..<n_atlas self])
             \<and> (\<forall>s fd L D sh c.
                   eval s fd label = Inr L \<and> eval s fd d = Inr D
                   \<and> has_shape (sh @ [n_atlas self, c]) L
                   \<and> has_shape (sh @ [n_atlas self, 2]) D
                   \<and> list_all (\<lambda>k. 0 < k) sh \<and> 0 < c
                   \<and> (\<forall>st x sh'. has_shape sh' x \<longrightarrow>
                         (\<exists>u. ext s ''utils_2d.get_prob_from_label'' st [x] = Inr u
                              \<and> has_shape sh' u))
                   \<and> (\<forall>st x y sh'. has_shape sh' x \<longrightarrow>
                         (\<exists>u. ext s ''SpatialTransformer'' st [x, y] = Inr u
                              \<and> has_shape sh' u))
                 \<longrightarrow> (\<exists>T. eval s fd (ps ! idx) = Inr T
                        \<and> has_shape (sh @ [n_atlas self, c]) T
                        \<and> (\<forall>n < n_atlas self. \<exists>Ln Dn Pn.
                              get_item n L = Inr Ln \<and> get_item n D = Inr Dn
                              \<and> ext s ''utils_2d.get_prob_from_label''
                                   [SReal (prob_sigma self ! idx),
                                    SReal (case ek of None \<Rightarrow> prob_eps self | Some e \<Rightarrow> e)]
                                   [Ln]
                                 = Inr Pn
                              \<and> get_item n T
                                 = ext s ''SpatialTransformer'' [SStr m] [Pn, Dn])))))"
proof (intro conjI impI allI)
  assume "0 < n_atlas self"
  then show "\<exists>ps. get_warped_atlases_prob self label d m ek = Inr ps"
    by (simp add: get_warped_atlases_prob_explicit)
next
  fix ps
  assume ps: "get_warped_atlases_prob self label d m ek = Inr ps"
  let ?node = "\<lambda>idx. TfStack (- 2)
                   (map (\<lambda>n. Helper ''SpatialTransformer'' [SStr m]
                                [Helper ''utils_2d.get_prob_from_label''
                                   [SReal (prob_sigma self ! idx),
                                    SReal (case ek of None \<Rightarrow> prob_eps self | Some e \<Rightarrow> e)]
                                   [Unary (GetItem n) label],
                                 Unary (GetItem n) d])
                      [0..<n_atlas self])"
  show len: "length ps = length (prob_sigma self)"
  proof (cases "0 < n_atlas self")
    case True
    then have "ps = map ?node [0..<length (prob_sigma self)]"
      using ps get_warped_atlases_prob_explicit [OF True, of label d m ek] by simp
    then show ?thesis by simp
  next
    case False
    then have z: "n_atlas self = 0" by simp
    have "prob_sigma self = []"
      using get_warped_atlases_prob_fails [OF z, of label d m ek] ps by auto
    then show ?thesis using ps by (simp add: get_warped_atlases_prob_def)
  qed
  fix idx
  assume idx: "idx < length (prob_sigma self)"
  show a: "0 < n_atlas self"
  proof (rule ccontr)
    assume "\<not> 0 < n_atlas self"
    then have z: "n_atlas self = 0" by simp
    have "prob_sigma self \<noteq> []" using idx by auto
    then show False using get_warped_atlases_prob_fails [OF z, of label d m ek] ps by simp
  qed
  have "ps = map ?node [0..<length (prob_sigma self)]"
    using ps get_warped_atlases_prob_explicit [OF a, of label d m ek] by simp
  then show node: "ps ! idx = ?node idx" using idx by simp
  fix s fd L D sh c
  assume h: "eval s fd label = Inr L \<and> eval s fd d = Inr D
                   \<and> has_shape (sh @ [n_atlas self, c]) L
                   \<and> has_shape (sh @ [n_atlas self, 2]) D
                   \<and> list_all (\<lambda>k. 0 < k) sh \<and> 0 < c
                   \<and> (\<forall>st x sh'. has_shape sh' x \<longrightarrow>
                         (\<exists>u. ext s ''utils_2d.get_prob_from_label'' st [x] = Inr u
                              \<and> has_shape sh' u))
                   \<and> (\<forall>st x y sh'. has_shape sh' x \<longrightarrow>
                         (\<exists>u. ext s ''SpatialTransformer'' st [x, y] = Inr u
                              \<and> has_shape sh' u))"
  show "\<exists>T. eval s fd (ps ! idx) = Inr T
                        \<and> has_shape (sh @ [n_atlas self, c]) T
                        \<and> (\<forall>n < n_atlas self. \<exists>Ln Dn Pn.
                              get_item n L = Inr Ln \<and> get_item n D = Inr Dn
                              \<and> ext s ''utils_2d.get_prob_from_label''
                                   [SReal (prob_sigma self ! idx),
                                    SReal (case ek of None \<Rightarrow> prob_eps self | Some e \<Rightarrow> e)]
                                   [Ln]
                                 = Inr Pn
                              \<and> get_item n T
                                 = ext s ''SpatialTransformer'' [SStr m] [Pn, Dn])"
    unfolding node
    by (rule eval_warped_stack [where sh = sh and c = c]) (use h a in simp_all)
qed

text \<open>
  The theorem of C9 at the wide example, with two atlases, two classes and an image of
  two pixels: the entry of the first scale has the shape \<open>[1, 1, 2, 2, 2]\<close>, and its
  slices are the label maps of the two atlases, as the helpers of the example session
  return their first argument.
\<close>

theorem warped_atlases_prob_per_scale_witness:
  "0 < n_atlas example_wide_net
   \<and> (\<exists>ps T. get_warped_atlases_prob example_wide_net (augmented_data ''atlases_label'')
                (ddf example_wide_net) ''linear'' None = Inr ps
         \<and> length ps = length (prob_sigma example_wide_net) \<and> 0 < length ps
         \<and> eval example_wide_session example_wide_feed (ps ! 0) = Inr T
         \<and> has_shape [1, 1, 2, 2, 2] T
         \<and> get_item 0 T = Inr (Tn [Tn [Tn [Tn [Sc 1, Sc 0], Tn [Sc 0, Sc 1]]]])
         \<and> get_item 1 T = Inr (Tn [Tn [Tn [Tn [Sc 0, Sc 1], Tn [Sc 1, Sc 0]]]]))"
proof -
  note A = score_example_attributes [OF example_wide_net_built]
  let ?L = "Tn [Tn [Tn [Tn [Tn [Sc 1, Sc 0], Tn [Sc 0, Sc 1]],
                        Tn [Tn [Sc 0, Sc 1], Tn [Sc 1, Sc 0]]]]]"
  have a: "0 < n_atlas example_wide_net" by (simp add: A(4))
  have i: "0 < length (prob_sigma example_wide_net)" using A(7) by simp
  note T = warped_atlases_prob_per_scale [of example_wide_net "augmented_data ''atlases_label''"
      "ddf example_wide_net" "''linear''" None]
  obtain ps where ps: "get_warped_atlases_prob example_wide_net (augmented_data ''atlases_label'')
                (ddf example_wide_net) ''linear'' None = Inr ps"
    using mp [OF conjunct1 [OF T] a] by blast
  note P = mp [OF spec [OF conjunct2 [OF T], of ps] ps]
  note len = conjunct1 [OF P]
  note I = mp [OF spec [OF conjunct2 [OF P], of 0] i]
  note V = spec [OF spec [OF spec [OF spec [OF spec [OF spec
      [OF conjunct2 [OF conjunct2 [OF I]], of example_wide_session], of example_wide_feed],
      of ?L], of example_wide_zero_ddf], of "[1, 1, 2]"], of 2]
  have h1: "\<forall>st x sh'. has_shape sh' x \<longrightarrow>
      (\<exists>u. ext example_wide_session ''utils_2d.get_prob_from_label'' st [x] = Inr u
           \<and> has_shape sh' u)"
    by (simp add: example_wide_session_ext example_wide_ext_simps)
  have h2: "\<forall>st x y sh'. has_shape sh' x \<longrightarrow>
      (\<exists>u. ext example_wide_session ''SpatialTransformer'' st [x, y] = Inr u
           \<and> has_shape sh' u)"
    by (simp add: example_wide_session_ext example_wide_ext_simps)
  have l: "eval example_wide_session example_wide_feed (augmented_data ''atlases_label'') = Inr ?L"
    by (rule eval_example_wide_augmented) (simp add: example_wide_feed_values)
  have s1: "has_shape ([1, 1, 2] @ [n_atlas example_wide_net, 2]) ?L"
    by (simp add: A(4))
  have s2: "has_shape ([1, 1, 2] @ [n_atlas example_wide_net, 2]) example_wide_zero_ddf"
    by (simp add: A(4) example_wide_zero_ddf_def)
  have hyp: "eval example_wide_session example_wide_feed (augmented_data ''atlases_label'') = Inr ?L
      \<and> eval example_wide_session example_wide_feed (ddf example_wide_net)
          = Inr example_wide_zero_ddf
      \<and> has_shape ([1, 1, 2] @ [n_atlas example_wide_net, 2]) ?L
      \<and> has_shape ([1, 1, 2] @ [n_atlas example_wide_net, 2]) example_wide_zero_ddf
      \<and> list_all (\<lambda>k. 0 < k) [1, 1, 2 :: nat] \<and> 0 < (2 :: nat)
      \<and> (\<forall>st x sh'. has_shape sh' x \<longrightarrow>
            (\<exists>u. ext example_wide_session ''utils_2d.get_prob_from_label'' st [x] = Inr u
                 \<and> has_shape sh' u))
      \<and> (\<forall>st x y sh'. has_shape sh' x \<longrightarrow>
            (\<exists>u. ext example_wide_session ''SpatialTransformer'' st [x, y] = Inr u
                 \<and> has_shape sh' u))"
    by (intro conjI) (rule l eval_example_wide_ddf s1 s2 h1 h2 | simp)+
  obtain T where ev: "eval example_wide_session example_wide_feed (ps ! 0) = Inr T"
    and shp: "has_shape ([1, 1, 2] @ [n_atlas example_wide_net, 2]) T"
    and sl: "\<forall>n < n_atlas example_wide_net. \<exists>Ln Dn Pn.
               get_item n ?L = Inr Ln \<and> get_item n example_wide_zero_ddf = Inr Dn
               \<and> ext example_wide_session ''utils_2d.get_prob_from_label''
                    [SReal (prob_sigma example_wide_net ! 0), SReal (prob_eps example_wide_net)]
                    [Ln] = Inr Pn
               \<and> get_item n T
                  = ext example_wide_session ''SpatialTransformer'' [SStr ''linear''] [Pn, Dn]"
    using mp [OF V hyp, unfolded option.case] by blast
  have g0: "get_item 0 T = Inr (Tn [Tn [Tn [Tn [Sc 1, Sc 0], Tn [Sc 0, Sc 1]]]])"
    using sl [rule_format, of 0]
    by (auto simp: A(4) example_wide_session_ext example_wide_ext_simps)
  have g1: "get_item 1 T = Inr (Tn [Tn [Tn [Tn [Sc 0, Sc 1], Tn [Sc 1, Sc 0]]]])"
    using sl [rule_format, of 1]
    by (auto simp: A(4) example_wide_session_ext example_wide_ext_simps)
  have shp': "has_shape [1, 1, 2, 2, 2] T" using shp by (simp add: A(4))
  have lp: "0 < length ps" using len i by simp
  have "\<exists>ps T. get_warped_atlases_prob example_wide_net (augmented_data ''atlases_label'')
                (ddf example_wide_net) ''linear'' None = Inr ps
         \<and> length ps = length (prob_sigma example_wide_net) \<and> 0 < length ps
         \<and> eval example_wide_session example_wide_feed (ps ! 0) = Inr T
         \<and> has_shape [1, 1, 2, 2, 2] T
         \<and> get_item 0 T = Inr (Tn [Tn [Tn [Tn [Sc 1, Sc 0], Tn [Sc 0, Sc 1]]]])
         \<and> get_item 1 T = Inr (Tn [Tn [Tn [Tn [Sc 0, Sc 1], Tn [Sc 1, Sc 0]]]])"
    by (intro exI [of _ ps] exI [of _ T] conjI) (rule ps len lp ev shp' g0 g1)+
  then show ?thesis using a by blast
qed

end
